theory Spec2Isabelle
  imports Main
begin

section \<open>The ckeygen command: data model\<close>

text \<open>
  The module \<^verbatim>\<open>twisted/conch/scripts/ckeygen.py\<close> drives three collaborators: the
  filesystem, the console (\<^verbatim>\<open>input\<close>, \<^verbatim>\<open>getpass.getpass\<close>, \<^verbatim>\<open>print\<close>) and the key
  library \<^verbatim>\<open>twisted.conch.ssh.keys\<close>. The filesystem and the console are an explicit
  state \<open>world\<close>; the key library and the platform are parameters.
\<close>

datatype FingerprintFormats = MD5_HEX | SHA256_BASE64

text \<open>The exceptions that the module raises, catches or lets through.\<close>

datatype exc =
    EncryptedKeyError string
  | BadKeyError string
  | BadFingerPrintFormat string
  | FileNotFoundError string
  | EOFError string
  | IndexError string
  | KeyError string
  | ValueError string
  | OtherError string

text \<open>
  How a call ends: it returns a value, it leaves through \<^verbatim>\<open>sys.exit\<close> (with the
  message, if any), or an exception propagates out of it.
\<close>

datatype 'a outcome = Return 'a | Exit "string option" | Raise exc

text \<open>
  A file is its bytes and its permission bits. \<open>files\<close> is the filesystem now,
  \<open>past\<close> the filesystems it went through before, the most recent first.
\<close>

record fnode =
  content :: string
  mode :: nat

type_synonym path = string
type_synonym filesystem = "path \<rightharpoonup> fnode"

datatype event = Print string | Input string | Getpass string

text \<open>
  A console channel is the sequence of lines that will be typed on it: \<open>None\<close>
  from the position where the input ends. It may have no end.
\<close>

type_synonym channel = "nat \<Rightarrow> string option"

record world =
  files :: filesystem
  past :: "filesystem list"
  stdin :: channel
  stdinPos :: nat
  tty :: channel
  ttyPos :: nat
  log :: "event list"

text \<open>
  The platform: \<^verbatim>\<open>platform.system() == "Windows"\<close>, \<^verbatim>\<open>os.path.expanduser\<close>,
  \<^verbatim>\<open>os.path.basename\<close>, \<^verbatim>\<open>getpass.getuser()\<close>, \<^verbatim>\<open>socket.gethostname()\<close>, and the
  permission bits that a newly created file gets from the process umask
  (\<open>tempMode\<close> for a file made by \<^verbatim>\<open>FilePath.create\<close>, \<open>openMode\<close> for one made by
  the builtin \<^verbatim>\<open>open\<close>); \<open>pyint\<close> is the builtin \<^verbatim>\<open>int\<close> on a string.
\<close>

record env =
  isWindows :: bool
  expanduser :: "string \<Rightarrow> string"
  basename :: "string \<Rightarrow> string"
  getuser :: string
  gethostname :: string
  tempMode :: nat
  openMode :: nat
  pyint :: "string \<Rightarrow> exc + int"

text \<open>
  The value of \<^verbatim>\<open>options["bits"]\<close>: \<^verbatim>\<open>None\<close>, the string of the command line, or the
  integer that a generator stores as the default.
\<close>

datatype bitsval = BNone | BStr string | BInt int

text \<open>
  The value of \<^verbatim>\<open>options["format"]\<close>: the string of the command line, or the constant
  that \<^verbatim>\<open>enumrepresentation\<close> stores in its place.
\<close>

datatype fmtval = FStr string | FEnum FingerprintFormats

record options =
  bits :: bitsval
  filename :: "string option"
  newpass :: "string option"
  pass :: "string option"
  format :: fmtval
  private_key_subtype :: "string option"
  no_passphrase :: bool

text \<open>
  The key library, over the type \<open>'k\<close> of key objects and \<open>'c\<close> of curves.
  \<open>toString k subtype passphrase comment\<close> is \<^verbatim>\<open>k.toString("openssh", ...)\<close> with the
  keyword arguments that the call gives; \<open>fromString data passphrase\<close> is
  \<^verbatim>\<open>Key.fromString\<close>; \<open>keyType\<close> is \<^verbatim>\<open>Key.type()\<close>; \<open>curveTable\<close> is \<^verbatim>\<open>keys._curveTable\<close>;
  the four generators are the calls into the cryptography library followed by
  \<^verbatim>\<open>keys.Key(keyPrimitive)\<close>.
\<close>

record ('k, 'c) keylib =
  fromString :: "string \<Rightarrow> string option \<Rightarrow> exc + 'k"
  toString :: "'k \<Rightarrow> string option \<Rightarrow> string option \<Rightarrow> string option \<Rightarrow> exc + string"
  keyType :: "'k \<Rightarrow> string"
  keySize :: "'k \<Rightarrow> int"
  fingerprint :: "'k \<Rightarrow> FingerprintFormats \<Rightarrow> string"
  public :: "'k \<Rightarrow> 'k"
  curveTable :: "string \<rightharpoonup> 'c"
  generateRSA :: "int \<Rightarrow> exc + 'k"
  generateDSA :: "int \<Rightarrow> exc + 'k"
  generateEC :: "'c \<Rightarrow> exc + 'k"
  generateEd25519 :: "exc + 'k"

section \<open>Console and filesystem primitives\<close>

definition truthy :: "string option \<Rightarrow> bool" where
  "truthy v = (case v of None \<Rightarrow> False | Some s \<Rightarrow> s \<noteq> [])"

definition print :: "string \<Rightarrow> world \<Rightarrow> world" where
  "print msg w = w\<lparr>log := log w @ [Print msg]\<rparr>"

text \<open>\<^verbatim>\<open>input(prompt)\<close>: shows the prompt, reads one line of \<open>stdin\<close>; at the end of the
  input it raises \<^verbatim>\<open>EOFError\<close>.\<close>

definition input :: "string \<Rightarrow> world \<Rightarrow> (exc + string) \<times> world" where
  "input prompt w =
     (let w1 = w\<lparr>log := log w @ [Input prompt]\<rparr> in
      case stdin w (stdinPos w) of
        None \<Rightarrow> (Inl (EOFError ''EOF when reading a line''), w1)
      | Some l \<Rightarrow> (Inr l, w1\<lparr>stdinPos := Suc (stdinPos w)\<rparr>))"

text \<open>\<^verbatim>\<open>getpass.getpass(prompt)\<close>: the same on the terminal, without echo.\<close>

definition getpass :: "string \<Rightarrow> world \<Rightarrow> (exc + string) \<times> world" where
  "getpass prompt w =
     (let w1 = w\<lparr>log := log w @ [Getpass prompt]\<rparr> in
      case tty w (ttyPos w) of
        None \<Rightarrow> (Inl (EOFError ''EOF when reading a line''), w1)
      | Some l \<Rightarrow> (Inr l, w1\<lparr>ttyPos := Suc (ttyPos w)\<rparr>))"

definition exists :: "path \<Rightarrow> world \<Rightarrow> bool" where
  "exists p w = (files w p \<noteq> None)"

text \<open>Every change of the filesystem keeps the filesystem before it in \<open>past\<close>.\<close>

definition commit :: "filesystem \<Rightarrow> world \<Rightarrow> world" where
  "commit fs w = w\<lparr>files := fs, past := files w # past w\<rparr>"

text \<open>
  Modelled from the spec: \<^verbatim>\<open>FilePath.setContent\<close> of \<^verbatim>\<open>twisted.python.filepath\<close>, which
  is not among the sources. The spec has the private key written and then restricted
  (``write then restrict'') and the public key written ``with default permissions'':
  the path gets the new bytes in a newly created file, whose permission bits are the
  default ones of the platform.
\<close>

definition setContent :: "env \<Rightarrow> path \<Rightarrow> string \<Rightarrow> world \<Rightarrow> world" where
  "setContent E p d w = commit ((files w)(p \<mapsto> \<lparr>content = d, mode = tempMode E\<rparr>)) w"

text \<open>
  Modelled from the spec: \<^verbatim>\<open>FilePath.chmod\<close> of \<^verbatim>\<open>twisted.python.filepath\<close>, not among
  the sources: it sets the permission bits of the file at the path (``permission bits
  restricting access to the owner only''), and fails when there is no such file.
  The permission bits are the low twelve bits of the mode given.
\<close>

definition chmod :: "path \<Rightarrow> nat \<Rightarrow> world \<Rightarrow> exc + world" where
  "chmod p m w =
     (case files w p of
        None \<Rightarrow> Inl (FileNotFoundError p)
      | Some f \<Rightarrow> Inr (commit ((files w)(p \<mapsto> f\<lparr>mode := m mod 4096\<rparr>)) w))"

text \<open>
  \<^verbatim>\<open>with open(filename, "wb") as fd: fd.write(data)\<close>: opening truncates the file, or
  creates it with the default permission bits; the write then stores the bytes.
\<close>

definition openWb :: "env \<Rightarrow> path \<Rightarrow> world \<Rightarrow> world" where
  "openWb E p w =
     (case files w p of
        None \<Rightarrow> commit ((files w)(p \<mapsto> \<lparr>content = [], mode = openMode E\<rparr>)) w
      | Some f \<Rightarrow> commit ((files w)(p \<mapsto> f\<lparr>content := []\<rparr>)) w)"

definition fdWrite :: "path \<Rightarrow> string \<Rightarrow> world \<Rightarrow> world" where
  "fdWrite p d w =
     (case files w p of
        None \<Rightarrow> w
      | Some f \<Rightarrow> commit ((files w)(p \<mapsto> f\<lparr>content := content f @ d\<rparr>)) w)"

text \<open>
  Modelled from the spec: \<^verbatim>\<open>Key.fromFile\<close> of \<^verbatim>\<open>twisted.conch.ssh.keys\<close>, not among the
  sources: ``read file to bytes'' (failing when the path does not exist), then
  ``deserialize(bytes, passphrase?)''.
\<close>

definition fromFile ::
  "('k, 'c) keylib \<Rightarrow> path \<Rightarrow> string option \<Rightarrow> world \<Rightarrow> exc + 'k" where
  "fromFile L p pw w =
     (case files w p of
        None \<Rightarrow> Inl (FileNotFoundError p)
      | Some f \<Rightarrow> fromString L (content f) pw)"

text \<open>
  The loop of \<^verbatim>\<open>changePassPhrase\<close> (lines 278 to 283) and of \<^verbatim>\<open>_saveKey\<close> (lines 372 to
  377), which differ in the first prompt only: \<^verbatim>\<open>while 1\<close>, read two entries, leave
  when they are equal. Not returning is the value \<open>None\<close>.
\<close>

partial_function (option) passphraseLoop ::
  "string \<Rightarrow> world \<Rightarrow> ((exc + string) \<times> world) option" where
  "passphraseLoop prompt w =
     (case getpass prompt w of
        (Inl e, w1) \<Rightarrow> Some (Inl e, w1)
      | (Inr p1, w1) \<Rightarrow>
         (case getpass ''Enter same passphrase again: '' w1 of
            (Inl e, w2) \<Rightarrow> Some (Inl e, w2)
          | (Inr p2, w2) \<Rightarrow>
              if p1 = p2 then Some (Inr p1, w2)
              else passphraseLoop prompt (print ''Passphrases do not match.  Try again.'' w2)))"

section \<open>Strings of Python\<close>

definition digit_char :: "nat \<Rightarrow> char" where
  "digit_char d = ''0123456789'' ! (d mod 10)"

function digits :: "nat \<Rightarrow> string" where
  "digits n = (if n < 10 then [digit_char n] else digits (n div 10) @ [digit_char (n mod 10)])"
  by pat_completeness auto
termination
  by (relation "measure (\<lambda>n. n)") auto

text \<open>\<^verbatim>\<open>str(i)\<close> on an integer.\<close>

definition str_int :: "int \<Rightarrow> string" where
  "str_int i = (if i < 0 then CHR ''-'' # digits (nat (- i)) else digits (nat i))"

text \<open>
  A character is a code point below 256. \<^verbatim>\<open>str.isspace\<close> holds of the ASCII white space,
  of the separators \<open>0x1C\<close> to \<open>0x1F\<close>, of the next line character \<open>0x85\<close> and of the
  no-break space \<open>0xA0\<close>; \<^verbatim>\<open>str.strip()\<close> removes these from both ends. \<^verbatim>\<open>str.lower()\<close> is
  modelled on the ASCII letters, the only characters that it can map to \<open>y\<close>.
\<close>

definition isspace :: "char \<Rightarrow> bool" where
  "isspace c =
     (c \<in> set [CHR 0x20, CHR 0x09, CHR 0x0A, CHR 0x0B, CHR 0x0C, CHR 0x0D,
                CHR 0x1C, CHR 0x1D, CHR 0x1E, CHR 0x1F, CHR 0x85, CHR 0xA0])"

definition strip :: "string \<Rightarrow> string" where
  "strip s = rev (dropWhile isspace (rev (dropWhile isspace s)))"

definition lower :: "char \<Rightarrow> char" where
  "lower c =
     (let n = (of_char c :: nat) in if 65 \<le> n \<and> n \<le> 90 then char_of (n + 32) else c)"

text \<open>\<^verbatim>\<open>repr\<close> of a string without quotes or backslashes in it.\<close>

definition repr :: "string \<Rightarrow> string" where
  "repr s = CHR 0x27 # s @ [CHR 0x27]"

text \<open>\<^verbatim>\<open>str(e)\<close> of an exception: its message (for a \<^verbatim>\<open>KeyError\<close>, the \<^verbatim>\<open>repr\<close> of the key).\<close>

fun excStr :: "exc \<Rightarrow> string" where
  "excStr (EncryptedKeyError m) = m"
| "excStr (BadKeyError m) = m"
| "excStr (BadFingerPrintFormat m) = m"
| "excStr (FileNotFoundError p) = ''[Errno 2] No such file or directory: '' @ repr p"
| "excStr (EOFError m) = m"
| "excStr (IndexError m) = m"
| "excStr (KeyError k) = repr k"
| "excStr (ValueError m) = m"
| "excStr (OtherError m) = m"

text \<open>\<^verbatim>\<open>str\<close> of the value of \<^verbatim>\<open>options["format"]\<close>; a constant of \<^verbatim>\<open>FingerprintFormats\<close>
  prints as \<^verbatim>\<open><FingerprintFormats=NAME>\<close>.\<close>

fun fmtStr :: "fmtval \<Rightarrow> string" where
  "fmtStr (FStr s) = s"
| "fmtStr (FEnum MD5_HEX) = ''<FingerprintFormats=MD5_HEX>''"
| "fmtStr (FEnum SHA256_BASE64) = ''<FingerprintFormats=SHA256_BASE64>''"

text \<open>\<^verbatim>\<open>not options["bits"]\<close>, \<^verbatim>\<open>int(options["bits"])\<close> and \<^verbatim>\<open>str(options["bits"])\<close>.\<close>

fun bitsFalsy :: "bitsval \<Rightarrow> bool" where
  "bitsFalsy BNone = True"
| "bitsFalsy (BStr s) = (s = [])"
| "bitsFalsy (BInt n) = (n = 0)"

fun bitsInt :: "env \<Rightarrow> bitsval \<Rightarrow> exc + int" where
  "bitsInt E BNone = Inl (OtherError ''TypeError'')"
| "bitsInt E (BStr s) = pyint E s"
| "bitsInt E (BInt n) = Inr n"

fun bitsStr :: "bitsval \<Rightarrow> string" where
  "bitsStr BNone = ''None''"
| "bitsStr (BStr s) = s"
| "bitsStr (BInt n) = str_int n"

section \<open>The functions of ckeygen.py\<close>

text \<open>Lines 115 to 125.\<close>

definition enumrepresentation :: "options \<Rightarrow> exc + options" where
  "enumrepresentation opts =
     (if format opts = FStr ''md5-hex'' then Inr (opts\<lparr>format := FEnum MD5_HEX\<rparr>)
      else if format opts = FStr ''sha256-base64'' then Inr (opts\<lparr>format := FEnum SHA256_BASE64\<rparr>)
      else Inl (BadFingerPrintFormat
                  (''Unsupported fingerprint format: '' @ fmtStr (format opts))))"

text \<open>
  Modelled from the spec: \<^verbatim>\<open>Key.fingerprint(format)\<close> of \<^verbatim>\<open>twisted.conch.ssh.keys\<close>, not
  among the sources: the fingerprint in the format of the constant given; any other
  value is an unsupported fingerprint format.
\<close>

definition keyFingerprint :: "('k, 'c) keylib \<Rightarrow> 'k \<Rightarrow> fmtval \<Rightarrow> exc + string" where
  "keyFingerprint L key f =
     (case f of
        FEnum c \<Rightarrow> Inr (fingerprint L key c)
      | FStr s \<Rightarrow> Inl (BadFingerPrintFormat (''Unsupported fingerprint format: '' @ s)))"

text \<open>Lines 190 to 205.\<close>

definition defaultPrivateKeySubtype :: "string \<Rightarrow> string" where
  "defaultPrivateKeySubtype kt = (if kt = ''Ed25519'' then ''v1'' else ''PEM'')"

text \<open>
  Lines 208 to 234, with \<^verbatim>\<open>inputCollector\<close> the builtin \<^verbatim>\<open>input\<close> (its default; the
  parameter is there for the tests). The path for Windows has a backslash
  (\<open>CHR 0x5C\<close>) as separator.
\<close>

definition getKeyOrDefault ::
  "env \<Rightarrow> options \<Rightarrow> string \<Rightarrow> world \<Rightarrow> (exc + string) \<times> world" where
  "getKeyOrDefault E opts keyTypeName w =
     (if truthy (filename opts) then (Inr (case filename opts of Some f \<Rightarrow> f | None \<Rightarrow> []), w)
      else
        let posix = expanduser E (''~/.ssh/id_'' @ keyTypeName);
            dflt = (if isWindows E
                    then expanduser E (''%HOMEPATH %'' @ [CHR 0x5C] @ ''.ssh'' @ [CHR 0x5C]
                                         @ ''id_'' @ keyTypeName)
                    else posix)
        in case input (''Enter file in which the key is ('' @ dflt @ ''): '') w of
             (Inl e, w1) \<Rightarrow> (Inl e, w1)
           | (Inr l, w1) \<Rightarrow> (Inr (if l \<noteq> [] then l else dflt), w1))"



text \<open>
  \<^verbatim>\<open>changePassPhrase\<close>, lines 258 to 306, in the steps of its text. Lines 260 to
  275: the key is loaded without a passphrase; when it is encrypted, with the
  passphrase of the options, asked for when the options have none.
\<close>

definition changePassPhrase_load ::
  "('k, 'c) keylib \<Rightarrow> path \<Rightarrow> options \<Rightarrow> world \<Rightarrow> ('k \<times> options) outcome \<times> world" where
  "changePassPhrase_load L fn opts w =
     (case fromFile L fn None w of
        Inr key \<Rightarrow> (Return (key, opts), w)
      | Inl (EncryptedKeyError m) \<Rightarrow>
          (case (if \<not> truthy (pass opts)
                 then (case getpass ''Enter old passphrase: '' w of
                         (Inl e, w1) \<Rightarrow> (Inl e, w1)
                       | (Inr p, w1) \<Rightarrow> (Inr (opts\<lparr>pass := Some p\<rparr>), w1))
                 else (Inr opts, w)) of
             (Inl e, w1) \<Rightarrow> (Raise e, w1)
           | (Inr opts1, w1) \<Rightarrow>
               (case fromFile L fn (pass opts1) w1 of
                  Inr key \<Rightarrow> (Return (key, opts1), w1)
                | Inl (BadKeyError m') \<Rightarrow>
                    (Exit (Some ''Could not change passphrase: old passphrase error''), w1)
                | Inl (EncryptedKeyError m') \<Rightarrow>
                    (Exit (Some (''Could not change passphrase: '' @ m')), w1)
                | Inl e \<Rightarrow> (Raise e, w1)))
      | Inl (BadKeyError m) \<Rightarrow> (Exit (Some (''Could not change passphrase: '' @ m)), w)
      | Inl (FileNotFoundError m) \<Rightarrow>
          (Exit (Some (fn @ '' could not be opened, please specify a file.'')), w)
      | Inl e \<Rightarrow> (Raise e, w))"

text \<open>Lines 277 to 284: the new passphrase of the options, or the one agreed on the terminal.\<close>

definition changePassPhrase_newpass ::
  "options \<Rightarrow> world \<Rightarrow> (options outcome \<times> world) option" where
  "changePassPhrase_newpass opts w =
     (if \<not> truthy (newpass opts)
      then (case passphraseLoop ''Enter new passphrase (empty for no passphrase): '' w of
              None \<Rightarrow> None
            | Some (Inl e, w1) \<Rightarrow> Some (Raise e, w1)
            | Some (Inr p1, w1) \<Rightarrow> Some (Return (opts\<lparr>newpass := Some p1\<rparr>), w1))
      else Some (Return opts, w))"

text \<open>Lines 286 to 306: the subtype, the new encoding, its verification, the write.\<close>

definition changePassPhrase_write ::
  "('k, 'c) keylib \<Rightarrow> env \<Rightarrow> path \<Rightarrow> 'k \<Rightarrow> options \<Rightarrow> world \<Rightarrow> options outcome \<times> world" where
  "changePassPhrase_write L E fn key opts w =
     (let opts1 = (if private_key_subtype opts = None
                   then opts\<lparr>private_key_subtype :=
                               Some (defaultPrivateKeySubtype (keyType L key))\<rparr>
                   else opts)
      in case toString L key (private_key_subtype opts1) (newpass opts1) None of
           Inl e \<Rightarrow> (Exit (Some (''Could not change passphrase: '' @ excStr e)), w)
         | Inr newkeydata \<Rightarrow>
             (case fromString L newkeydata (newpass opts1) of
                Inl (EncryptedKeyError m) \<Rightarrow>
                  (Exit (Some (''Could not change passphrase: '' @ m)), w)
              | Inl (BadKeyError m) \<Rightarrow>
                  (Exit (Some (''Could not change passphrase: '' @ m)), w)
              | Inl e \<Rightarrow> (Raise e, w)
              | Inr k' \<Rightarrow>
                  (Return opts1,
                   print ''Your identification has been saved with the new passphrase.''
                     (fdWrite fn newkeydata (openWb E fn w)))))"

text \<open>Lines 260 to 306 on the path \<open>fn\<close>, and the whole function: line 259, then these.\<close>

definition changePassPhrase_file ::
  "('k, 'c) keylib \<Rightarrow> env \<Rightarrow> options \<Rightarrow> path \<Rightarrow> world \<Rightarrow> (options outcome \<times> world) option"
  where
  "changePassPhrase_file L E opts fn w =
     (case changePassPhrase_load L fn opts w of
        (Exit m, w2) \<Rightarrow> Some (Exit m, w2)
      | (Raise e, w2) \<Rightarrow> Some (Raise e, w2)
      | (Return (key, opts2), w2) \<Rightarrow>
          (case changePassPhrase_newpass opts2 w2 of
             None \<Rightarrow> None
           | Some (Exit m, w3) \<Rightarrow> Some (Exit m, w3)
           | Some (Raise e, w3) \<Rightarrow> Some (Raise e, w3)
           | Some (Return opts3, w3) \<Rightarrow> Some (changePassPhrase_write L E fn key opts3 w3)))"

definition changePassPhrase ::
  "('k, 'c) keylib \<Rightarrow> env \<Rightarrow> options \<Rightarrow> world \<Rightarrow> (options outcome \<times> world) option" where
  "changePassPhrase L E opts w =
     (case getKeyOrDefault E opts ''rsa'' w of
        (Inl e, w1) \<Rightarrow> Some (Raise e, w1)
      | (Inr fn, w1) \<Rightarrow> changePassPhrase_file L E opts fn w1)"

text \<open>
  \<^verbatim>\<open>displayPublicKey\<close>, lines 309 to 320: the printing of the public key (lines 319 and
  320; \<^verbatim>\<open>.decode("ascii")\<close> fails on a byte that is not ASCII), the loading on a path
  (lines 311 to 318), and the whole function.
\<close>

definition displayPublicKey_show ::
  "('k, 'c) keylib \<Rightarrow> 'k \<Rightarrow> world \<Rightarrow> unit outcome \<times> world" where
  "displayPublicKey_show L key w =
     (case toString L (public L key) None None None of
        Inl e \<Rightarrow> (Raise e, w)
      | Inr d \<Rightarrow>
          if \<forall>c \<in> set d. (of_char c :: nat) < 128 then (Return (), print d w)
          else (Raise (ValueError ''UnicodeDecodeError''), w))"

definition displayPublicKey_file ::
  "('k, 'c) keylib \<Rightarrow> options \<Rightarrow> path \<Rightarrow> world \<Rightarrow> unit outcome \<times> world" where
  "displayPublicKey_file L opts fn w =
     (case fromFile L fn None w of
        Inr key \<Rightarrow> displayPublicKey_show L key w
      | Inl (FileNotFoundError m) \<Rightarrow>
          (Exit (Some (fn @ '' could not be opened, please specify a file.'')), w)
      | Inl (EncryptedKeyError m) \<Rightarrow>
          (case (if \<not> truthy (pass opts)
                 then (case getpass ''Enter passphrase: '' w of
                         (Inl e, w2) \<Rightarrow> (Inl e, w2)
                       | (Inr p, w2) \<Rightarrow> (Inr (Some p), w2))
                 else (Inr (pass opts), w)) of
             (Inl e, w2) \<Rightarrow> (Raise e, w2)
           | (Inr pw, w2) \<Rightarrow>
               (case fromFile L fn pw w2 of
                  Inr key \<Rightarrow> displayPublicKey_show L key w2
                | Inl e \<Rightarrow> (Raise e, w2)))
      | Inl e \<Rightarrow> (Raise e, w))"

definition displayPublicKey ::
  "('k, 'c) keylib \<Rightarrow> env \<Rightarrow> options \<Rightarrow> world \<Rightarrow> unit outcome \<times> world" where
  "displayPublicKey L E opts w =
     (case getKeyOrDefault E opts ''rsa'' w of
        (Inl e, w1) \<Rightarrow> (Raise e, w1)
      | (Inr fn, w1) \<Rightarrow> displayPublicKey_file L opts fn w1)"

text \<open>Lines 323 to 329.\<close>

definition inputSaveFile :: "string \<Rightarrow> world \<Rightarrow> (exc + string) \<times> world" where
  "inputSaveFile prompt w = input prompt w"

text \<open>
  \<^verbatim>\<open>_saveKey\<close>, lines 332 to 403, with \<^verbatim>\<open>inputCollector\<close> the builtin \<^verbatim>\<open>input\<close>, in the
  steps of its text. Line 352: the dictionary \<^verbatim>\<open>KeyTypeMapping\<close>.
\<close>

definition KeyTypeMapping :: "string \<rightharpoonup> string" where
  "KeyTypeMapping =
     map_of [(''EC'', ''ecdsa''), (''Ed25519'', ''ed25519''), (''RSA'', ''rsa''), (''DSA'', ''dsa'')]"

text \<open>Lines 354 to 361: the file name of the options, or the one asked for.\<close>

definition saveKey_filename ::
  "env \<Rightarrow> options \<Rightarrow> string \<Rightarrow> world \<Rightarrow> (exc + string) \<times> world" where
  "saveKey_filename E opts keyTypeName w =
     (if \<not> truthy (filename opts)
      then (case getKeyOrDefault E opts keyTypeName w of
              (Inl e, w1) \<Rightarrow> (Inl e, w1)
            | (Inr defaultPath, w1) \<Rightarrow>
                (case inputSaveFile
                        (''Enter file in which to save the key ('' @ defaultPath @ ''): '') w1 of
                   (Inl e, w2) \<Rightarrow> (Inl e, w2)
                 | (Inr newPath, w2) \<Rightarrow>
                     (Inr (if strip newPath \<noteq> [] then strip newPath else defaultPath), w2)))
      else (Inr (case filename opts of Some f \<Rightarrow> f | None \<Rightarrow> []), w))"

text \<open>Lines 363 to 367: an existing file is overwritten only after the answer says so.\<close>

definition saveKey_overwrite :: "path \<Rightarrow> world \<Rightarrow> unit outcome \<times> world" where
  "saveKey_overwrite fn w =
     (if exists fn w
      then (case input ''Overwrite (y/n)? '' (print (fn @ '' already exists.'') w) of
              (Inl e, w1) \<Rightarrow> (Raise e, w1)
            | (Inr yn, w1) \<Rightarrow>
                (case yn of
                   [] \<Rightarrow> (Raise (IndexError ''string index out of range''), w1)
                 | c # cs \<Rightarrow>
                     if lower c \<noteq> CHR ''y'' then (Exit None, w1) else (Return (), w1)))
      else (Return (), w))"

text \<open>Lines 369 to 378: no passphrase, the passphrase of the options, or the one agreed
  on the terminal.\<close>

definition saveKey_pass :: "options \<Rightarrow> world \<Rightarrow> (options outcome \<times> world) option" where
  "saveKey_pass opts w =
     (if no_passphrase opts then Some (Return (opts\<lparr>pass := Some []\<rparr>), w)
      else if \<not> truthy (pass opts)
      then (case passphraseLoop ''Enter passphrase (empty for no passphrase): '' w of
              None \<Rightarrow> None
            | Some (Inl e, w1) \<Rightarrow> Some (Raise e, w1)
            | Some (Inr p1, w1) \<Rightarrow> Some (Return (opts\<lparr>pass := Some p1\<rparr>), w1))
      else Some (Return opts, w))"

text \<open>
  Lines 380 to 403: the subtype, the private file and its mode \<^verbatim>\<open>0o100600\<close>, the public
  file, then the fingerprint format and the messages.
\<close>

definition saveKey_write ::
  "('k, 'c) keylib \<Rightarrow> env \<Rightarrow> 'k \<Rightarrow> path \<Rightarrow> options \<Rightarrow> world \<Rightarrow> options outcome \<times> world" where
  "saveKey_write L E key fn opts w =
     (let opts1 = (if private_key_subtype opts = None
                   then opts\<lparr>private_key_subtype :=
                               Some (defaultPrivateKeySubtype (keyType L key))\<rparr>
                   else opts);
          comment = getuser E @ ''@'' @ gethostname E
      in case toString L key (private_key_subtype opts1) (pass opts1) None of
           Inl e \<Rightarrow> (Raise e, w)
         | Inr priv \<Rightarrow>
             (let w1 = setContent E fn priv w in
              (case chmod fn 33152 w1 of
                 Inl e \<Rightarrow> (Raise e, w1)
               | Inr w2 \<Rightarrow>
                   (case toString L (public L key) None None (Some comment) of
                      Inl e \<Rightarrow> (Raise e, w2)
                    | Inr pub \<Rightarrow>
                        (let w3 = setContent E (fn @ ''.pub'') pub w2 in
                         (case enumrepresentation opts1 of
                            Inl e \<Rightarrow> (Raise e, w3)
                          | Inr opts2 \<Rightarrow>
                              (let w4 =
                                 print (''The key fingerprint in '' @ fmtStr (format opts2)
                                          @ '' is:'')
                                   (print (''Your public key has been saved in '' @ fn @ ''.pub'')
                                      (print (''Your identification has been saved in '' @ fn)
                                         w3))
                               in (case keyFingerprint L key (format opts2) of
                                     Inl e \<Rightarrow> (Raise e, w4)
                                   | Inr fp \<Rightarrow> (Return opts2, print fp w4)))))))))"

definition saveKey ::
  "('k, 'c) keylib \<Rightarrow> env \<Rightarrow> 'k \<Rightarrow> options \<Rightarrow> world \<Rightarrow> (options outcome \<times> world) option" where
  "saveKey L E key opts w =
     (case KeyTypeMapping (keyType L key) of
        None \<Rightarrow> Some (Raise (KeyError (keyType L key)), w)
      | Some keyTypeName \<Rightarrow>
          (case saveKey_filename E opts keyTypeName w of
             (Inl e, w1) \<Rightarrow> Some (Raise e, w1)
           | (Inr fn, w1) \<Rightarrow>
               (case saveKey_overwrite fn w1 of
                  (Exit m, w2) \<Rightarrow> Some (Exit m, w2)
                | (Raise e, w2) \<Rightarrow> Some (Raise e, w2)
                | (Return u, w2) \<Rightarrow>
                    (case saveKey_pass opts w2 of
                       None \<Rightarrow> None
                     | Some (Exit m, w3) \<Rightarrow> Some (Exit m, w3)
                     | Some (Raise e, w3) \<Rightarrow> Some (Raise e, w3)
                     | Some (Return opts3, w3) \<Rightarrow> Some (saveKey_write L E key fn opts3 w3)))))"

text \<open>Lines 135 to 187: the four generators. \<^verbatim>\<open>.encode("ascii")\<close> fails on a character that
  is not ASCII.\<close>

definition generateRSAkey ::
  "('k, 'c) keylib \<Rightarrow> env \<Rightarrow> options \<Rightarrow> world \<Rightarrow> (options outcome \<times> world) option" where
  "generateRSAkey L E opts w =
     (let opts1 = (if bitsFalsy (bits opts) then opts\<lparr>bits := BInt 2048\<rparr> else opts) in
      case bitsInt E (bits opts1) of
        Inl e \<Rightarrow> Some (Raise e, w)
      | Inr n \<Rightarrow>
          (case generateRSA L n of
             Inl e \<Rightarrow> Some (Raise e, w)
           | Inr key \<Rightarrow> saveKey L E key opts1 w))"

definition generateDSAkey ::
  "('k, 'c) keylib \<Rightarrow> env \<Rightarrow> options \<Rightarrow> world \<Rightarrow> (options outcome \<times> world) option" where
  "generateDSAkey L E opts w =
     (let opts1 = (if bitsFalsy (bits opts) then opts\<lparr>bits := BInt 1024\<rparr> else opts) in
      case bitsInt E (bits opts1) of
        Inl e \<Rightarrow> Some (Raise e, w)
      | Inr n \<Rightarrow>
          (case generateDSA L n of
             Inl e \<Rightarrow> Some (Raise e, w)
           | Inr key \<Rightarrow> saveKey L E key opts1 w))"

definition generateECDSAkey ::
  "('k, 'c) keylib \<Rightarrow> env \<Rightarrow> options \<Rightarrow> world \<Rightarrow> (options outcome \<times> world) option" where
  "generateECDSAkey L E opts w =
     (let opts1 = (if bitsFalsy (bits opts) then opts\<lparr>bits := BInt 256\<rparr> else opts);
          curve = ''ecdsa-sha2-nistp'' @ bitsStr (bits opts1)
      in if \<exists>c \<in> set (bitsStr (bits opts1)). 128 \<le> (of_char c :: nat)
         then Some (Raise (ValueError ''UnicodeEncodeError''), w)
         else (case curveTable L curve of
                 None \<Rightarrow> Some (Raise (KeyError curve), w)
               | Some c \<Rightarrow>
                   (case generateEC L c of
                      Inl e \<Rightarrow> Some (Raise e, w)
                    | Inr key \<Rightarrow> saveKey L E key opts1 w)))"

definition generateEd25519key ::
  "('k, 'c) keylib \<Rightarrow> env \<Rightarrow> options \<Rightarrow> world \<Rightarrow> (options outcome \<times> world) option" where
  "generateEd25519key L E opts w =
     (case generateEd25519 L of
        Inl e \<Rightarrow> Some (Raise e, w)
      | Inr key \<Rightarrow> saveKey L E key opts w)"

text \<open>
  Lines 32 to 44 with the decorators of lines 135, 151, 166 and 183: the dictionary
  \<^verbatim>\<open>supportedKeyTypes\<close>, from which \<^verbatim>\<open>run\<close> takes the generator (line 98).
\<close>

definition supportedKeyTypes ::
  "string \<rightharpoonup>
     (('k, 'c) keylib \<Rightarrow> env \<Rightarrow> options \<Rightarrow> world \<Rightarrow> (options outcome \<times> world) option)" where
  "supportedKeyTypes =
     map_of [(''rsa'', generateRSAkey), (''dsa'', generateDSAkey),
             (''ecdsa'', generateECDSAkey), (''ed25519'', generateEd25519key)]"

section \<open>Notions for the statements\<close>

text \<open>
  The generator of the type \<open>t\<close> gets the key \<open>key\<close> from the library on the options
  \<open>opts\<close>, and goes on to \<^verbatim>\<open>_saveKey\<close> with the options \<open>opts1\<close>: the same options, with the
  default bit size stored in them when they had none.
\<close>

definition keyMade ::
  "('k, 'c) keylib \<Rightarrow> env \<Rightarrow> string \<Rightarrow> options \<Rightarrow> 'k \<Rightarrow> options \<Rightarrow> bool" where
  "keyMade L E t opts key opts1 =
     ((t = ''rsa'' \<and>
       opts1 = (if bitsFalsy (bits opts) then opts\<lparr>bits := BInt 2048\<rparr> else opts) \<and>
       (case bitsInt E (bits opts1) of Inl e \<Rightarrow> False | Inr n \<Rightarrow> generateRSA L n = Inr key)) \<or>
      (t = ''dsa'' \<and>
       opts1 = (if bitsFalsy (bits opts) then opts\<lparr>bits := BInt 1024\<rparr> else opts) \<and>
       (case bitsInt E (bits opts1) of Inl e \<Rightarrow> False | Inr n \<Rightarrow> generateDSA L n = Inr key)) \<or>
      (t = ''ecdsa'' \<and>
       opts1 = (if bitsFalsy (bits opts) then opts\<lparr>bits := BInt 256\<rparr> else opts) \<and>
       list_all (\<lambda>c. (of_char c :: nat) < 128) (bitsStr (bits opts1)) \<and>
       (case curveTable L (''ecdsa-sha2-nistp'' @ bitsStr (bits opts1)) of
          None \<Rightarrow> False
        | Some c \<Rightarrow> generateEC L c = Inr key)) \<or>
      (t = ''ed25519'' \<and> opts1 = opts \<and> generateEd25519 L = Inr key))"

text \<open>How often the old passphrase has been asked for.\<close>

definition oldPassphrasePrompts :: "world \<Rightarrow> nat" where
  "oldPassphrasePrompts w =
     length (filter (\<lambda>e. e = Getpass ''Enter old passphrase: '') (log w))"

text \<open>
  The entries that the terminal still holds, counted from the next one, and the pairs
  that the rounds of the passphrase loop read: round \<open>k\<close> reads the entries \<open>2 * k\<close> and
  \<open>2 * k + 1\<close>.
\<close>

definition ttyEntry :: "world \<Rightarrow> nat \<Rightarrow> string option" where
  "ttyEntry w i = tty w (ttyPos w + i)"

definition pairDiffers :: "world \<Rightarrow> nat \<Rightarrow> bool" where
  "pairDiffers w k =
     (case ttyEntry w (2 * k) of
        None \<Rightarrow> False
      | Some a \<Rightarrow> (case ttyEntry w (2 * k + 1) of None \<Rightarrow> False | Some b \<Rightarrow> a \<noteq> b))"

definition pairAgrees :: "world \<Rightarrow> nat \<Rightarrow> string \<Rightarrow> bool" where
  "pairAgrees w k p = (ttyEntry w (2 * k) = Some p \<and> ttyEntry w (2 * k + 1) = Some p)"

text \<open>What one round that ends in a mismatch shows, and the world after \<open>k\<close> such rounds.\<close>

definition roundLog :: "string \<Rightarrow> event list" where
  "roundLog prompt =
     [Getpass prompt, Getpass ''Enter same passphrase again: '',
      Print ''Passphrases do not match.  Try again.'']"

definition afterRounds :: "string \<Rightarrow> nat \<Rightarrow> world \<Rightarrow> world" where
  "afterRounds prompt k w =
     w\<lparr>ttyPos := ttyPos w + 2 * k, log := log w @ concat (replicate k (roundLog prompt))\<rparr>"

text \<open>The world after \<open>k\<close> such rounds and one more whose entries agree.\<close>

definition accepted :: "string \<Rightarrow> nat \<Rightarrow> world \<Rightarrow> world" where
  "accepted prompt k w =
     w\<lparr>ttyPos := ttyPos w + 2 * k + 2,
       log := log w @ concat (replicate k (roundLog prompt))
                @ [Getpass prompt, Getpass ''Enter same passphrase again: '']\<rparr>"

text \<open>
  The world in which round \<open>k\<close> of the passphrase loop, after \<open>k\<close> rounds that ended in a
  mismatch, has found the end of the input at its first prompt, and at its second.
\<close>

definition eofAtFirst :: "string \<Rightarrow> nat \<Rightarrow> world \<Rightarrow> world" where
  "eofAtFirst prompt k w =
     w\<lparr>ttyPos := ttyPos w + 2 * k,
       log := log w @ concat (replicate k (roundLog prompt)) @ [Getpass prompt]\<rparr>"

definition eofAtSecond :: "string \<Rightarrow> nat \<Rightarrow> world \<Rightarrow> world" where
  "eofAtSecond prompt k w =
     w\<lparr>ttyPos := ttyPos w + 2 * k + 1,
       log := log w @ concat (replicate k (roundLog prompt))
                @ [Getpass prompt, Getpass ''Enter same passphrase again: '']\<rparr>"

text \<open>
  The subtype as the spec resolves it: the one the caller gives, else \<open>v1\<close> for an
  Ed25519 key and \<open>PEM\<close> for every other key.
\<close>

definition specSubtype :: "string option \<Rightarrow> string \<Rightarrow> string" where
  "specSubtype given kt =
     (case given of Some s \<Rightarrow> s | None \<Rightarrow> if kt = ''Ed25519'' then ''v1'' else ''PEM'')"

text \<open>The default path for a key type name on the platform.\<close>

definition defaultPath :: "env \<Rightarrow> string \<Rightarrow> string" where
  "defaultPath E keyTypeName =
     (if isWindows E
      then expanduser E (''%HOMEPATH %'' @ [CHR 0x5C] @ ''.ssh'' @ [CHR 0x5C] @ ''id_'' @ keyTypeName)
      else expanduser E (''~/.ssh/id_'' @ keyTypeName))"

text \<open>The world after one line has been read from \<open>stdin\<close> at a prompt.\<close>

definition asked :: "string \<Rightarrow> world \<Rightarrow> world" where
  "asked prompt w = w\<lparr>stdinPos := Suc (stdinPos w), log := log w @ [Input prompt]\<rparr>"

text \<open>The world after one line has been read from the terminal at a prompt.\<close>

definition prompted :: "string \<Rightarrow> world \<Rightarrow> world" where
  "prompted prompt w = w\<lparr>ttyPos := Suc (ttyPos w), log := log w @ [Getpass prompt]\<rparr>"

text \<open>
  The world after lines 385 to 393 (the private file with the bytes \<open>priv\<close>, then its
  mode), and after lines 385 to 397 (then the public file with the bytes \<open>pub\<close>).
\<close>

definition privateWritten :: "env \<Rightarrow> path \<Rightarrow> string \<Rightarrow> world \<Rightarrow> world" where
  "privateWritten E fn priv w =
     w\<lparr>files := (files w)(fn \<mapsto> \<lparr>content = priv, mode = 384\<rparr>),
       past := (files w)(fn \<mapsto> \<lparr>content = priv, mode = tempMode E\<rparr>) # files w # past w\<rparr>"

definition bothWritten :: "env \<Rightarrow> path \<Rightarrow> string \<Rightarrow> string \<Rightarrow> world \<Rightarrow> world" where
  "bothWritten E fn priv pub w =
     w\<lparr>files := (files w)(fn \<mapsto> \<lparr>content = priv, mode = 384\<rparr>,
                           fn @ ''.pub'' \<mapsto> \<lparr>content = pub, mode = tempMode E\<rparr>),
       past := (files w)(fn \<mapsto> \<lparr>content = priv, mode = 384\<rparr>)
               # (files w)(fn \<mapsto> \<lparr>content = priv, mode = tempMode E\<rparr>) # files w # past w\<rparr>"

text \<open>One of the four generators, on these options in the world \<open>w\<close>, ends with \<open>r\<close> in
  the world \<open>w'\<close>.\<close>

definition generated ::
  "('k, 'c) keylib \<Rightarrow> env \<Rightarrow> options \<Rightarrow> world \<Rightarrow> options outcome \<Rightarrow> world \<Rightarrow> bool" where
  "generated L E opts w r w' =
     (generateRSAkey L E opts w = Some (r, w') \<or> generateDSAkey L E opts w = Some (r, w') \<or>
      generateECDSAkey L E opts w = Some (r, w') \<or> generateEd25519key L E opts w = Some (r, w'))"

text \<open>No permission bit for the group or for others.\<close>

definition ownerOnly :: "nat \<Rightarrow> bool" where
  "ownerOnly m = (m mod 64 = 0)"

section \<open>A concrete library, platform and console\<close>

text \<open>
  A small key library to run the functions on: a key is its type (\<open>R\<close>, \<open>D\<close>, \<open>E\<close> or
  \<open>X\<close> for RSA, DSA, EC and Ed25519) and whether it is private. A private key is
  written as the type, the subtype (\<open>P\<close> or \<open>v\<close>) and the passphrase; a public key as
  the type, \<open>u\<close> and the comment.
\<close>

datatype toykey = ToyKey char bool

definition toyType :: "char \<Rightarrow> string" where
  "toyType t =
     (if t = CHR ''R'' then ''RSA'' else if t = CHR ''D'' then ''DSA''
      else if t = CHR ''E'' then ''EC'' else ''Ed25519'')"

definition toySize :: "char \<Rightarrow> int" where
  "toySize t = (if t = CHR ''R'' then 2048 else if t = CHR ''D'' then 1024 else 256)"

fun toyToString ::
  "toykey \<Rightarrow> string option \<Rightarrow> string option \<Rightarrow> string option \<Rightarrow> exc + string" where
  "toyToString (ToyKey t priv) st pw cm =
     (if priv then
        (if st = Some ''v1'' then Inr (t # CHR ''v'' # (case pw of None \<Rightarrow> [] | Some p \<Rightarrow> p))
         else if (st = Some ''PEM'' \<or> st = None) \<and> t \<noteq> CHR ''X''
         then Inr (t # CHR ''P'' # (case pw of None \<Rightarrow> [] | Some p \<Rightarrow> p))
         else Inl (ValueError ''unsupported subtype''))
      else Inr (t # CHR ''u'' # (case cm of None \<Rightarrow> [] | Some c \<Rightarrow> CHR '' '' # c)))"

fun toyFromString :: "string \<Rightarrow> string option \<Rightarrow> exc + toykey" where
  "toyFromString (t # s # rest) pw =
     (if t \<notin> set ''RDEX'' then Inl (BadKeyError ''unknown key type'')
      else if s = CHR ''u'' then Inr (ToyKey t False)
      else if s \<noteq> CHR ''P'' \<and> s \<noteq> CHR ''v'' then Inl (BadKeyError ''unknown subtype'')
      else if rest = [] then Inr (ToyKey t True)
      else (case pw of
              None \<Rightarrow> Inl (EncryptedKeyError ''Passphrase must be provided for an encrypted key'')
            | Some p \<Rightarrow>
                if p = rest then Inr (ToyKey t True) else Inl (BadKeyError ''wrong passphrase'')))"
| "toyFromString d pw = Inl (BadKeyError ''cannot guess the type'')"

definition toyKeys :: "(toykey, nat) keylib" where
  "toyKeys =
     \<lparr>fromString = toyFromString,
      toString = toyToString,
      keyType = (\<lambda>k. case k of ToyKey t priv \<Rightarrow> toyType t),
      keySize = (\<lambda>k. case k of ToyKey t priv \<Rightarrow> toySize t),
      fingerprint = (\<lambda>k f. case f of MD5_HEX \<Rightarrow> ''md5:toy'' | SHA256_BASE64 \<Rightarrow> ''SHA256:toy''),
      public = (\<lambda>k. case k of ToyKey t priv \<Rightarrow> ToyKey t False),
      curveTable = map_of [(''ecdsa-sha2-nistp256'', 256), (''ecdsa-sha2-nistp384'', 384),
                           (''ecdsa-sha2-nistp521'', 521)],
      generateRSA = (\<lambda>n. if n < 512 then Inl (ValueError ''key_size too small'')
                          else Inr (ToyKey (CHR ''R'') True)),
      generateDSA = (\<lambda>n. if n \<noteq> 1024 \<and> n \<noteq> 2048 \<and> n \<noteq> 3072
                          then Inl (ValueError ''bad key_size'')
                          else Inr (ToyKey (CHR ''D'') True)),
      generateEC = (\<lambda>c. Inr (ToyKey (CHR ''E'') True)),
      generateEd25519 = Inr (ToyKey (CHR ''X'') True)\<rparr>"


text \<open>A platform: the home directory is \<open>/home/alice\<close>, the umask is \<open>022\<close>.\<close>

definition toyInt :: "string \<Rightarrow> exc + int" where
  "toyInt s =
     (if s \<noteq> [] \<and> (\<forall>c \<in> set s. c \<in> set ''0123456789'')
      then Inr (foldl (\<lambda>a c. 10 * a + (of_char c - 48)) 0 s)
      else Inl (ValueError ''invalid literal for int()''))"

definition posixEnv :: env where
  "posixEnv =
     \<lparr>isWindows = False,
      expanduser = (\<lambda>p. case p of [] \<Rightarrow> [] | c # r \<Rightarrow> if c = CHR ''~'' then ''/home/alice'' @ r else p),
      basename = (\<lambda>p. rev (takeWhile (\<lambda>c. c \<noteq> CHR ''/'') (rev p))),
      getuser = ''alice'',
      gethostname = ''wonderland'',
      tempMode = 493,
      openMode = 420,
      pyint = toyInt\<rparr>"

definition windowsEnv :: env where
  "windowsEnv = posixEnv\<lparr>isWindows := True\<rparr>"

text \<open>A console that holds the lines given, and a world with the files given.\<close>

definition feed :: "string list \<Rightarrow> channel" where
  "feed ls = (\<lambda>n. if n < length ls then Some (ls ! n) else None)"

definition console :: "filesystem \<Rightarrow> string list \<Rightarrow> string list \<Rightarrow> world" where
  "console fs ins pws =
     \<lparr>files = fs, past = [], stdin = feed ins, stdinPos = 0, tty = feed pws, ttyPos = 0,
      log = []\<rparr>"

text \<open>A terminal without end: the entries are \<open>a\<close>, \<open>b\<close>, \<open>b\<close>, \<open>a\<close>, and so on again.\<close>

definition abba :: channel where
  "abba n = Some (if n mod 4 = 0 \<or> n mod 4 = 3 then ''a'' else ''b'')"

text \<open>The options as \<^verbatim>\<open>GeneralOptions\<close> (lines 53 to 75) sets them with no argument.\<close>

definition noOptions :: options where
  "noOptions =
     \<lparr>bits = BNone, filename = None, newpass = None, pass = None,
      format = FStr ''sha256-base64'', private_key_subtype = None, no_passphrase = False\<rparr>"

section \<open>The concrete library, platform and console, evaluated\<close>

lemma feed_simps:
  "feed ls n = (if n < length ls then Some (ls ! n) else None)"
  by (simp add: feed_def)

lemma posixEnv_simps:
  "isWindows posixEnv = False" "getuser posixEnv = ''alice''"
  "gethostname posixEnv = ''wonderland''" "tempMode posixEnv = 493" "openMode posixEnv = 420"
  by (simp_all add: posixEnv_def)

lemma console_simps:
  "files (console fs ins pws) = fs" "past (console fs ins pws) = []"
  "stdin (console fs ins pws) = feed ins" "stdinPos (console fs ins pws) = 0"
  "tty (console fs ins pws) = feed pws" "ttyPos (console fs ins pws) = 0"
  "log (console fs ins pws) = []"
  by (simp_all add: console_def)

lemma toyKeys_simps:
  "fromString toyKeys = toyFromString" "toString toyKeys = toyToString"
  "keyType toyKeys (ToyKey t priv) = toyType t" "keySize toyKeys (ToyKey t priv) = toySize t"
  "public toyKeys (ToyKey t priv) = ToyKey t False"
  "fingerprint toyKeys k MD5_HEX = ''md5:toy''"
  "fingerprint toyKeys k SHA256_BASE64 = ''SHA256:toy''"
  by (simp_all add: toyKeys_def)


lemma str_int_256: "str_int 256 = ''256''"
  by (simp add: str_int_def digit_char_def)


section \<open>The passphrase loop\<close>

text \<open>One round of the loop, by the pair of entries it reads.\<close>

lemma loop_differs:
  assumes "pairDiffers w 0"
  shows "passphraseLoop pr w = passphraseLoop pr (afterRounds pr 1 w)"
proof -
  from assms obtain a b where a: "tty w (ttyPos w) = Some a"
    and b: "tty w (Suc (ttyPos w)) = Some b" and ab: "a \<noteq> b"
    by (auto simp: pairDiffers_def ttyEntry_def split: option.splits)
  show ?thesis
    apply (subst passphraseLoop.simps)
    apply (simp add: getpass_def a b ab print_def afterRounds_def roundLog_def)
    done
qed

lemma loop_agrees:
  assumes "pairAgrees w 0 p"
  shows "passphraseLoop pr w =
     Some (Inr p, w\<lparr>ttyPos := ttyPos w + 2,
                     log := log w @ [Getpass pr, Getpass ''Enter same passphrase again: '']\<rparr>)"
proof -
  from assms have a: "tty w (ttyPos w) = Some p" and b: "tty w (Suc (ttyPos w)) = Some p"
    by (auto simp: pairAgrees_def ttyEntry_def)
  show ?thesis
    apply (subst passphraseLoop.simps)
    apply (simp add: getpass_def a b)
    done
qed

lemma loop_eof:
  assumes "\<not> pairDiffers w 0" and "\<forall>p. \<not> pairAgrees w 0 p"
  shows "\<exists>m w'. passphraseLoop pr w = Some (Inl (EOFError m), w') \<and> files w' = files w \<and> past w' = past w"
proof (cases "tty w (ttyPos w)")
  case None
  then show ?thesis
    by (subst passphraseLoop.simps) (simp add: getpass_def)
next
  case (Some a)
  with assms have "tty w (Suc (ttyPos w)) = None"
    by (cases "tty w (Suc (ttyPos w))") (auto simp: pairDiffers_def pairAgrees_def ttyEntry_def)
  with Some show ?thesis
    by (subst passphraseLoop.simps) (simp add: getpass_def)
qed

lemma afterRounds_Suc: "afterRounds pr 1 (afterRounds pr k w) = afterRounds pr (Suc k) w"
proof -
  have "replicate (Suc k) (roundLog pr) = replicate k (roundLog pr) @ [roundLog pr]"
    by (simp add: replicate_append_same)
  then have "concat (replicate (Suc k) (roundLog pr)) =
             concat (replicate k (roundLog pr)) @ roundLog pr"
    by (simp only: concat_append concat.simps append_Nil2)
  then show ?thesis by (simp add: afterRounds_def)
qed

lemma ttyEntry_afterRounds: "ttyEntry (afterRounds pr k w) i = ttyEntry w (2 * k + i)"
  by (simp add: ttyEntry_def afterRounds_def add.assoc)

lemma pairDiffers_afterRounds: "pairDiffers (afterRounds pr k w) j = pairDiffers w (k + j)"
proof -
  have "2 * k + 2 * j = 2 * (k + j)" and "2 * k + (2 * j + 1) = 2 * (k + j) + 1" by simp_all
  then show ?thesis by (simp only: pairDiffers_def ttyEntry_afterRounds)
qed

lemma pairAgrees_afterRounds: "pairAgrees (afterRounds pr k w) j p = pairAgrees w (k + j) p"
proof -
  have "2 * k + 2 * j = 2 * (k + j)" and "2 * k + (2 * j + 1) = 2 * (k + j) + 1" by simp_all
  then show ?thesis by (simp only: pairAgrees_def ttyEntry_afterRounds)
qed

lemma loop_rounds:
  "(\<forall>j<k. pairDiffers w j) \<Longrightarrow> passphraseLoop pr w = passphraseLoop pr (afterRounds pr k w)"
proof (induction k)
  case 0
  show ?case by (simp add: afterRounds_def)
next
  case (Suc k)
  then have "passphraseLoop pr w = passphraseLoop pr (afterRounds pr k w)" by simp
  also have "pairDiffers (afterRounds pr k w) 0"
    using Suc.prems by (simp add: pairDiffers_afterRounds)
  then have "passphraseLoop pr (afterRounds pr k w) =
             passphraseLoop pr (afterRounds pr 1 (afterRounds pr k w))"
    by (rule loop_differs)
  finally show ?case by (simp only: afterRounds_Suc)
qed

lemma loop_None: "(\<forall>k. pairDiffers w k) \<Longrightarrow> passphraseLoop pr w = None"
proof (rule ccontr)
  assume all: "\<forall>k. pairDiffers w k" and "passphraseLoop pr w \<noteq> None"
  then obtain y where "passphraseLoop pr w = Some y" by auto
  then have "\<exists>k. \<not> pairDiffers w k"
  proof (rule passphraseLoop.raw_induct [where P = "\<lambda>pr w y. \<exists>k. \<not> pairDiffers w k", rotated])
    fix f :: "string \<Rightarrow> world \<Rightarrow> ((exc + string) \<times> world) option" and pr w y
    assume 1: "\<And>pr w y. f pr w = Some y \<Longrightarrow> \<exists>k. \<not> pairDiffers w k"
      "(case getpass pr w of
          (Inl e, w1) \<Rightarrow> Some (Inl e, w1)
        | (Inr p1, w1) \<Rightarrow>
           (case getpass ''Enter same passphrase again: '' w1 of
              (Inl e, w2) \<Rightarrow> Some (Inl e, w2)
            | (Inr p2, w2) \<Rightarrow>
                if p1 = p2 then Some (Inr p1, w2)
                else f pr (print ''Passphrases do not match.  Try again.'' w2))) = Some y"
    show "\<exists>k. \<not> pairDiffers w k"
    proof (cases "pairDiffers w 0")
      case False
      then show ?thesis by blast
    next
      case True
      then obtain a b where a: "tty w (ttyPos w) = Some a"
        and b: "tty w (Suc (ttyPos w)) = Some b" and ab: "a \<noteq> b"
        by (auto simp: pairDiffers_def ttyEntry_def split: option.splits)
      from 1(2) have "f pr (afterRounds pr 1 w) = Some y"
        by (simp add: getpass_def a b ab print_def afterRounds_def roundLog_def)
      then obtain k where "\<not> pairDiffers (afterRounds pr 1 w) k" using 1(1) by blast
      then show ?thesis by (auto simp: pairDiffers_afterRounds)
    qed
  qed
  with all show False by blast
qed


lemma loop_accepted:
  assumes "\<forall>j<k. pairDiffers w j" and "pairAgrees w k p"
  shows "passphraseLoop pr w = Some (Inr p, accepted pr k w)"
proof -
  have "passphraseLoop pr w = passphraseLoop pr (afterRounds pr k w)"
    using assms(1) by (rule loop_rounds)
  also have "pairAgrees (afterRounds pr k w) 0 p"
    using assms(2) by (simp add: pairAgrees_afterRounds)
  then have "passphraseLoop pr (afterRounds pr k w) =
     Some (Inr p, (afterRounds pr k w)\<lparr>ttyPos := ttyPos (afterRounds pr k w) + 2,
        log := log (afterRounds pr k w) @ [Getpass pr, Getpass ''Enter same passphrase again: '']\<rparr>)"
    by (rule loop_agrees)
  also have "(afterRounds pr k w)\<lparr>ttyPos := ttyPos (afterRounds pr k w) + 2,
        log := log (afterRounds pr k w) @ [Getpass pr, Getpass ''Enter same passphrase again: '']\<rparr>
      = accepted pr k w"
    by (simp add: afterRounds_def accepted_def)
  finally show ?thesis .
qed

lemma first_round_that_ends:
  assumes "passphraseLoop pr w = Some y"
  obtains k where "\<forall>j<k. pairDiffers w j" and "\<not> pairDiffers w k"
proof -
  from assms have "\<exists>k. \<not> pairDiffers w k"
    using loop_None [of w pr] by auto
  then obtain k where k: "\<not> pairDiffers w k" ..
  define k0 where "k0 = (LEAST k. \<not> pairDiffers w k)"
  have "\<not> pairDiffers w k0" unfolding k0_def using k by (rule LeastI)
  moreover have "\<forall>j<k0. pairDiffers w j"
    unfolding k0_def using not_less_Least by blast
  ultimately show ?thesis using that by blast
qed

lemma loop_result:
  assumes "passphraseLoop pr w = Some (r, w')"
  shows "\<exists>k. (\<forall>j<k. pairDiffers w j) \<and>
           ((\<exists>p. pairAgrees w k p \<and> r = Inr p \<and> w' = accepted pr k w) \<or>
            ((\<exists>m. r = Inl (EOFError m)) \<and> files w' = files w \<and> past w' = past w))"
proof -
  from assms obtain k where k: "\<forall>j<k. pairDiffers w j" and nk: "\<not> pairDiffers w k"
    by (rule first_round_that_ends)
  show ?thesis
  proof (cases "\<exists>p. pairAgrees w k p")
    case True
    then obtain p where p: "pairAgrees w k p" ..
    from loop_accepted [OF k p, of pr] assms have "r = Inr p" "w' = accepted pr k w" by simp_all
    with k p show ?thesis by blast
  next
    case False
    have eq: "passphraseLoop pr w = passphraseLoop pr (afterRounds pr k w)"
      using k by (rule loop_rounds)
    have "\<not> pairDiffers (afterRounds pr k w) 0" "\<forall>p. \<not> pairAgrees (afterRounds pr k w) 0 p"
      using nk False by (simp_all add: pairDiffers_afterRounds pairAgrees_afterRounds)
    from loop_eof [OF this, of pr] obtain m w'' where
      "passphraseLoop pr (afterRounds pr k w) = Some (Inl (EOFError m), w'')"
      "files w'' = files (afterRounds pr k w)" "past w'' = past (afterRounds pr k w)" by blast
    with eq assms have "r = Inl (EOFError m)" "files w' = files w" "past w' = past w"
      by (simp_all add: afterRounds_def)
    with k show ?thesis by blast
  qed
qed

lemma loop_frame:
  assumes "passphraseLoop pr w = Some (r, w')"
  shows "files w' = files w \<and> past w' = past w"
  using loop_result [OF assms] by (auto simp: accepted_def)

lemma loop_None_iff: "passphraseLoop pr w = None \<longleftrightarrow> (\<forall>k. pairDiffers w k)"
proof
  assume "passphraseLoop pr w = None"
  show "\<forall>k. pairDiffers w k"
  proof (rule ccontr)
    assume "\<not> (\<forall>k. pairDiffers w k)"
    then obtain k where k: "\<not> pairDiffers w k" by blast
    define k0 where "k0 = (LEAST k. \<not> pairDiffers w k)"
    have nk: "\<not> pairDiffers w k0" unfolding k0_def using k by (rule LeastI)
    have lt: "\<forall>j<k0. pairDiffers w j" unfolding k0_def using not_less_Least by blast
    have eq: "passphraseLoop pr w = passphraseLoop pr (afterRounds pr k0 w)"
      using lt by (rule loop_rounds)
    show False
    proof (cases "\<exists>p. pairAgrees w k0 p")
      case True
      then obtain p where "pairAgrees w k0 p" ..
      from loop_accepted [OF lt this, of pr] \<open>passphraseLoop pr w = None\<close> show False by simp
    next
      case False
      have "\<not> pairDiffers (afterRounds pr k0 w) 0" "\<forall>p. \<not> pairAgrees (afterRounds pr k0 w) 0 p"
        using nk False by (simp_all add: pairDiffers_afterRounds pairAgrees_afterRounds)
      from loop_eof [OF this, of pr] eq \<open>passphraseLoop pr w = None\<close> show False by auto
    qed
  qed
next
  assume "\<forall>k. pairDiffers w k"
  then show "passphraseLoop pr w = None" by (rule loop_None)
qed


lemma loop_accept_iff:
  "(\<exists>w'. passphraseLoop pr w = Some (Inr p, w')) \<longleftrightarrow>
   (\<exists>k. (\<forall>j<k. pairDiffers w j) \<and> pairAgrees w k p)"
proof
  assume "\<exists>w'. passphraseLoop pr w = Some (Inr p, w')"
  then obtain w' where "passphraseLoop pr w = Some (Inr p, w')" ..
  from loop_result [OF this] show "\<exists>k. (\<forall>j<k. pairDiffers w j) \<and> pairAgrees w k p"
    by auto
next
  assume "\<exists>k. (\<forall>j<k. pairDiffers w j) \<and> pairAgrees w k p"
  then obtain k where "\<forall>j<k. pairDiffers w j" "pairAgrees w k p" by blast
  from loop_accepted [OF this] show "\<exists>w'. passphraseLoop pr w = Some (Inr p, w')" by blast
qed

lemma pass_update_inject: "o1\<lparr>pass := Some p\<rparr> = o1\<lparr>pass := Some q\<rparr> \<Longrightarrow> p = q"
  by (drule arg_cong [where f = pass]) simp

lemma newpass_update_inject: "o1\<lparr>newpass := Some p\<rparr> = o1\<lparr>newpass := Some q\<rparr> \<Longrightarrow> p = q"
  by (drule arg_cong [where f = newpass]) simp

lemma saveKey_pass_loop:
  assumes "\<not> no_passphrase o1" and "\<not> truthy (pass o1)"
  shows "saveKey_pass o1 w =
     (case passphraseLoop ''Enter passphrase (empty for no passphrase): '' w of
        None \<Rightarrow> None
      | Some (Inl e, w1) \<Rightarrow> Some (Raise e, w1)
      | Some (Inr p1, w1) \<Rightarrow> Some (Return (o1\<lparr>pass := Some p1\<rparr>), w1))"
  using assms by (simp add: saveKey_pass_def)

lemma changePassPhrase_newpass_loop:
  assumes "\<not> truthy (newpass o2)"
  shows "changePassPhrase_newpass o2 w =
     (case passphraseLoop ''Enter new passphrase (empty for no passphrase): '' w of
        None \<Rightarrow> None
      | Some (Inl e, w1) \<Rightarrow> Some (Raise e, w1)
      | Some (Inr p1, w1) \<Rightarrow> Some (Return (o2\<lparr>newpass := Some p1\<rparr>), w1))"
  using assms by (simp add: changePassPhrase_newpass_def)

lemma loop_eof_first:
  assumes "ttyEntry w 0 = None"
  shows "passphraseLoop pr w =
           Some (Inl (EOFError ''EOF when reading a line''), w\<lparr>log := log w @ [Getpass pr]\<rparr>)"
proof -
  from assms have "tty w (ttyPos w) = None" by (simp add: ttyEntry_def)
  then show ?thesis by (subst passphraseLoop.simps) (simp add: getpass_def)
qed

lemma loop_eof_second:
  assumes "ttyEntry w 0 = Some a" and "ttyEntry w 1 = None"
  shows "passphraseLoop pr w =
           Some (Inl (EOFError ''EOF when reading a line''),
                 w\<lparr>ttyPos := Suc (ttyPos w),
                   log := log w @ [Getpass pr, Getpass ''Enter same passphrase again: '']\<rparr>)"
proof -
  from assms have "tty w (ttyPos w) = Some a" "tty w (Suc (ttyPos w)) = None"
    by (simp_all add: ttyEntry_def)
  then show ?thesis by (subst passphraseLoop.simps) (simp add: getpass_def)
qed

lemma loop_ends_at_first:
  assumes "\<forall>j<k. pairDiffers w j" and "ttyEntry w (2 * k) = None"
  shows "passphraseLoop pr w =
           Some (Inl (EOFError ''EOF when reading a line''), eofAtFirst pr k w)"
proof -
  have "passphraseLoop pr w = passphraseLoop pr (afterRounds pr k w)"
    using assms(1) by (rule loop_rounds)
  also have "ttyEntry (afterRounds pr k w) 0 = None"
    using assms(2) by (simp add: ttyEntry_afterRounds)
  then have "passphraseLoop pr (afterRounds pr k w) =
      Some (Inl (EOFError ''EOF when reading a line''),
            (afterRounds pr k w)\<lparr>log := log (afterRounds pr k w) @ [Getpass pr]\<rparr>)"
    by (rule loop_eof_first)
  also have "(afterRounds pr k w)\<lparr>log := log (afterRounds pr k w) @ [Getpass pr]\<rparr> =
             eofAtFirst pr k w"
    by (simp add: afterRounds_def eofAtFirst_def)
  finally show ?thesis .
qed

lemma loop_ends_at_second:
  assumes "\<forall>j<k. pairDiffers w j" and "ttyEntry w (2 * k) = Some a"
    and "ttyEntry w (2 * k + 1) = None"
  shows "passphraseLoop pr w =
           Some (Inl (EOFError ''EOF when reading a line''), eofAtSecond pr k w)"
proof -
  have "passphraseLoop pr w = passphraseLoop pr (afterRounds pr k w)"
    using assms(1) by (rule loop_rounds)
  also have "ttyEntry (afterRounds pr k w) 0 = Some a" "ttyEntry (afterRounds pr k w) 1 = None"
    using assms(2,3) by (simp_all add: ttyEntry_afterRounds)
  then have "passphraseLoop pr (afterRounds pr k w) =
      Some (Inl (EOFError ''EOF when reading a line''),
            (afterRounds pr k w)\<lparr>ttyPos := Suc (ttyPos (afterRounds pr k w)),
               log := log (afterRounds pr k w)
                        @ [Getpass pr, Getpass ''Enter same passphrase again: '']\<rparr>)"
    by (rule loop_eof_second)
  also have "(afterRounds pr k w)\<lparr>ttyPos := Suc (ttyPos (afterRounds pr k w)),
               log := log (afterRounds pr k w)
                        @ [Getpass pr, Getpass ''Enter same passphrase again: '']\<rparr> =
             eofAtSecond pr k w"
    by (simp add: afterRounds_def eofAtSecond_def)
  finally show ?thesis .
qed

text \<open>
  Claim C6, as amended. In \<^verbatim>\<open>_saveKey\<close> (when neither \<^verbatim>\<open>no-passphrase\<close> nor a passphrase is
  given) and in the new-passphrase step of \<^verbatim>\<open>changePassPhrase\<close> (when no new passphrase is
  given), the passphrase \<open>p\<close> is accepted exactly when some round \<open>k\<close> reads two equal
  entries \<open>p\<close> (the entries \<open>2 * k\<close> and \<open>2 * k + 1\<close> of the terminal) after \<open>k\<close> rounds that
  each read two different entries; then the loop has asked again after every one of the
  \<open>k\<close> mismatches, for any \<open>k\<close>, and the accepted passphrase is the agreed entry, the
  empty one included. When, after \<open>k\<close> such rounds, the input ends at the first or at
  the second prompt of round \<open>k\<close>, the step ends with \<^verbatim>\<open>EOFError\<close> at that prompt. The step
  does not return exactly when every round reads two different entries.
\<close>

theorem passphrase_loop_ends_on_agreeing_round_or_end_of_input:
  assumes "\<not> no_passphrase o1" and "\<not> truthy (pass o1)" and "\<not> truthy (newpass o2)"
  shows
    "((\<exists>w'. saveKey_pass o1 w = Some (Return (o1\<lparr>pass := Some p\<rparr>), w')) \<longleftrightarrow>
        (\<exists>k. (\<forall>j<k. pairDiffers w j) \<and> pairAgrees w k p)) \<and>
     ((\<forall>j<k. pairDiffers w j) \<and> pairAgrees w k p \<longrightarrow>
        saveKey_pass o1 w =
          Some (Return (o1\<lparr>pass := Some p\<rparr>),
                accepted ''Enter passphrase (empty for no passphrase): '' k w)) \<and>
     ((\<forall>j<k. pairDiffers w j) \<and> ttyEntry w (2 * k) = None \<longrightarrow>
        saveKey_pass o1 w =
          Some (Raise (EOFError ''EOF when reading a line''),
                eofAtFirst ''Enter passphrase (empty for no passphrase): '' k w)) \<and>
     ((\<forall>j<k. pairDiffers w j) \<and> ttyEntry w (2 * k) = Some a \<and> ttyEntry w (2 * k + 1) = None \<longrightarrow>
        saveKey_pass o1 w =
          Some (Raise (EOFError ''EOF when reading a line''),
                eofAtSecond ''Enter passphrase (empty for no passphrase): '' k w)) \<and>
     (saveKey_pass o1 w = None \<longleftrightarrow> (\<forall>k. pairDiffers w k)) \<and>
     ((\<exists>w'. changePassPhrase_newpass o2 w = Some (Return (o2\<lparr>newpass := Some p\<rparr>), w')) \<longleftrightarrow>
        (\<exists>k. (\<forall>j<k. pairDiffers w j) \<and> pairAgrees w k p)) \<and>
     ((\<forall>j<k. pairDiffers w j) \<and> pairAgrees w k p \<longrightarrow>
        changePassPhrase_newpass o2 w =
          Some (Return (o2\<lparr>newpass := Some p\<rparr>),
                accepted ''Enter new passphrase (empty for no passphrase): '' k w)) \<and>
     ((\<forall>j<k. pairDiffers w j) \<and> ttyEntry w (2 * k) = None \<longrightarrow>
        changePassPhrase_newpass o2 w =
          Some (Raise (EOFError ''EOF when reading a line''),
                eofAtFirst ''Enter new passphrase (empty for no passphrase): '' k w)) \<and>
     ((\<forall>j<k. pairDiffers w j) \<and> ttyEntry w (2 * k) = Some a \<and> ttyEntry w (2 * k + 1) = None \<longrightarrow>
        changePassPhrase_newpass o2 w =
          Some (Raise (EOFError ''EOF when reading a line''),
                eofAtSecond ''Enter new passphrase (empty for no passphrase): '' k w)) \<and>
     (changePassPhrase_newpass o2 w = None \<longleftrightarrow> (\<forall>k. pairDiffers w k))"
proof -
  let ?s = "''Enter passphrase (empty for no passphrase): ''"
  let ?c = "''Enter new passphrase (empty for no passphrase): ''"
  note s = saveKey_pass_loop [OF assms(1,2)]
  note c = changePassPhrase_newpass_loop [OF assms(3)]
  have s1: "(\<exists>w'. saveKey_pass o1 w = Some (Return (o1\<lparr>pass := Some p\<rparr>), w')) \<longleftrightarrow>
            (\<exists>w'. passphraseLoop ?s w = Some (Inr p, w'))"
    unfolding s by (auto split: option.splits sum.splits dest: pass_update_inject)
  have c1: "(\<exists>w'. changePassPhrase_newpass o2 w = Some (Return (o2\<lparr>newpass := Some p\<rparr>), w')) \<longleftrightarrow>
            (\<exists>w'. passphraseLoop ?c w = Some (Inr p, w'))"
    unfolding c by (auto split: option.splits sum.splits dest: newpass_update_inject)
  have s2: "saveKey_pass o1 w = None \<longleftrightarrow> passphraseLoop ?s w = None"
    unfolding s by (auto split: option.splits sum.splits)
  have c2: "changePassPhrase_newpass o2 w = None \<longleftrightarrow> passphraseLoop ?c w = None"
    unfolding c by (auto split: option.splits sum.splits)
  have s3: "(\<forall>j<k. pairDiffers w j) \<and> pairAgrees w k p \<longrightarrow>
        saveKey_pass o1 w = Some (Return (o1\<lparr>pass := Some p\<rparr>), accepted ?s k w)"
    unfolding s by (auto simp: loop_accepted)
  have c3: "(\<forall>j<k. pairDiffers w j) \<and> pairAgrees w k p \<longrightarrow>
        changePassPhrase_newpass o2 w = Some (Return (o2\<lparr>newpass := Some p\<rparr>), accepted ?c k w)"
    unfolding c by (auto simp: loop_accepted)
  have s4: "(\<forall>j<k. pairDiffers w j) \<and> ttyEntry w (2 * k) = None \<longrightarrow>
        saveKey_pass o1 w = Some (Raise (EOFError ''EOF when reading a line''), eofAtFirst ?s k w)"
    unfolding s by (auto simp: loop_ends_at_first)
  have c4: "(\<forall>j<k. pairDiffers w j) \<and> ttyEntry w (2 * k) = None \<longrightarrow>
        changePassPhrase_newpass o2 w =
          Some (Raise (EOFError ''EOF when reading a line''), eofAtFirst ?c k w)"
    unfolding c by (auto simp: loop_ends_at_first)
  have s5: "(\<forall>j<k. pairDiffers w j) \<and> ttyEntry w (2 * k) = Some a \<and> ttyEntry w (2 * k + 1) = None
        \<longrightarrow> saveKey_pass o1 w =
          Some (Raise (EOFError ''EOF when reading a line''), eofAtSecond ?s k w)"
    unfolding s using loop_ends_at_second [of k w a ?s] by auto
  have c5: "(\<forall>j<k. pairDiffers w j) \<and> ttyEntry w (2 * k) = Some a \<and> ttyEntry w (2 * k + 1) = None
        \<longrightarrow> changePassPhrase_newpass o2 w =
          Some (Raise (EOFError ''EOF when reading a line''), eofAtSecond ?c k w)"
    unfolding c using loop_ends_at_second [of k w a ?c] by auto
  show ?thesis
    unfolding s1 c1 s2 c2 loop_accept_iff loop_None_iff
    using s3 c3 s4 c4 s5 c5 by (intro conjI) (rule refl | assumption)+
qed

text \<open>
  One mismatch, then the empty passphrase twice: it is accepted in the second round.
  One mismatch, then the end of the input at the second prompt, and at the first.
\<close>

theorem passphrase_loop_ends_on_agreeing_round_or_end_of_input_witness:
  "saveKey_pass noOptions (console Map.empty [] [''a'', ''b'', [], []]) =
     Some (Return (noOptions\<lparr>pass := Some []\<rparr>),
           accepted ''Enter passphrase (empty for no passphrase): '' 1
             (console Map.empty [] [''a'', ''b'', [], []])) \<and>
   changePassPhrase_newpass noOptions (console Map.empty [] [''a'', ''b'', [], []]) =
     Some (Return (noOptions\<lparr>newpass := Some []\<rparr>),
           accepted ''Enter new passphrase (empty for no passphrase): '' 1
             (console Map.empty [] [''a'', ''b'', [], []])) \<and>
   saveKey_pass noOptions (console Map.empty [] [''a'', ''b'', ''c'']) =
     Some (Raise (EOFError ''EOF when reading a line''),
           eofAtSecond ''Enter passphrase (empty for no passphrase): '' 1
             (console Map.empty [] [''a'', ''b'', ''c''])) \<and>
   changePassPhrase_newpass noOptions (console Map.empty [] [''a'', ''b'']) =
     Some (Raise (EOFError ''EOF when reading a line''),
           eofAtFirst ''Enter new passphrase (empty for no passphrase): '' 1
             (console Map.empty [] [''a'', ''b'']))"
proof -
  let ?w = "console Map.empty [] [''a'', ''b'', [], []]"
  let ?v = "console Map.empty [] [''a'', ''b'', ''c'']"
  let ?u = "console Map.empty [] [''a'', ''b'']"
  have h: "\<not> no_passphrase noOptions" "\<not> truthy (pass noOptions)" "\<not> truthy (newpass noOptions)"
    by (simp_all add: noOptions_def truthy_def)
  have d: "\<forall>j<1. pairDiffers ?w j" "\<forall>j<1. pairDiffers ?v j" "\<forall>j<1. pairDiffers ?u j"
    by (simp_all add: pairDiffers_def ttyEntry_def console_def feed_def)
  have a: "pairAgrees ?w 1 []"
    by (simp add: pairAgrees_def ttyEntry_def console_def feed_def)
  have e: "ttyEntry ?v (2 * 1) = Some ''c''" "ttyEntry ?v (2 * 1 + 1) = None"
    "ttyEntry ?u (2 * 1) = None"
    by (simp_all add: ttyEntry_def console_def feed_def)
  note t = passphrase_loop_ends_on_agreeing_round_or_end_of_input [OF h]
  from t [where w = ?w and p = "[]" and k = 1] d(1) a
  have 1: "saveKey_pass noOptions ?w =
     Some (Return (noOptions\<lparr>pass := Some []\<rparr>),
           accepted ''Enter passphrase (empty for no passphrase): '' 1 ?w)"
    and 2: "changePassPhrase_newpass noOptions ?w =
     Some (Return (noOptions\<lparr>newpass := Some []\<rparr>),
           accepted ''Enter new passphrase (empty for no passphrase): '' 1 ?w)"
    by blast+
  from t [where w = ?v and k = 1 and a = "''c''"] d(2) e(1,2)
  have 3: "saveKey_pass noOptions ?v =
     Some (Raise (EOFError ''EOF when reading a line''),
           eofAtSecond ''Enter passphrase (empty for no passphrase): '' 1 ?v)"
    by blast
  from t [where w = ?u and k = 1] d(3) e(3)
  have 4: "changePassPhrase_newpass noOptions ?u =
     Some (Raise (EOFError ''EOF when reading a line''),
           eofAtFirst ''Enter new passphrase (empty for no passphrase): '' 1 ?u)"
    by blast
  from 1 2 3 4 show ?thesis by (intro conjI)
qed

lemma abba_differs: "tty w = abba \<Longrightarrow> ttyPos w = 0 \<Longrightarrow> pairDiffers w k"
proof -
  assume a: "tty w = abba" "ttyPos w = 0"
  have "(2 * k) mod 4 = 0 \<or> (2 * k) mod 4 = 2" by presburger
  then show ?thesis
  proof
    assume "(2 * k) mod 4 = 0"
    moreover from this have "(2 * k + 1) mod 4 = 1" by presburger
    ultimately show ?thesis by (simp add: pairDiffers_def ttyEntry_def a abba_def)
  next
    assume "(2 * k) mod 4 = 2"
    moreover from this have "(2 * k + 1) mod 4 = 3" by presburger
    ultimately show ?thesis by (simp add: pairDiffers_def ttyEntry_def a abba_def)
  qed
qed

text \<open>
  Claim C6 as stated fails on the terminal \<open>a\<close>, \<open>b\<close>, \<open>b\<close>, \<open>a\<close>, \<dots>: its entries 1 and 2
  are consecutive and equal, and the loop never ends, since they belong to two rounds.
\<close>

theorem adjacent_entries_of_two_rounds_counterexample:
  "tty ((console Map.empty [] [])\<lparr>tty := abba\<rparr>) 1 = Some ''b'' \<and>
   tty ((console Map.empty [] [])\<lparr>tty := abba\<rparr>) 2 = Some ''b'' \<and>
   saveKey_pass noOptions ((console Map.empty [] [])\<lparr>tty := abba\<rparr>) = None \<and>
   changePassPhrase_newpass noOptions ((console Map.empty [] [])\<lparr>tty := abba\<rparr>) = None"
proof -
  let ?w = "(console Map.empty [] [])\<lparr>tty := abba\<rparr>"
  have "\<forall>k. pairDiffers ?w k"
    by (simp add: abba_differs console_def)
  then have "passphraseLoop pr ?w = None" for pr by (rule loop_None)
  then show ?thesis
    by (simp add: saveKey_pass_def changePassPhrase_newpass_def noOptions_def truthy_def abba_def)
qed


section \<open>What the steps before a write leave unchanged\<close>

lemma input_frame:
  "input pr w = (r, w') \<Longrightarrow>
     files w' = files w \<and> past w' = past w \<and> tty w' = tty w \<and> ttyPos w' = ttyPos w"
  by (auto simp: input_def Let_def split: option.splits)

lemma getpass_frame:
  "getpass pr w = (r, w') \<Longrightarrow> files w' = files w \<and> past w' = past w"
  by (auto simp: getpass_def Let_def split: option.splits)

lemma getKeyOrDefault_frame:
  "getKeyOrDefault E opts ktn w = (r, w') \<Longrightarrow>
     files w' = files w \<and> past w' = past w \<and> tty w' = tty w \<and> ttyPos w' = ttyPos w"
  by (auto simp: getKeyOrDefault_def Let_def split: if_splits prod.splits sum.splits
           dest: input_frame)

lemma fromFile_files: "files w' = files w \<Longrightarrow> fromFile L p pw w' = fromFile L p pw w"
  by (simp add: fromFile_def)

lemma fromFile_Inr_file: "fromFile L p pw w = Inr key \<Longrightarrow> \<exists>f. files w p = Some f"
  by (auto simp: fromFile_def split: option.splits)

lemma changePassPhrase_load_frame:
  "changePassPhrase_load L fn opts w = (r, w') \<Longrightarrow> files w' = files w \<and> past w' = past w"
  by (auto simp: changePassPhrase_load_def split: sum.splits exc.splits if_splits prod.splits
           dest: getpass_frame)

lemma changePassPhrase_load_Return:
  assumes "changePassPhrase_load L fn opts w = (Return (key, o2), w2)"
  shows "(\<exists>pw. fromFile L fn pw w = Inr key) \<and> newpass o2 = newpass opts \<and>
         private_key_subtype o2 = private_key_subtype opts"
proof -
  have g: "getpass pr w = (r, w1) \<Longrightarrow> fromFile L fn pw w1 = fromFile L fn pw w" for pr r w1 pw
    by (rule fromFile_files) (simp add: getpass_frame)
  show ?thesis
    using assms
    by (auto simp: changePassPhrase_load_def g split: sum.splits exc.splits if_splits prod.splits)
qed

lemma changePassPhrase_newpass_frame:
  "changePassPhrase_newpass opts w = Some (r, w') \<Longrightarrow> files w' = files w \<and> past w' = past w"
  by (auto simp: changePassPhrase_newpass_def split: if_splits option.splits sum.splits
           dest: loop_frame)

lemma changePassPhrase_newpass_Return:
  "changePassPhrase_newpass opts w = Some (Return o3, w3) \<Longrightarrow>
     private_key_subtype o3 = private_key_subtype opts"
  by (auto simp: changePassPhrase_newpass_def split: if_splits option.splits sum.splits)


lemma changePassPhrase_write_unfold:
  "changePassPhrase_write L E fn key opts w =
     (case toString L key (Some (specSubtype (private_key_subtype opts) (keyType L key)))
             (newpass opts) None of
        Inl e \<Rightarrow> (Exit (Some (''Could not change passphrase: '' @ excStr e)), w)
      | Inr newkeydata \<Rightarrow>
          (case fromString L newkeydata (newpass opts) of
             Inl e \<Rightarrow>
               (case e of
                  EncryptedKeyError m \<Rightarrow> (Exit (Some (''Could not change passphrase: '' @ m)), w)
                | BadKeyError m \<Rightarrow> (Exit (Some (''Could not change passphrase: '' @ m)), w)
                | _ \<Rightarrow> (Raise e, w))
           | Inr k' \<Rightarrow>
               (Return (opts\<lparr>private_key_subtype :=
                                Some (specSubtype (private_key_subtype opts) (keyType L key))\<rparr>),
                print ''Your identification has been saved with the new passphrase.''
                  (fdWrite fn newkeydata (openWb E fn w)))))"
proof (cases "private_key_subtype opts")
  case None
  then show ?thesis
    by (simp add: changePassPhrase_write_def specSubtype_def defaultPrivateKeySubtype_def Let_def
             split: sum.split exc.split)
next
  case (Some s)
  then have "opts\<lparr>private_key_subtype := Some s\<rparr> = opts" by simp
  with Some show ?thesis
    by (simp add: changePassPhrase_write_def specSubtype_def Let_def
             split: sum.split exc.split)
qed


lemma changePassPhrase_write_rejected:
  assumes "toString L key (Some (specSubtype (private_key_subtype opts) (keyType L key)))
             (newpass opts) None = Inr data"
    and "fromString L data (newpass opts) = Inl e"
  shows "\<exists>r. changePassPhrase_write L E fn key opts w = (r, w) \<and> (\<forall>o'. r \<noteq> Return o')"
  using assms by (cases e) (simp_all add: changePassPhrase_write_unfold)

lemma changePassPhrase_write_cases:
  assumes "changePassPhrase_write L E fn key opts w = (r, w')"
  shows "((\<forall>o'. r \<noteq> Return o') \<and> w' = w) \<or>
         (\<exists>o' data k'. r = Return o' \<and>
            private_key_subtype o' =
              Some (specSubtype (private_key_subtype opts) (keyType L key)) \<and>
            newpass o' = newpass opts \<and>
            toString L key (private_key_subtype o') (newpass o') None = Inr data \<and>
            fromString L data (newpass o') = Inr k' \<and>
            w' = print ''Your identification has been saved with the new passphrase.''
                   (fdWrite fn data (openWb E fn w)))"
proof (cases "toString L key (Some (specSubtype (private_key_subtype opts) (keyType L key)))
                (newpass opts) None")
  case (Inl e)
  with assms show ?thesis by (auto simp: changePassPhrase_write_unfold)
next
  case (Inr data)
  show ?thesis
  proof (cases "fromString L data (newpass opts)")
    case (Inl e)
    from changePassPhrase_write_rejected [OF Inr Inl, of E fn w] assms show ?thesis by auto
  next
    case (Inr k')
    with \<open>toString L key (Some (specSubtype (private_key_subtype opts) (keyType L key)))
             (newpass opts) None = Inr data\<close> assms
    show ?thesis by (auto simp: changePassPhrase_write_unfold)
  qed
qed

lemma openWb_fdWrite:
  assumes "files w fn = Some f"
  shows "files (fdWrite fn d (openWb E fn w)) = (files w)(fn \<mapsto> f\<lparr>content := d\<rparr>) \<and>
         past (fdWrite fn d (openWb E fn w)) =
           (files w)(fn \<mapsto> f\<lparr>content := []\<rparr>) # files w # past w"
  using assms by (simp add: openWb_def fdWrite_def commit_def)


lemma changePassPhrase_run:
  assumes "changePassPhrase L E opts w = Some (r, w')"
  shows "((\<forall>o'. r \<noteq> Return o') \<and> files w' = files w \<and> past w' = past w) \<or>
         (\<exists>fn pw key f o' data k'.
            r = Return o' \<and> fromFile L fn pw w = Inr key \<and> files w fn = Some f \<and>
            private_key_subtype o' =
              Some (specSubtype (private_key_subtype opts) (keyType L key)) \<and>
            toString L key (private_key_subtype o') (newpass o') None = Inr data \<and>
            fromString L data (newpass o') = Inr k' \<and>
            files w' = (files w)(fn \<mapsto> f\<lparr>content := data\<rparr>) \<and>
            past w' = (files w)(fn \<mapsto> f\<lparr>content := []\<rparr>) # files w # past w)"
    (is "?untouched \<or> ?written")
proof (cases "getKeyOrDefault E opts ''rsa'' w")
  case (Pair a w1)
  note g = getKeyOrDefault_frame [OF Pair]
  show ?thesis
  proof (cases a)
    case (Inl e)
    with Pair assms have "r = Raise e" "w' = w1" by (simp_all add: changePassPhrase_def)
    with g have ?untouched by simp
    then show ?thesis ..
  next
    case (Inr fn)
    with Pair assms have onfile: "changePassPhrase_file L E opts fn w1 = Some (r, w')"
      by (simp add: changePassPhrase_def)
    obtain r2 w2 where load: "changePassPhrase_load L fn opts w1 = (r2, w2)" by force
    note l = changePassPhrase_load_frame [OF load]
    show ?thesis
    proof (cases r2)
      case (Exit m)
      with onfile load have "r = Exit m" "w' = w2" by (simp_all add: changePassPhrase_file_def)
      with l g have ?untouched by simp
      then show ?thesis ..
    next
      case (Raise e)
      with onfile load have "r = Raise e" "w' = w2" by (simp_all add: changePassPhrase_file_def)
      with l g have ?untouched by simp
      then show ?thesis ..
    next
      case (Return ko)
      obtain key o2 where ko: "ko = (key, o2)" by force
      from load Return ko have load': "changePassPhrase_load L fn opts w1 = (Return (key, o2), w2)"
        by simp
      from changePassPhrase_load_Return [OF load'] obtain pw where
        "fromFile L fn pw w1 = Inr key" and st2: "private_key_subtype o2 = private_key_subtype opts"
        by blast
      moreover have "fromFile L fn pw w1 = fromFile L fn pw w"
        by (rule fromFile_files) (simp add: g)
      ultimately have key: "fromFile L fn pw w = Inr key" by simp
      then obtain f where f: "files w fn = Some f" by (auto dest: fromFile_Inr_file)
      show ?thesis
      proof (cases "changePassPhrase_newpass o2 w2")
        case None
        with onfile load' show ?thesis by (simp add: changePassPhrase_file_def)
      next
        case (Some a3)
        obtain r3 w3 where a3: "a3 = (r3, w3)" by force
        from Some a3 have np: "changePassPhrase_newpass o2 w2 = Some (r3, w3)" by simp
        note n = changePassPhrase_newpass_frame [OF np]
        from n l g have fs: "files w3 = files w" "past w3 = past w" by simp_all
        show ?thesis
        proof (cases r3)
          case (Exit m)
          with onfile load' np have "r = Exit m" "w' = w3"
            by (simp_all add: changePassPhrase_file_def)
          with fs have ?untouched by simp
          then show ?thesis ..
        next
          case (Raise e)
          with onfile load' np have "r = Raise e" "w' = w3"
            by (simp_all add: changePassPhrase_file_def)
          with fs have ?untouched by simp
          then show ?thesis ..
        next
          case (Return o3)
          with onfile load' np have wr: "changePassPhrase_write L E fn key o3 w3 = (r, w')"
            by (simp add: changePassPhrase_file_def)
          from changePassPhrase_write_cases [OF wr] show ?thesis
          proof
            assume "(\<forall>o'. r \<noteq> Return o') \<and> w' = w3"
            with fs have ?untouched by simp
            then show ?thesis ..
          next
            assume "\<exists>o' data k'. r = Return o' \<and>
              private_key_subtype o' = Some (specSubtype (private_key_subtype o3) (keyType L key)) \<and>
              newpass o' = newpass o3 \<and>
              toString L key (private_key_subtype o') (newpass o') None = Inr data \<and>
              fromString L data (newpass o') = Inr k' \<and>
              w' = print ''Your identification has been saved with the new passphrase.''
                     (fdWrite fn data (openWb E fn w3))"
            then obtain o' data k' where *: "r = Return o'"
              "private_key_subtype o' = Some (specSubtype (private_key_subtype o3) (keyType L key))"
              "toString L key (private_key_subtype o') (newpass o') None = Inr data"
              "fromString L data (newpass o') = Inr k'"
              "w' = print ''Your identification has been saved with the new passphrase.''
                     (fdWrite fn data (openWb E fn w3))" by blast
            from f fs have "files w3 fn = Some f" by simp
            from np Return have "private_key_subtype o3 = private_key_subtype o2"
              by (simp add: changePassPhrase_newpass_Return)
            with st2 have st3: "private_key_subtype o3 = private_key_subtype opts" by simp
            from openWb_fdWrite [OF \<open>files w3 fn = Some f\<close>, of data E] *(5) fs
            have "files w' = (files w)(fn \<mapsto> f\<lparr>content := data\<rparr>)"
              "past w' = (files w)(fn \<mapsto> f\<lparr>content := []\<rparr>) # files w # past w"
              by (simp_all add: print_def)
            with * key f st3 have
              "r = Return o' \<and> fromFile L fn pw w = Inr key \<and> files w fn = Some f \<and>
               private_key_subtype o' =
                 Some (specSubtype (private_key_subtype opts) (keyType L key)) \<and>
               toString L key (private_key_subtype o') (newpass o') None = Inr data \<and>
               fromString L data (newpass o') = Inr k' \<and>
               files w' = (files w)(fn \<mapsto> f\<lparr>content := data\<rparr>) \<and>
               past w' = (files w)(fn \<mapsto> f\<lparr>content := []\<rparr>) # files w # past w"
              by simp
            then have ?written by (intro exI)
            then show ?thesis ..
          qed
        qed
      qed
    qed
  qed
qed





section \<open>changePassPhrase: the old passphrase\<close>

lemma getpass_prompted:
  "tty w (ttyPos w) = Some p \<Longrightarrow> getpass pr w = (Inr p, prompted pr w)"
  by (simp add: getpass_def prompted_def)

lemma changePassPhrase_load_second:
  assumes "fromFile L fn None w0 = Inl (EncryptedKeyError m)"
    and "fromFile L fn (Some p) w0 = Inl e"
  shows "(\<not> truthy (pass opts) \<and> tty w0 (ttyPos w0) = Some p \<longrightarrow>
            (\<exists>r. changePassPhrase_load L fn opts w0 =
                    (r, prompted ''Enter old passphrase: '' w0) \<and>
                  (\<forall>ko. r \<noteq> Return ko) \<and>
                  (\<forall>m'. e = BadKeyError m' \<longrightarrow>
                     r = Exit (Some ''Could not change passphrase: old passphrase error'')) \<and>
                  (\<forall>m'. e = EncryptedKeyError m' \<longrightarrow>
                     r = Exit (Some (''Could not change passphrase: '' @ m'))))) \<and>
         (truthy (pass opts) \<and> pass opts = Some p \<longrightarrow>
            (\<exists>r. changePassPhrase_load L fn opts w0 = (r, w0) \<and>
                  (\<forall>ko. r \<noteq> Return ko) \<and>
                  (\<forall>m'. e = BadKeyError m' \<longrightarrow>
                     r = Exit (Some ''Could not change passphrase: old passphrase error'')) \<and>
                  (\<forall>m'. e = EncryptedKeyError m' \<longrightarrow>
                     r = Exit (Some (''Could not change passphrase: '' @ m')))))"
proof -
  have "fromFile L fn (Some p) (prompted ''Enter old passphrase: '' w0) = Inl e"
    using assms(2) by (simp add: fromFile_def prompted_def)
  with assms show ?thesis
    by (cases e) (auto simp: changePassPhrase_load_def getpass_prompted)
qed

lemma changePassPhrase_file_load_fails:
  assumes "changePassPhrase_load L fn opts w0 = (r2, w1)" and "\<forall>ko. r2 \<noteq> Return ko"
  shows "\<exists>r. changePassPhrase_file L E opts fn w0 = Some (r, w1) \<and> (\<forall>o'. r \<noteq> Return o') \<and>
             (\<forall>m. r2 = Exit m \<longrightarrow> r = Exit m)"
  using assms by (cases r2) (simp_all add: changePassPhrase_file_def)

lemma oldPrompts_log:
  "log w' = log w @ es \<Longrightarrow> Getpass ''Enter old passphrase: '' \<notin> set es \<Longrightarrow>
     oldPassphrasePrompts w' = oldPassphrasePrompts w"
  by (auto simp: oldPassphrasePrompts_def filter_empty_conv)

lemma oldPrompts_input:
  "input pr w = (r, w') \<Longrightarrow> oldPassphrasePrompts w' = oldPassphrasePrompts w"
  by (auto simp: input_def Let_def oldPassphrasePrompts_def split: option.splits)

lemma oldPrompts_getpass_old:
  "getpass ''Enter old passphrase: '' w = (r, w') \<Longrightarrow>
     oldPassphrasePrompts w' = Suc (oldPassphrasePrompts w)"
  by (auto simp: getpass_def Let_def oldPassphrasePrompts_def split: option.splits)

lemma oldPrompts_print: "oldPassphrasePrompts (print m w) = oldPassphrasePrompts w"
  by (simp add: print_def oldPassphrasePrompts_def)

lemma oldPrompts_getKeyOrDefault:
  "getKeyOrDefault E opts ktn w = (r, w') \<Longrightarrow> oldPassphrasePrompts w' = oldPassphrasePrompts w"
  by (auto simp: getKeyOrDefault_def Let_def split: if_splits prod.splits sum.splits
           dest: oldPrompts_input)

lemma roundLog_no_old:
  "pr \<noteq> ''Enter old passphrase: '' \<Longrightarrow>
     Getpass ''Enter old passphrase: '' \<notin> set (concat (replicate k (roundLog pr)))"
  by (induction k) (auto simp: roundLog_def)

lemma loop_result_world:
  assumes "passphraseLoop pr w = Some (r, w')"
  shows "\<exists>k. w' = accepted pr k w \<or> w' = eofAtFirst pr k w \<or> w' = eofAtSecond pr k w"
proof -
  from assms obtain k where k: "\<forall>j<k. pairDiffers w j" and nk: "\<not> pairDiffers w k"
    by (rule first_round_that_ends)
  show ?thesis
  proof (cases "ttyEntry w (2 * k)")
    case None
    from loop_ends_at_first [OF k None, of pr] assms show ?thesis by auto
  next
    case (Some a)
    show ?thesis
    proof (cases "ttyEntry w (2 * k + 1)")
      case None
      from loop_ends_at_second [OF k Some None, of pr] assms show ?thesis by auto
    next
      case (Some b)
      with nk \<open>ttyEntry w (2 * k) = Some a\<close> have "pairAgrees w k a"
        by (simp add: pairDiffers_def pairAgrees_def)
      from loop_accepted [OF k this, of pr] assms show ?thesis by auto
    qed
  qed
qed

lemma oldPrompts_loop:
  assumes "passphraseLoop pr w = Some (r, w')" and "pr \<noteq> ''Enter old passphrase: ''"
  shows "oldPassphrasePrompts w' = oldPassphrasePrompts w"
proof -
  note no = roundLog_no_old [OF assms(2)]
  from loop_result_world [OF assms(1)] obtain k where
    "w' = accepted pr k w \<or> w' = eofAtFirst pr k w \<or> w' = eofAtSecond pr k w" ..
  then consider "w' = accepted pr k w" | "w' = eofAtFirst pr k w" | "w' = eofAtSecond pr k w"
    by blast
  then show ?thesis
  proof cases
    case 1
    then have "log w' = log w @ (concat (replicate k (roundLog pr))
                 @ [Getpass pr, Getpass ''Enter same passphrase again: ''])"
      by (simp add: accepted_def)
    then show ?thesis by (rule oldPrompts_log) (use no [of k] assms(2) in simp)
  next
    case 2
    then have "log w' = log w @ (concat (replicate k (roundLog pr)) @ [Getpass pr])"
      by (simp add: eofAtFirst_def)
    then show ?thesis by (rule oldPrompts_log) (use no [of k] assms(2) in simp)
  next
    case 3
    then have "log w' = log w @ (concat (replicate k (roundLog pr))
                 @ [Getpass pr, Getpass ''Enter same passphrase again: ''])"
      by (simp add: eofAtSecond_def)
    then show ?thesis by (rule oldPrompts_log) (use no [of k] assms(2) in simp)
  qed
qed

lemma oldPrompts_newpass:
  "changePassPhrase_newpass opts w = Some (r, w') \<Longrightarrow>
     oldPassphrasePrompts w' = oldPassphrasePrompts w"
  by (auto simp: changePassPhrase_newpass_def split: if_splits option.splits sum.splits
           dest!: oldPrompts_loop)

lemma oldPrompts_write:
  assumes "changePassPhrase_write L E fn key opts w = (r, w')"
  shows "oldPassphrasePrompts w' = oldPassphrasePrompts w"
proof -
  have "log (fdWrite fn d (openWb E fn w)) = log w" for d
    by (simp add: fdWrite_def openWb_def commit_def split: option.splits)
  then have "oldPassphrasePrompts (fdWrite fn d (openWb E fn w)) = oldPassphrasePrompts w" for d
    by (simp add: oldPassphrasePrompts_def)
  with changePassPhrase_write_cases [OF assms] show ?thesis
    by (auto simp: oldPrompts_print)
qed

lemma oldPrompts_load:
  assumes "changePassPhrase_load L fn opts w = (r, w')"
    and "fromFile L fn None w = Inl (EncryptedKeyError m)"
  shows "oldPassphrasePrompts w' =
           oldPassphrasePrompts w + (if truthy (pass opts) then 0 else 1)"
proof (cases "truthy (pass opts)")
  case True
  with assms have "w' = w"
    by (auto simp: changePassPhrase_load_def split: sum.splits exc.splits)
  with True show ?thesis by simp
next
  case False
  obtain b w1 where g: "getpass ''Enter old passphrase: '' w = (b, w1)" by force
  from assms False g have "w' = w1"
    by (cases b) (auto simp: changePassPhrase_load_def split: sum.splits exc.splits)
  with oldPrompts_getpass_old [OF g] False show ?thesis by simp
qed

lemma oldPrompts_file:
  assumes "changePassPhrase_file L E opts fn w = Some (r, w')"
    and "fromFile L fn None w = Inl (EncryptedKeyError m)"
  shows "oldPassphrasePrompts w' =
           oldPassphrasePrompts w + (if truthy (pass opts) then 0 else 1)"
proof -
  obtain r2 w2 where load: "changePassPhrase_load L fn opts w = (r2, w2)" by force
  note l = oldPrompts_load [OF load assms(2)]
  show ?thesis
  proof (cases r2)
    case (Exit x)
    with assms(1) load have "w' = w2" by (simp add: changePassPhrase_file_def)
    with l show ?thesis by simp
  next
    case (Raise x)
    with assms(1) load have "w' = w2" by (simp add: changePassPhrase_file_def)
    with l show ?thesis by simp
  next
    case (Return ko)
    obtain key o2 where ko: "ko = (key, o2)" by force
    show ?thesis
    proof (cases "changePassPhrase_newpass o2 w2")
      case None
      with assms(1) load Return ko show ?thesis by (simp add: changePassPhrase_file_def)
    next
      case (Some a3)
      obtain r3 w3 where a3: "a3 = (r3, w3)" by force
      with Some have np: "changePassPhrase_newpass o2 w2 = Some (r3, w3)" by simp
      note n = oldPrompts_newpass [OF np]
      show ?thesis
      proof (cases r3)
        case (Exit x)
        with assms(1) load Return ko np have "w' = w3" by (simp add: changePassPhrase_file_def)
        with l n show ?thesis by simp
      next
        case (Raise x)
        with assms(1) load \<open>r2 = Return ko\<close> ko np have "w' = w3"
          by (simp add: changePassPhrase_file_def)
        with l n show ?thesis by simp
      next
        case (Return o3)
        with assms(1) load \<open>r2 = Return ko\<close> ko np
        have "changePassPhrase_write L E fn key o3 w3 = (r, w')"
          by (simp add: changePassPhrase_file_def)
        from oldPrompts_write [OF this] l n show ?thesis by simp
      qed
    qed
  qed
qed

lemma changePassPhrase_load_opens:
  assumes "fromFile L fn None w0 = Inl (EncryptedKeyError m)"
    and "fromFile L fn (Some p) w0 = Inr key"
  shows "(\<not> truthy (pass opts) \<and> tty w0 (ttyPos w0) = Some p \<longrightarrow>
            changePassPhrase_load L fn opts w0 =
              (Return (key, opts\<lparr>pass := Some p\<rparr>), prompted ''Enter old passphrase: '' w0)) \<and>
         (truthy (pass opts) \<and> pass opts = Some p \<longrightarrow>
            changePassPhrase_load L fn opts w0 = (Return (key, opts), w0))"
proof -
  have "fromFile L fn (Some p) (prompted ''Enter old passphrase: '' w0) = Inr key"
    using assms(2) by (simp add: fromFile_def prompted_def)
  with assms show ?thesis
    by (auto simp: changePassPhrase_load_def getpass_prompted)
qed


text \<open>
  Claim C5. Let the key file be encrypted: loading it without a passphrase raises
  \<^verbatim>\<open>EncryptedKeyError\<close>. In every run of \<^verbatim>\<open>changePassPhrase\<close> that ends, however it ends, the
  old passphrase has been asked for exactly once when the options have none, and not
  at all when they have one. When the input ends at that prompt the run ends with
  \<^verbatim>\<open>EOFError\<close>. When loading with the entry \<open>p\<close>, or with the passphrase \<open>p\<close> of the options,
  fails, the run ends there with an error, in the world where at most that one prompt
  has been answered: no second prompt, no second attempt; a wrong passphrase
  (\<^verbatim>\<open>BadKeyError\<close>) gives the exit message \<^verbatim>\<open>Could not change passphrase: old passphrase
  error\<close>. When loading with \<open>p\<close> succeeds, the run goes on to the new passphrase and to
  the write with the key loaded.
\<close>

theorem changePassPhrase_asks_old_passphrase_once:
  assumes "getKeyOrDefault E opts ''rsa'' w = (Inr fn, w0)"
    and "fromFile L fn None w0 = Inl (EncryptedKeyError m)"
  shows "(changePassPhrase L E opts w = Some (r, w') \<longrightarrow>
            oldPassphrasePrompts w' =
              oldPassphrasePrompts w + (if truthy (pass opts) then 0 else 1)) \<and>
         (\<not> truthy (pass opts) \<and> tty w0 (ttyPos w0) = None \<longrightarrow>
            changePassPhrase L E opts w =
              Some (Raise (EOFError ''EOF when reading a line''),
                    w0\<lparr>log := log w0 @ [Getpass ''Enter old passphrase: '']\<rparr>)) \<and>
         (\<not> truthy (pass opts) \<and> tty w0 (ttyPos w0) = Some p \<and>
          fromFile L fn (Some p) w0 = Inl e \<longrightarrow>
            (\<exists>r. changePassPhrase L E opts w =
                    Some (r, prompted ''Enter old passphrase: '' w0) \<and>
                  (\<forall>o'. r \<noteq> Return o') \<and>
                  (\<forall>m'. e = BadKeyError m' \<longrightarrow>
                     r = Exit (Some ''Could not change passphrase: old passphrase error'')) \<and>
                  (\<forall>m'. e = EncryptedKeyError m' \<longrightarrow>
                     r = Exit (Some (''Could not change passphrase: '' @ m'))))) \<and>
         (truthy (pass opts) \<and> pass opts = Some p \<and> fromFile L fn (Some p) w0 = Inl e \<longrightarrow>
            (\<exists>r. changePassPhrase L E opts w = Some (r, w0) \<and>
                  (\<forall>o'. r \<noteq> Return o') \<and>
                  (\<forall>m'. e = BadKeyError m' \<longrightarrow>
                     r = Exit (Some ''Could not change passphrase: old passphrase error'')) \<and>
                  (\<forall>m'. e = EncryptedKeyError m' \<longrightarrow>
                     r = Exit (Some (''Could not change passphrase: '' @ m'))))) \<and>
         (\<not> truthy (pass opts) \<and> tty w0 (ttyPos w0) = Some p \<and>
          fromFile L fn (Some p) w0 = Inr key \<longrightarrow>
            changePassPhrase L E opts w =
              (case changePassPhrase_newpass (opts\<lparr>pass := Some p\<rparr>)
                      (prompted ''Enter old passphrase: '' w0) of
                 None \<Rightarrow> None
               | Some (Exit x, w3) \<Rightarrow> Some (Exit x, w3)
               | Some (Raise x, w3) \<Rightarrow> Some (Raise x, w3)
               | Some (Return o3, w3) \<Rightarrow> Some (changePassPhrase_write L E fn key o3 w3))) \<and>
         (truthy (pass opts) \<and> pass opts = Some p \<and> fromFile L fn (Some p) w0 = Inr key \<longrightarrow>
            changePassPhrase L E opts w =
              (case changePassPhrase_newpass opts w0 of
                 None \<Rightarrow> None
               | Some (Exit x, w3) \<Rightarrow> Some (Exit x, w3)
               | Some (Raise x, w3) \<Rightarrow> Some (Raise x, w3)
               | Some (Return o3, w3) \<Rightarrow> Some (changePassPhrase_write L E fn key o3 w3)))"
proof -
  have whole: "changePassPhrase L E opts w = changePassPhrase_file L E opts fn w0"
    using assms(1) by (simp add: changePassPhrase_def)
  have count: "changePassPhrase_file L E opts fn w0 = Some (r, w') \<longrightarrow>
            oldPassphrasePrompts w' =
              oldPassphrasePrompts w + (if truthy (pass opts) then 0 else 1)"
    using oldPrompts_file [OF _ assms(2), of E opts r w']
      oldPrompts_getKeyOrDefault [OF assms(1)] by simp
  have eof: "\<not> truthy (pass opts) \<and> tty w0 (ttyPos w0) = None \<longrightarrow>
            changePassPhrase_file L E opts fn w0 =
              Some (Raise (EOFError ''EOF when reading a line''),
                    w0\<lparr>log := log w0 @ [Getpass ''Enter old passphrase: '']\<rparr>)"
    using assms(2)
    by (simp add: changePassPhrase_file_def changePassPhrase_load_def getpass_def)
  have fail1: "\<exists>r. changePassPhrase_file L E opts fn w0 =
                    Some (r, prompted ''Enter old passphrase: '' w0) \<and>
                  (\<forall>o'. r \<noteq> Return o') \<and>
                  (\<forall>m'. e = BadKeyError m' \<longrightarrow>
                     r = Exit (Some ''Could not change passphrase: old passphrase error'')) \<and>
                  (\<forall>m'. e = EncryptedKeyError m' \<longrightarrow>
                     r = Exit (Some (''Could not change passphrase: '' @ m')))"
    if e: "fromFile L fn (Some p) w0 = Inl e"
      and t: "\<not> truthy (pass opts) \<and> tty w0 (ttyPos w0) = Some p"
  proof -
    from changePassPhrase_load_second [OF assms(2) e, of opts] t obtain r2 where r2:
      "changePassPhrase_load L fn opts w0 = (r2, prompted ''Enter old passphrase: '' w0)"
      "\<forall>ko. r2 \<noteq> Return ko"
      "\<forall>m'. e = BadKeyError m' \<longrightarrow>
          r2 = Exit (Some ''Could not change passphrase: old passphrase error'')"
      "\<forall>m'. e = EncryptedKeyError m' \<longrightarrow> r2 = Exit (Some (''Could not change passphrase: '' @ m'))"
      by blast
    from changePassPhrase_file_load_fails [OF r2(1,2), of E] obtain r where
      "changePassPhrase_file L E opts fn w0 = Some (r, prompted ''Enter old passphrase: '' w0)"
      "\<forall>o'. r \<noteq> Return o'" "\<forall>m. r2 = Exit m \<longrightarrow> r = Exit m" by blast
    with r2(3,4) show ?thesis by auto
  qed
  have fail2: "\<exists>r. changePassPhrase_file L E opts fn w0 = Some (r, w0) \<and>
                  (\<forall>o'. r \<noteq> Return o') \<and>
                  (\<forall>m'. e = BadKeyError m' \<longrightarrow>
                     r = Exit (Some ''Could not change passphrase: old passphrase error'')) \<and>
                  (\<forall>m'. e = EncryptedKeyError m' \<longrightarrow>
                     r = Exit (Some (''Could not change passphrase: '' @ m')))"
    if e: "fromFile L fn (Some p) w0 = Inl e"
      and t: "truthy (pass opts) \<and> pass opts = Some p"
  proof -
    from changePassPhrase_load_second [OF assms(2) e, of opts] t obtain r2 where r2:
      "changePassPhrase_load L fn opts w0 = (r2, w0)"
      "\<forall>ko. r2 \<noteq> Return ko"
      "\<forall>m'. e = BadKeyError m' \<longrightarrow>
          r2 = Exit (Some ''Could not change passphrase: old passphrase error'')"
      "\<forall>m'. e = EncryptedKeyError m' \<longrightarrow> r2 = Exit (Some (''Could not change passphrase: '' @ m'))"
      by blast
    from changePassPhrase_file_load_fails [OF r2(1,2), of E] obtain r where
      "changePassPhrase_file L E opts fn w0 = Some (r, w0)"
      "\<forall>o'. r \<noteq> Return o'" "\<forall>m. r2 = Exit m \<longrightarrow> r = Exit m" by blast
    with r2(3,4) show ?thesis by auto
  qed
  have opens1: "changePassPhrase_file L E opts fn w0 =
              (case changePassPhrase_newpass (opts\<lparr>pass := Some p\<rparr>)
                      (prompted ''Enter old passphrase: '' w0) of
                 None \<Rightarrow> None
               | Some (Exit x, w3) \<Rightarrow> Some (Exit x, w3)
               | Some (Raise x, w3) \<Rightarrow> Some (Raise x, w3)
               | Some (Return o3, w3) \<Rightarrow> Some (changePassPhrase_write L E fn key o3 w3))"
    if k: "fromFile L fn (Some p) w0 = Inr key"
      and t: "\<not> truthy (pass opts) \<and> tty w0 (ttyPos w0) = Some p"
  proof -
    from changePassPhrase_load_opens [OF assms(2) k, of opts] t
    have "changePassPhrase_load L fn opts w0 =
            (Return (key, opts\<lparr>pass := Some p\<rparr>), prompted ''Enter old passphrase: '' w0)"
      by blast
    then show ?thesis
      by (simp add: changePassPhrase_file_def split: option.split prod.split outcome.split)
  qed
  have opens2: "changePassPhrase_file L E opts fn w0 =
              (case changePassPhrase_newpass opts w0 of
                 None \<Rightarrow> None
               | Some (Exit x, w3) \<Rightarrow> Some (Exit x, w3)
               | Some (Raise x, w3) \<Rightarrow> Some (Raise x, w3)
               | Some (Return o3, w3) \<Rightarrow> Some (changePassPhrase_write L E fn key o3 w3))"
    if k: "fromFile L fn (Some p) w0 = Inr key"
      and t: "truthy (pass opts) \<and> pass opts = Some p"
  proof -
    from changePassPhrase_load_opens [OF assms(2) k, of opts] t
    have "changePassPhrase_load L fn opts w0 = (Return (key, opts), w0)"
      by blast
    then show ?thesis
      by (simp add: changePassPhrase_file_def split: option.split prod.split outcome.split)
  qed
  show ?thesis
    unfolding whole
  proof (intro conjI impI)
  qed (use count eof fail1 fail2 opens1 opens2 in \<open>blast+\<close>)
qed

text \<open>
  The key is encrypted with \<open>secret\<close>. The user types \<open>guess\<close>: the run exits, with a
  second entry still waiting on the terminal. The user types \<open>secret\<close>: the run returns,
  having asked once, and the file holds the key under the new passphrase.
\<close>

theorem changePassPhrase_asks_old_passphrase_once_witness:
  "changePassPhrase toyKeys posixEnv (noOptions\<lparr>filename := Some ''/k''\<rparr>)
     (console [''/k'' \<mapsto> \<lparr>content = ''RPsecret'', mode = 384\<rparr>] [] [''guess'', ''secret'']) =
   Some (Exit (Some ''Could not change passphrase: old passphrase error''),
         prompted ''Enter old passphrase: ''
           (console [''/k'' \<mapsto> \<lparr>content = ''RPsecret'', mode = 384\<rparr>] [] [''guess'', ''secret''])) \<and>
   (\<exists>o' w'. changePassPhrase toyKeys posixEnv
               (noOptions\<lparr>filename := Some ''/k'', newpass := Some ''new''\<rparr>)
               (console [''/k'' \<mapsto> \<lparr>content = ''RPsecret'', mode = 384\<rparr>] [] [''secret'']) =
             Some (Return o', w') \<and>
           oldPassphrasePrompts w' = 1 \<and>
           files w' ''/k'' = Some \<lparr>content = ''RPnew'', mode = 384\<rparr>)"
proof (rule conjI)
  let ?o = "noOptions\<lparr>filename := Some ''/k''\<rparr>"
  let ?w = "console [''/k'' \<mapsto> \<lparr>content = ''RPsecret'', mode = 384\<rparr>] [] [''guess'', ''secret'']"
  have g: "getKeyOrDefault posixEnv ?o ''rsa'' ?w = (Inr ''/k'', ?w)"
    by (simp add: getKeyOrDefault_def truthy_def noOptions_def)
  have l1: "fromFile toyKeys ''/k'' None ?w =
              Inl (EncryptedKeyError ''Passphrase must be provided for an encrypted key'')"
    by (simp add: fromFile_def console_def toyKeys_def)
  have l2: "fromFile toyKeys ''/k'' (Some ''guess'') ?w = Inl (BadKeyError ''wrong passphrase'')"
    by (simp add: fromFile_def console_def toyKeys_def)
  have t: "\<not> truthy (pass ?o) \<and> tty ?w (ttyPos ?w) = Some ''guess''"
    by (simp add: truthy_def noOptions_def console_def feed_def)
  from changePassPhrase_asks_old_passphrase_once [OF g l1, where p = "''guess''"
      and e = "BadKeyError ''wrong passphrase''"] t l2
  show "changePassPhrase toyKeys posixEnv ?o ?w =
          Some (Exit (Some ''Could not change passphrase: old passphrase error''),
                prompted ''Enter old passphrase: '' ?w)"
    by auto
next
  let ?o = "noOptions\<lparr>filename := Some ''/k'', newpass := Some ''new''\<rparr>"
  let ?w = "console [''/k'' \<mapsto> \<lparr>content = ''RPsecret'', mode = 384\<rparr>] [] [''secret'']"
  let ?v = "prompted ''Enter old passphrase: '' ?w"
  let ?o' = "?o\<lparr>pass := Some ''secret'', private_key_subtype := Some ''PEM''\<rparr>"
  let ?w' = "print ''Your identification has been saved with the new passphrase.''
               (fdWrite ''/k'' ''RPnew'' (openWb posixEnv ''/k'' ?v))"
  have g: "getKeyOrDefault posixEnv ?o ''rsa'' ?w = (Inr ''/k'', ?w)"
    by (simp add: getKeyOrDefault_def truthy_def noOptions_def)
  have l1: "fromFile toyKeys ''/k'' None ?w =
              Inl (EncryptedKeyError ''Passphrase must be provided for an encrypted key'')"
    by (simp add: fromFile_def console_def toyKeys_def)
  have l2: "fromFile toyKeys ''/k'' (Some ''secret'') ?w = Inr (ToyKey (CHR ''R'') True)"
    by (simp add: fromFile_def console_def toyKeys_def)
  have t: "\<not> truthy (pass ?o) \<and> tty ?w (ttyPos ?w) = Some ''secret''"
    by (simp add: truthy_def noOptions_def console_def feed_def)
  note once = changePassPhrase_asks_old_passphrase_once [OF g l1, where p = "''secret''"
      and key = "ToyKey (CHR ''R'') True"]
  from once t l2 have "changePassPhrase toyKeys posixEnv ?o ?w =
      (case changePassPhrase_newpass (?o\<lparr>pass := Some ''secret''\<rparr>) ?v of
         None \<Rightarrow> None
       | Some (Exit x, w3) \<Rightarrow> Some (Exit x, w3)
       | Some (Raise x, w3) \<Rightarrow> Some (Raise x, w3)
       | Some (Return o3, w3) \<Rightarrow>
           Some (changePassPhrase_write toyKeys posixEnv ''/k'' (ToyKey (CHR ''R'') True) o3 w3))"
    by blast
  also have "\<dots> = Some (Return ?o', ?w')"
    by (simp add: changePassPhrase_newpass_def changePassPhrase_write_unfold truthy_def
        specSubtype_def noOptions_def toyKeys_simps toyType_def)
  finally have run: "changePassPhrase toyKeys posixEnv ?o ?w = Some (Return ?o', ?w')" .
  from once [where r = "Return ?o'" and w' = "?w'"] run
  have "oldPassphrasePrompts ?w' = 1"
    by (simp add: truthy_def noOptions_def oldPassphrasePrompts_def console_simps)
  moreover have "files ?w' ''/k'' = Some \<lparr>content = ''RPnew'', mode = 384\<rparr>"
    by (simp add: print_def fdWrite_def openWb_def commit_def prompted_def console_simps)
  ultimately show "\<exists>o' w'. changePassPhrase toyKeys posixEnv ?o ?w = Some (Return o', w') \<and>
           oldPassphrasePrompts w' = 1 \<and>
           files w' ''/k'' = Some \<lparr>content = ''RPnew'', mode = 384\<rparr>"
    using run by blast
qed

section \<open>saveKey: the steps\<close>

lemma saveKey_filename_frame:
  assumes "saveKey_filename E opts ktn w = (r, w')"
  shows "files w' = files w \<and> past w' = past w"
proof (cases "truthy (filename opts)")
  case True
  with assms show ?thesis by (simp add: saveKey_filename_def)
next
  case False
  obtain a w1 where g: "getKeyOrDefault E opts ktn w = (a, w1)" by force
  note gf = getKeyOrDefault_frame [OF g]
  show ?thesis
  proof (cases a)
    case (Inl e)
    with assms False g gf show ?thesis by (simp add: saveKey_filename_def)
  next
    case (Inr dp)
    obtain b w2 where i:
      "input (''Enter file in which to save the key ('' @ dp @ ''): '') w1 = (b, w2)" by force
    note f = input_frame [OF i]
    from assms False g Inr i have "w' = w2"
      by (cases b) (simp_all add: saveKey_filename_def inputSaveFile_def)
    with f gf show ?thesis by simp
  qed
qed

lemma saveKey_overwrite_frame:
  assumes "saveKey_overwrite fn w = (r, w')"
  shows "files w' = files w \<and> past w' = past w"
proof (cases "exists fn w")
  case False
  with assms show ?thesis by (simp add: saveKey_overwrite_def)
next
  case True
  obtain b w1 where i:
    "input ''Overwrite (y/n)? '' (print (fn @ '' already exists.'') w) = (b, w1)" by force
  note f = input_frame [OF i]
  from assms True i have "w' = w1"
    by (cases b) (auto simp: saveKey_overwrite_def split: list.splits if_splits)
  with f show ?thesis by (simp add: print_def)
qed

lemma saveKey_pass_frame:
  "saveKey_pass opts w = Some (r, w') \<Longrightarrow> files w' = files w \<and> past w' = past w"
  by (auto simp: saveKey_pass_def split: if_splits option.splits sum.splits dest: loop_frame)

lemma saveKey_pass_Return:
  "saveKey_pass opts w = Some (Return o3, w3) \<Longrightarrow>
     private_key_subtype o3 = private_key_subtype opts \<and> format o3 = format opts"
  by (auto simp: saveKey_pass_def split: if_splits option.splits sum.splits)

lemma chmod_setContent:
  "chmod fn 33152 (setContent E fn priv w) = Inr (privateWritten E fn priv w)"
  by (simp add: chmod_def setContent_def commit_def privateWritten_def)

lemma setContent_privateWritten:
  "setContent E (fn @ ''.pub'') pub (privateWritten E fn priv w) = bothWritten E fn priv pub w"
  by (simp add: setContent_def commit_def privateWritten_def bothWritten_def)

lemma enumrepresentation_Inr:
  "enumrepresentation opts = Inr o2 \<Longrightarrow>
     (format opts = FStr ''md5-hex'' \<and> o2 = opts\<lparr>format := FEnum MD5_HEX\<rparr>) \<or>
     (format opts = FStr ''sha256-base64'' \<and> o2 = opts\<lparr>format := FEnum SHA256_BASE64\<rparr>)"
  by (auto simp: enumrepresentation_def split: if_splits)

lemma enumrepresentation_Inl:
  "format opts \<noteq> FStr ''md5-hex'' \<Longrightarrow> format opts \<noteq> FStr ''sha256-base64'' \<Longrightarrow>
     enumrepresentation opts =
       Inl (BadFingerPrintFormat (''Unsupported fingerprint format: '' @ fmtStr (format opts)))"
  by (simp add: enumrepresentation_def)

lemma saveKey_write_unfold:
  "saveKey_write L E key fn opts w =
     (case toString L key (Some (specSubtype (private_key_subtype opts) (keyType L key)))
             (pass opts) None of
        Inl e \<Rightarrow> (Raise e, w)
      | Inr priv \<Rightarrow>
          (case toString L (public L key) None None
                  (Some (getuser E @ ''@'' @ gethostname E)) of
             Inl e \<Rightarrow> (Raise e, privateWritten E fn priv w)
           | Inr pub \<Rightarrow>
               (case enumrepresentation
                       (opts\<lparr>private_key_subtype :=
                               Some (specSubtype (private_key_subtype opts) (keyType L key))\<rparr>) of
                  Inl e \<Rightarrow> (Raise e, bothWritten E fn priv pub w)
                | Inr opts2 \<Rightarrow>
                    (case keyFingerprint L key (format opts2) of
                       Inl e \<Rightarrow>
                         (Raise e,
                          print (''The key fingerprint in '' @ fmtStr (format opts2) @ '' is:'')
                            (print (''Your public key has been saved in '' @ fn @ ''.pub'')
                               (print (''Your identification has been saved in '' @ fn)
                                  (bothWritten E fn priv pub w))))
                     | Inr fp \<Rightarrow>
                         (Return opts2,
                          print fp
                            (print (''The key fingerprint in '' @ fmtStr (format opts2) @ '' is:'')
                               (print (''Your public key has been saved in '' @ fn @ ''.pub'')
                                  (print (''Your identification has been saved in '' @ fn)
                                     (bothWritten E fn priv pub w)))))))))"
proof (cases "private_key_subtype opts")
  case None
  then show ?thesis
    by (simp add: saveKey_write_def specSubtype_def defaultPrivateKeySubtype_def Let_def
          chmod_setContent setContent_privateWritten split: sum.split)
next
  case (Some s)
  then have eq: "opts\<lparr>private_key_subtype := Some s\<rparr> = opts" by simp
  show ?thesis
    apply (simp only: specSubtype_def Some option.case eq)
    apply (simp add: saveKey_write_def Some Let_def chmod_setContent setContent_privateWritten
             split: sum.split)
    done
qed

lemma print_frame: "files (print m w) = files w \<and> past (print m w) = past w"
  by (simp add: print_def)

lemma saveKey_write_Return:
  assumes "saveKey_write L E key fn opts w = (Return o', w')"
  shows "\<exists>priv pub.
           private_key_subtype o' = Some (specSubtype (private_key_subtype opts) (keyType L key)) \<and>
           pass o' = pass opts \<and>
           toString L key (private_key_subtype o') (pass o') None = Inr priv \<and>
           toString L (public L key) None None (Some (getuser E @ ''@'' @ gethostname E)) = Inr pub \<and>
           (format opts = FStr ''md5-hex'' \<or> format opts = FStr ''sha256-base64'') \<and>
           files w' = files (bothWritten E fn priv pub w) \<and>
           past w' = past (bothWritten E fn priv pub w)"
proof -
  let ?st = "specSubtype (private_key_subtype opts) (keyType L key)"
  from assms obtain priv where priv: "toString L key (Some ?st) (pass opts) None = Inr priv"
    by (cases "toString L key (Some ?st) (pass opts) None")
       (simp_all add: saveKey_write_unfold)
  from assms priv obtain pub where
    pub: "toString L (public L key) None None (Some (getuser E @ ''@'' @ gethostname E)) = Inr pub"
    by (cases "toString L (public L key) None None (Some (getuser E @ ''@'' @ gethostname E))")
       (simp_all add: saveKey_write_unfold)
  from assms priv pub obtain o2 where
    o2: "enumrepresentation (opts\<lparr>private_key_subtype := Some ?st\<rparr>) = Inr o2"
    by (cases "enumrepresentation (opts\<lparr>private_key_subtype := Some ?st\<rparr>)")
       (simp_all add: saveKey_write_unfold)
  from assms priv pub o2 have "o' = o2 \<and> files w' = files (bothWritten E fn priv pub w) \<and>
      past w' = past (bothWritten E fn priv pub w)"
    by (cases "keyFingerprint L key (format o2)")
       (auto simp: saveKey_write_unfold print_frame)
  with enumrepresentation_Inr [OF o2] priv pub show ?thesis by auto
qed

lemma saveKey_write_not_Return:
  assumes "saveKey_write L E key fn opts w = (r, w')" and "\<forall>o'. r \<noteq> Return o'"
  shows "\<exists>e. r = Raise e"
proof -
  have "\<And>a b c d. (case a of Inl e \<Rightarrow> (Raise e, b) | Inr (fp :: string) \<Rightarrow> (Return (c :: options), d fp))
          = (r, w') \<Longrightarrow> \<exists>e. r = Raise e"
    using assms(2) by (auto split: sum.splits)
  with assms(1) show ?thesis
    by (auto simp: saveKey_write_unfold split: sum.splits)
qed


lemma saveKey_stages:
  assumes "KeyTypeMapping (keyType L key) = Some ktn"
    and "saveKey_filename E opts ktn w = (Inr fn, w1)"
    and "saveKey_overwrite fn w1 = (Return (), w2)"
    and "saveKey_pass opts w2 = Some (Return o3, w3)"
  shows "saveKey L E key opts w = Some (saveKey_write L E key fn o3 w3)"
  using assms by (simp add: saveKey_def)

lemma saveKey_reaches_write:
  assumes "saveKey L E key opts w = Some (r, w')"
  shows "((\<forall>o'. r \<noteq> Return o') \<and> files w' = files w \<and> past w' = past w) \<or>
         (\<exists>fn o3 w3. saveKey_write L E key fn o3 w3 = (r, w') \<and>
            private_key_subtype o3 = private_key_subtype opts \<and> format o3 = format opts \<and>
            files w3 = files w \<and> past w3 = past w)"
    (is "?untouched \<or> ?reached")
proof (cases "KeyTypeMapping (keyType L key)")
  case None
  with assms have "r = Raise (KeyError (keyType L key))" "w' = w" by (simp_all add: saveKey_def)
  then have ?untouched by simp
  then show ?thesis ..
next
  case (Some ktn)
  obtain a w1 where fnm: "saveKey_filename E opts ktn w = (a, w1)" by force
  note f1 = saveKey_filename_frame [OF fnm]
  show ?thesis
  proof (cases a)
    case (Inl e)
    with assms Some fnm have "r = Raise e" "w' = w1" by (simp_all add: saveKey_def)
    with f1 have ?untouched by simp
    then show ?thesis ..
  next
    case (Inr fn)
    obtain r2 w2 where ov: "saveKey_overwrite fn w1 = (r2, w2)" by force
    note f2 = saveKey_overwrite_frame [OF ov]
    show ?thesis
    proof (cases r2)
      case (Exit m)
      with assms Some fnm Inr ov have "r = Exit m" "w' = w2" by (simp_all add: saveKey_def)
      with f1 f2 have ?untouched by simp
      then show ?thesis ..
    next
      case (Raise e)
      with assms Some fnm Inr ov have "r = Raise e" "w' = w2" by (simp_all add: saveKey_def)
      with f1 f2 have ?untouched by simp
      then show ?thesis ..
    next
      case (Return u)
      show ?thesis
      proof (cases "saveKey_pass opts w2")
        case None
        with assms Some fnm Inr ov Return show ?thesis by (simp add: saveKey_def)
      next
        case (Some a3)
        obtain r3 w3 where a3: "a3 = (r3, w3)" by force
        with Some have ps: "saveKey_pass opts w2 = Some (r3, w3)" by simp
        note f3 = saveKey_pass_frame [OF ps]
        show ?thesis
        proof (cases r3)
          case (Exit m)
          with assms \<open>KeyTypeMapping (keyType L key) = Some ktn\<close> fnm Inr ov Return ps
          have "r = Exit m" "w' = w3" by (simp_all add: saveKey_def)
          with f1 f2 f3 have ?untouched by simp
          then show ?thesis ..
        next
          case (Raise e)
          with assms \<open>KeyTypeMapping (keyType L key) = Some ktn\<close> fnm Inr ov Return ps
          have "r = Raise e" "w' = w3" by (simp_all add: saveKey_def)
          with f1 f2 f3 have ?untouched by simp
          then show ?thesis ..
        next
          case (Return o3)
          with assms \<open>KeyTypeMapping (keyType L key) = Some ktn\<close> fnm Inr ov \<open>r2 = Return u\<close> ps
          have "saveKey_write L E key fn o3 w3 = (r, w')" by (simp add: saveKey_def)
          moreover from ps Return have "private_key_subtype o3 = private_key_subtype opts"
            "format o3 = format opts" by (simp_all add: saveKey_pass_Return)
          moreover from f1 f2 f3 have "files w3 = files w" "past w3 = past w" by simp_all
          ultimately have
            "saveKey_write L E key fn o3 w3 = (r, w') \<and>
             private_key_subtype o3 = private_key_subtype opts \<and> format o3 = format opts \<and>
             files w3 = files w \<and> past w3 = past w" by simp
          then have ?reached by (intro exI)
          then show ?thesis ..
        qed
      qed
    qed
  qed
qed

lemma saveKey_Return:
  assumes "saveKey L E key opts w = Some (Return o', w')"
  shows "\<exists>fn priv pub.
           private_key_subtype o' = Some (specSubtype (private_key_subtype opts) (keyType L key)) \<and>
           toString L key (private_key_subtype o') (pass o') None = Inr priv \<and>
           toString L (public L key) None None (Some (getuser E @ ''@'' @ gethostname E)) = Inr pub \<and>
           (format opts = FStr ''md5-hex'' \<or> format opts = FStr ''sha256-base64'') \<and>
           files w' = (files w)(fn \<mapsto> \<lparr>content = priv, mode = 384\<rparr>,
                                fn @ ''.pub'' \<mapsto> \<lparr>content = pub, mode = tempMode E\<rparr>) \<and>
           past w' = (files w)(fn \<mapsto> \<lparr>content = priv, mode = 384\<rparr>)
                     # (files w)(fn \<mapsto> \<lparr>content = priv, mode = tempMode E\<rparr>)
                     # files w # past w"
proof -
  from saveKey_reaches_write [OF assms] obtain fn o3 w3 where
    wr: "saveKey_write L E key fn o3 w3 = (Return o', w')"
    and o3: "private_key_subtype o3 = private_key_subtype opts" "format o3 = format opts"
    and w3: "files w3 = files w" "past w3 = past w" by auto
  from saveKey_write_Return [OF wr] obtain priv pub where *:
    "private_key_subtype o' = Some (specSubtype (private_key_subtype o3) (keyType L key))"
    "toString L key (private_key_subtype o') (pass o') None = Inr priv"
    "toString L (public L key) None None (Some (getuser E @ ''@'' @ gethostname E)) = Inr pub"
    "format o3 = FStr ''md5-hex'' \<or> format o3 = FStr ''sha256-base64''"
    "files w' = files (bothWritten E fn priv pub w3)"
    "past w' = past (bothWritten E fn priv pub w3)" by blast
  from * o3 w3 have
    "private_key_subtype o' = Some (specSubtype (private_key_subtype opts) (keyType L key)) \<and>
     toString L key (private_key_subtype o') (pass o') None = Inr priv \<and>
     toString L (public L key) None None (Some (getuser E @ ''@'' @ gethostname E)) = Inr pub \<and>
     (format opts = FStr ''md5-hex'' \<or> format opts = FStr ''sha256-base64'') \<and>
     files w' = (files w)(fn \<mapsto> \<lparr>content = priv, mode = 384\<rparr>,
                          fn @ ''.pub'' \<mapsto> \<lparr>content = pub, mode = tempMode E\<rparr>) \<and>
     past w' = (files w)(fn \<mapsto> \<lparr>content = priv, mode = 384\<rparr>)
               # (files w)(fn \<mapsto> \<lparr>content = priv, mode = tempMode E\<rparr>)
               # files w # past w"
    by (simp add: bothWritten_def)
  then show ?thesis by (intro exI)
qed

lemma generateRSAkey_cases:
  "generateRSAkey L E opts w = Some (r, w') \<Longrightarrow>
     (\<exists>e. r = Raise e \<and> w' = w) \<or>
     (\<exists>key. saveKey L E key (if bitsFalsy (bits opts) then opts\<lparr>bits := BInt 2048\<rparr> else opts) w
              = Some (r, w'))"
  by (auto simp: generateRSAkey_def Let_def split: sum.splits)

lemma generateDSAkey_cases:
  "generateDSAkey L E opts w = Some (r, w') \<Longrightarrow>
     (\<exists>e. r = Raise e \<and> w' = w) \<or>
     (\<exists>key. saveKey L E key (if bitsFalsy (bits opts) then opts\<lparr>bits := BInt 1024\<rparr> else opts) w
              = Some (r, w'))"
  by (auto simp: generateDSAkey_def Let_def split: sum.splits)

lemma generateECDSAkey_cases:
  "generateECDSAkey L E opts w = Some (r, w') \<Longrightarrow>
     (\<exists>e. r = Raise e \<and> w' = w) \<or>
     (\<exists>key. saveKey L E key (if bitsFalsy (bits opts) then opts\<lparr>bits := BInt 256\<rparr> else opts) w
              = Some (r, w'))"
  by (auto simp: generateECDSAkey_def Let_def split: sum.splits option.splits if_splits)

lemma generateEd25519key_cases:
  "generateEd25519key L E opts w = Some (r, w') \<Longrightarrow>
     (\<exists>e. r = Raise e \<and> w' = w) \<or> (\<exists>key. saveKey L E key opts w = Some (r, w'))"
  by (auto simp: generateEd25519key_def split: sum.splits)

lemma generated_saveKey:
  assumes "generated L E opts w r w'"
  shows "(\<exists>e. r = Raise e \<and> w' = w) \<or>
         (\<exists>key opts1. saveKey L E key opts1 w = Some (r, w') \<and>
            private_key_subtype opts1 = private_key_subtype opts \<and> format opts1 = format opts)"
    (is "?raised \<or> ?saved")
proof -
  have step: "?saved"
    if "saveKey L E key (if bitsFalsy (bits opts) then opts\<lparr>bits := BInt n\<rparr> else opts) w
          = Some (r, w')" for key n
  proof -
    let ?o = "if bitsFalsy (bits opts) then opts\<lparr>bits := BInt n\<rparr> else opts"
    have "saveKey L E key ?o w = Some (r, w') \<and>
          private_key_subtype ?o = private_key_subtype opts \<and> format ?o = format opts"
      using that by simp
    then show ?thesis by (intro exI)
  qed
  have ed: "?saved" if "saveKey L E key opts w = Some (r, w')" for key
  proof -
    have "saveKey L E key opts w = Some (r, w') \<and>
          private_key_subtype opts = private_key_subtype opts \<and> format opts = format opts"
      using that by simp
    then show ?thesis by (intro exI)
  qed
  from assms consider "generateRSAkey L E opts w = Some (r, w')"
    | "generateDSAkey L E opts w = Some (r, w')" | "generateECDSAkey L E opts w = Some (r, w')"
    | "generateEd25519key L E opts w = Some (r, w')"
    unfolding generated_def by blast
  then show ?thesis
  proof cases
    case 1
    from generateRSAkey_cases [OF 1] show ?thesis using step by blast
  next
    case 2
    from generateDSAkey_cases [OF 2] show ?thesis using step by blast
  next
    case 3
    from generateECDSAkey_cases [OF 3] show ?thesis using step by blast
  next
    case 4
    from generateEd25519key_cases [OF 4] show ?thesis using ed by blast
  qed
qed


section \<open>generate: the subtype, the modes, the fingerprint format\<close>

lemma lower_y: "lower c = CHR ''y'' \<longleftrightarrow> c = CHR ''y'' \<or> c = CHR ''Y''"
proof -
  have y: "(of_char (CHR ''y'') :: nat) = 121" and Y: "(of_char (CHR ''Y'') :: nat) = 89"
    by simp_all
  show ?thesis
  proof (cases "65 \<le> (of_char c :: nat) \<and> (of_char c :: nat) \<le> 90")
    case True
    then have l: "lower c = char_of ((of_char c :: nat) + 32)" by (simp add: lower_def Let_def)
    have "lower c = CHR ''y'' \<longleftrightarrow> (of_char (lower c) :: nat) = 121"
      using y by (metis of_char_eq_iff)
    also have "\<dots> \<longleftrightarrow> (of_char c :: nat) = 89" using True by (simp add: l)
    also have "\<dots> \<longleftrightarrow> c = CHR ''Y''" using Y by (metis of_char_eq_iff)
    finally show ?thesis using True y by auto
  next
    case False
    then have "lower c = c" by (auto simp: lower_def Let_def)
    moreover have "c \<noteq> CHR ''Y''" using False Y by auto
    ultimately show ?thesis by simp
  qed
qed


lemma saveKey_overwrite_refused:
  assumes "exists fn w1" and "stdin w1 (stdinPos w1) = Some yn"
    and "\<forall>c cs. yn = c # cs \<longrightarrow> c \<noteq> CHR ''y'' \<and> c \<noteq> CHR ''Y''"
  shows "\<exists>r. saveKey_overwrite fn w1 =
               (r, asked ''Overwrite (y/n)? '' (print (fn @ '' already exists.'') w1)) \<and>
             (\<forall>u. r \<noteq> Return u) \<and> (yn \<noteq> [] \<longrightarrow> r = Exit None)"
proof -
  have i: "input ''Overwrite (y/n)? '' (print (fn @ '' already exists.'') w1) =
           (Inr yn, asked ''Overwrite (y/n)? '' (print (fn @ '' already exists.'') w1))"
    using assms(2) by (simp add: input_def print_def asked_def)
  show ?thesis
  proof (cases yn)
    case Nil
    with assms(1) i show ?thesis by (simp add: saveKey_overwrite_def)
  next
    case (Cons c cs)
    with assms(3) have "lower c \<noteq> CHR ''y''" by (simp add: lower_y)
    with assms(1) i Cons show ?thesis by (simp add: saveKey_overwrite_def)
  qed
qed

lemma supportedKeyTypes_simps:
  "supportedKeyTypes ''rsa'' = Some generateRSAkey"
  "supportedKeyTypes ''dsa'' = Some generateDSAkey"
  "supportedKeyTypes ''ecdsa'' = Some generateECDSAkey"
  "supportedKeyTypes ''ed25519'' = Some generateEd25519key"
  by (simp_all add: supportedKeyTypes_def)

lemma generator_saveKey:
  assumes "supportedKeyTypes t = Some gen" and "keyMade L E t opts key opts1"
  shows "gen L E opts w = saveKey L E key opts1 w"
proof -
  from assms(2) consider
      (rsa) "t = ''rsa''"
        "opts1 = (if bitsFalsy (bits opts) then opts\<lparr>bits := BInt 2048\<rparr> else opts)"
        "case bitsInt E (bits opts1) of Inl e \<Rightarrow> False | Inr n \<Rightarrow> generateRSA L n = Inr key"
    | (dsa) "t = ''dsa''"
        "opts1 = (if bitsFalsy (bits opts) then opts\<lparr>bits := BInt 1024\<rparr> else opts)"
        "case bitsInt E (bits opts1) of Inl e \<Rightarrow> False | Inr n \<Rightarrow> generateDSA L n = Inr key"
    | (ecdsa) "t = ''ecdsa''"
        "opts1 = (if bitsFalsy (bits opts) then opts\<lparr>bits := BInt 256\<rparr> else opts)"
        "list_all (\<lambda>c. (of_char c :: nat) < 128) (bitsStr (bits opts1))"
        "case curveTable L (''ecdsa-sha2-nistp'' @ bitsStr (bits opts1)) of
           None \<Rightarrow> False | Some c \<Rightarrow> generateEC L c = Inr key"
    | (ed) "t = ''ed25519''" "opts1 = opts" "generateEd25519 L = Inr key"
    unfolding keyMade_def by blast
  then show ?thesis
  proof cases
    case rsa
    from assms(1) rsa(1) have g: "gen = generateRSAkey" by (simp add: supportedKeyTypes_simps)
    from rsa(3) obtain n where "bitsInt E (bits opts1) = Inr n" "generateRSA L n = Inr key"
      by (auto split: sum.splits)
    with rsa(2) show ?thesis unfolding g by (simp add: generateRSAkey_def Let_def)
  next
    case dsa
    from assms(1) dsa(1) have g: "gen = generateDSAkey" by (simp add: supportedKeyTypes_simps)
    from dsa(3) obtain n where "bitsInt E (bits opts1) = Inr n" "generateDSA L n = Inr key"
      by (auto split: sum.splits)
    with dsa(2) show ?thesis unfolding g by (simp add: generateDSAkey_def Let_def)
  next
    case ecdsa
    from assms(1) ecdsa(1) have g: "gen = generateECDSAkey" by (simp add: supportedKeyTypes_simps)
    from ecdsa(4) obtain c where
      "curveTable L (''ecdsa-sha2-nistp'' @ bitsStr (bits opts1)) = Some c" "generateEC L c = Inr key"
      by (auto split: option.splits)
    moreover from ecdsa(3) have "\<not> (\<exists>c \<in> set (bitsStr (bits opts1)). 128 \<le> (of_char c :: nat))"
      by (auto simp: list_all_iff)
    ultimately show ?thesis using ecdsa(2) unfolding g
      by (simp add: generateECDSAkey_def Let_def)
  next
    case ed
    from assms(1) ed(1) have g: "gen = generateEd25519key" by (simp add: supportedKeyTypes_simps)
    from ed(2,3) show ?thesis unfolding g by (simp add: generateEd25519key_def)
  qed
qed

lemma keyMade_options:
  assumes "keyMade L E t opts key opts1"
  shows "filename opts1 = filename opts \<and> pass opts1 = pass opts \<and>
         private_key_subtype opts1 = private_key_subtype opts \<and> format opts1 = format opts \<and>
         no_passphrase opts1 = no_passphrase opts \<and> newpass opts1 = newpass opts"
  using assms unfolding keyMade_def by (auto split: if_splits)

lemma saveKey_write_private:
  assumes "toString L key (Some (specSubtype (private_key_subtype opts) (keyType L key)))
             (pass opts) None = Inr priv"
  shows "\<exists>r w'. saveKey_write L E key fn opts w = (r, w') \<and>
           files w' fn = Some \<lparr>content = priv, mode = 384\<rparr>"
proof -
  have "files (snd (saveKey_write L E key fn opts w)) fn = Some \<lparr>content = priv, mode = 384\<rparr>"
    using assms
    by (simp add: saveKey_write_unfold print_def privateWritten_def bothWritten_def
          split: sum.split)
  then show ?thesis by (cases "saveKey_write L E key fn opts w") auto
qed

lemma saveKey_overwrite_accepted:
  assumes "exists fn w1" and "stdin w1 (stdinPos w1) = Some (c # cs)"
    and "c = CHR ''y'' \<or> c = CHR ''Y''"
  shows "saveKey_overwrite fn w1 =
           (Return (), asked ''Overwrite (y/n)? '' (print (fn @ '' already exists.'') w1))"
proof -
  have i: "input ''Overwrite (y/n)? '' (print (fn @ '' already exists.'') w1) =
           (Inr (c # cs), asked ''Overwrite (y/n)? '' (print (fn @ '' already exists.'') w1))"
    using assms(2) by (simp add: input_def print_def asked_def)
  from assms(3) have "lower c = CHR ''y''" by (simp add: lower_y)
  with assms(1) i show ?thesis by (simp add: saveKey_overwrite_def)
qed

lemma saveKey_overwrite_eof:
  assumes "exists fn w1" and "stdin w1 (stdinPos w1) = None"
  shows "saveKey_overwrite fn w1 =
           (Raise (EOFError ''EOF when reading a line''),
            w1\<lparr>log := log w1 @ [Print (fn @ '' already exists.''), Input ''Overwrite (y/n)? '']\<rparr>)"
  using assms by (simp add: saveKey_overwrite_def input_def print_def)

lemma saveKey_overwrite_refused_how:
  assumes "exists fn w1" and "stdin w1 (stdinPos w1) = Some yn"
    and "\<forall>c cs. yn = c # cs \<longrightarrow> c \<noteq> CHR ''y'' \<and> c \<noteq> CHR ''Y''"
  shows "saveKey_overwrite fn w1 =
           (if yn = [] then Raise (IndexError ''string index out of range'') else Exit None,
            asked ''Overwrite (y/n)? '' (print (fn @ '' already exists.'') w1))"
proof -
  have i: "input ''Overwrite (y/n)? '' (print (fn @ '' already exists.'') w1) =
           (Inr yn, asked ''Overwrite (y/n)? '' (print (fn @ '' already exists.'') w1))"
    using assms(2) by (simp add: input_def print_def asked_def)
  show ?thesis
  proof (cases yn)
    case Nil
    with assms(1) i show ?thesis by (simp add: saveKey_overwrite_def)
  next
    case (Cons c cs)
    with assms(3) have "lower c \<noteq> CHR ''y''" by (simp add: lower_y)
    with assms(1) i Cons show ?thesis by (simp add: saveKey_overwrite_def)
  qed
qed

text \<open>
  Claim C3, as amended. A generator has made its key (\<open>keyMade\<close>) and \<^verbatim>\<open>_saveKey\<close> has resolved
  the path \<open>fn\<close>, which exists. The run prints that the file exists and asks
  \<^verbatim>\<open>Overwrite (y/n)?\<close> before anything is written. For every answer whose first character
  is neither \<open>y\<close> nor \<open>Y\<close> the run ends there, with \<^verbatim>\<open>sys.exit()\<close> when the answer is not
  empty and with \<^verbatim>\<open>IndexError\<close> when it is, and it has written nothing: the files are the
  ones before and the filesystem went through no other state; at the end of the input
  the run ends with \<^verbatim>\<open>EOFError\<close>. For every answer whose first character is \<open>y\<close> or \<open>Y\<close>
  the run goes on to the passphrase and to the writing of the files; when these steps
  give the bytes \<open>priv\<close> of the private key, the run ends with these bytes in the file
  \<open>fn\<close> in place of the old ones.
\<close>

theorem generate_overwrites_only_after_leading_y:
  assumes "supportedKeyTypes t = Some gen"
    and "keyMade L E t opts key opts1"
    and "KeyTypeMapping (keyType L key) = Some ktn"
    and "saveKey_filename E opts1 ktn w = (Inr fn, w1)"
    and "exists fn w1"
  shows "(stdin w1 (stdinPos w1) = None \<longrightarrow>
            gen L E opts w =
              Some (Raise (EOFError ''EOF when reading a line''),
                    w1\<lparr>log := log w1 @ [Print (fn @ '' already exists.''),
                                         Input ''Overwrite (y/n)? '']\<rparr>)) \<and>
         (stdin w1 (stdinPos w1) = Some yn \<and>
          (\<forall>c cs. yn = c # cs \<longrightarrow> c \<noteq> CHR ''y'' \<and> c \<noteq> CHR ''Y'') \<longrightarrow>
            gen L E opts w =
              Some (if yn = [] then Raise (IndexError ''string index out of range'')
                    else Exit None,
                    asked ''Overwrite (y/n)? '' (print (fn @ '' already exists.'') w1)) \<and>
            files (asked ''Overwrite (y/n)? '' (print (fn @ '' already exists.'') w1)) = files w \<and>
            past (asked ''Overwrite (y/n)? '' (print (fn @ '' already exists.'') w1)) = past w) \<and>
         (stdin w1 (stdinPos w1) = Some (c # cs) \<and> (c = CHR ''y'' \<or> c = CHR ''Y'') \<longrightarrow>
            gen L E opts w =
              (case saveKey_pass opts1
                      (asked ''Overwrite (y/n)? '' (print (fn @ '' already exists.'') w1)) of
                 None \<Rightarrow> None
               | Some (Exit x, w3) \<Rightarrow> Some (Exit x, w3)
               | Some (Raise x, w3) \<Rightarrow> Some (Raise x, w3)
               | Some (Return o3, w3) \<Rightarrow> Some (saveKey_write L E key fn o3 w3))) \<and>
         (stdin w1 (stdinPos w1) = Some (c # cs) \<and> (c = CHR ''y'' \<or> c = CHR ''Y'') \<and>
          saveKey_pass opts1
            (asked ''Overwrite (y/n)? '' (print (fn @ '' already exists.'') w1)) =
              Some (Return o3, w3) \<and>
          toString L key (Some (specSubtype (private_key_subtype opts) (keyType L key)))
            (pass o3) None = Inr priv \<longrightarrow>
            (\<exists>r w'. gen L E opts w = Some (r, w') \<and>
                    files w' fn = Some \<lparr>content = priv, mode = 384\<rparr>))"
proof -
  let ?w2 = "asked ''Overwrite (y/n)? '' (print (fn @ '' already exists.'') w1)"
  note g = generator_saveKey [OF assms(1,2)]
  note o1 = keyMade_options [OF assms(2)]
  note f1 = saveKey_filename_frame [OF assms(4)]
  have eof: "saveKey L E key opts1 w =
              Some (Raise (EOFError ''EOF when reading a line''),
                    w1\<lparr>log := log w1 @ [Print (fn @ '' already exists.''),
                                         Input ''Overwrite (y/n)? '']\<rparr>)"
    if "stdin w1 (stdinPos w1) = None"
    using assms(3,4) saveKey_overwrite_eof [OF assms(5) that] by (simp add: saveKey_def)
  have refused: "saveKey L E key opts1 w =
              Some (if yn = [] then Raise (IndexError ''string index out of range'')
                    else Exit None, ?w2)"
    if "stdin w1 (stdinPos w1) = Some yn"
      "\<forall>c cs. yn = c # cs \<longrightarrow> c \<noteq> CHR ''y'' \<and> c \<noteq> CHR ''Y''"
    using assms(3,4) saveKey_overwrite_refused_how [OF assms(5) that] by (simp add: saveKey_def)
  have fs: "files ?w2 = files w \<and> past ?w2 = past w"
    using f1 by (simp add: asked_def print_def)
  have goes: "saveKey L E key opts1 w =
              (case saveKey_pass opts1 ?w2 of
                 None \<Rightarrow> None
               | Some (Exit x, w3) \<Rightarrow> Some (Exit x, w3)
               | Some (Raise x, w3) \<Rightarrow> Some (Raise x, w3)
               | Some (Return o3, w3) \<Rightarrow> Some (saveKey_write L E key fn o3 w3))"
    if "stdin w1 (stdinPos w1) = Some (c # cs)" "c = CHR ''y'' \<or> c = CHR ''Y''"
    using assms(3,4) saveKey_overwrite_accepted [OF assms(5) that] by (simp add: saveKey_def)
  have written: "\<exists>r w'. saveKey L E key opts1 w = Some (r, w') \<and>
                    files w' fn = Some \<lparr>content = priv, mode = 384\<rparr>"
    if a: "stdin w1 (stdinPos w1) = Some (c # cs)" "c = CHR ''y'' \<or> c = CHR ''Y''"
      and p: "saveKey_pass opts1 ?w2 = Some (Return o3, w3)"
      and s: "toString L key (Some (specSubtype (private_key_subtype opts) (keyType L key)))
                (pass o3) None = Inr priv"
  proof -
    from saveKey_pass_Return [OF p] o1
    have "private_key_subtype o3 = private_key_subtype opts" by simp
    with s have "toString L key (Some (specSubtype (private_key_subtype o3) (keyType L key)))
                (pass o3) None = Inr priv" by simp
    from saveKey_write_private [OF this, of E fn w3] goes [OF a] p show ?thesis by auto
  qed
  show ?thesis unfolding g using eof refused fs goes written by (intro conjI impI) blast+
qed



text \<open>
  The RSA generator on an existing file \<open>/k\<close>. The answer \<open>no\<close>: the run exits after the
  question, and the old file is as it was. The answer \<open>Yes\<close>: the file holds the new
  key.
\<close>

theorem generate_overwrites_only_after_leading_y_witness:
  "(\<exists>w'. generateRSAkey toyKeys posixEnv
           (noOptions\<lparr>filename := Some ''/k'', no_passphrase := True\<rparr>)
           (console [''/k'' \<mapsto> \<lparr>content = ''old'', mode = 384\<rparr>] [''no''] []) =
         Some (Exit None, w') \<and>
       files w' ''/k'' = Some \<lparr>content = ''old'', mode = 384\<rparr> \<and> files w' ''/k.pub'' = None \<and>
       past w' = [] \<and>
       log w' = [Print ''/k already exists.'', Input ''Overwrite (y/n)? '']) \<and>
   (\<exists>r w'. generateRSAkey toyKeys posixEnv
           (noOptions\<lparr>filename := Some ''/k'', no_passphrase := True\<rparr>)
           (console [''/k'' \<mapsto> \<lparr>content = ''old'', mode = 384\<rparr>] [''Yes''] []) =
         Some (r, w') \<and>
       files w' ''/k'' = Some \<lparr>content = ''RP'', mode = 384\<rparr>)"
proof (rule conjI)
  let ?key = "ToyKey (CHR ''R'') True"
  let ?o = "noOptions\<lparr>filename := Some ''/k'', no_passphrase := True\<rparr>"
  let ?o1 = "noOptions\<lparr>filename := Some ''/k'', no_passphrase := True, bits := BInt 2048\<rparr>"
  let ?w = "console [''/k'' \<mapsto> \<lparr>content = ''old'', mode = 384\<rparr>] [''no''] []"
  let ?w2 = "asked ''Overwrite (y/n)? '' (print (''/k'' @ '' already exists.'') ?w)"
  have s: "supportedKeyTypes ''rsa'' = Some generateRSAkey" by (simp add: supportedKeyTypes_simps)
  have m: "keyMade toyKeys posixEnv ''rsa'' ?o ?key ?o1"
    by (simp add: keyMade_def noOptions_def toyKeys_def)
  have k: "KeyTypeMapping (keyType toyKeys ?key) = Some ''rsa''"
    by (simp add: toyKeys_simps toyType_def KeyTypeMapping_def)
  have f: "saveKey_filename posixEnv ?o1 ''rsa'' ?w = (Inr ''/k'', ?w)"
    by (simp add: saveKey_filename_def truthy_def noOptions_def)
  have e: "exists ''/k'' ?w" by (simp add: exists_def console_def)
  have a: "stdin ?w (stdinPos ?w) = Some ''no''" by (simp add: console_def feed_def)
  have n: "\<forall>c cs. ''no'' = c # cs \<longrightarrow> c \<noteq> CHR ''y'' \<and> c \<noteq> CHR ''Y''" by simp
  have "generateRSAkey toyKeys posixEnv ?o ?w =
          Some (if ''no'' = [] then Raise (IndexError ''string index out of range'')
                else Exit None, ?w2) \<and>
        files ?w2 = files ?w \<and> past ?w2 = past ?w"
    by (rule generate_overwrites_only_after_leading_y [OF s m k f e, where yn = "''no''",
          THEN conjunct2, THEN conjunct1, THEN mp]) (intro conjI a n)
  then have "generateRSAkey toyKeys posixEnv ?o ?w = Some (Exit None, ?w2)"
    by simp
  then show "\<exists>w'. generateRSAkey toyKeys posixEnv ?o ?w = Some (Exit None, w') \<and>
       files w' ''/k'' = Some \<lparr>content = ''old'', mode = 384\<rparr> \<and> files w' ''/k.pub'' = None \<and>
       past w' = [] \<and>
       log w' = [Print ''/k already exists.'', Input ''Overwrite (y/n)? '']"
    by (simp add: asked_def print_def console_def)
next
  let ?key = "ToyKey (CHR ''R'') True"
  let ?o = "noOptions\<lparr>filename := Some ''/k'', no_passphrase := True\<rparr>"
  let ?o1 = "noOptions\<lparr>filename := Some ''/k'', no_passphrase := True, bits := BInt 2048\<rparr>"
  let ?w = "console [''/k'' \<mapsto> \<lparr>content = ''old'', mode = 384\<rparr>] [''Yes''] []"
  let ?w2 = "asked ''Overwrite (y/n)? '' (print (''/k'' @ '' already exists.'') ?w)"
  have s: "supportedKeyTypes ''rsa'' = Some generateRSAkey" by (simp add: supportedKeyTypes_simps)
  have m: "keyMade toyKeys posixEnv ''rsa'' ?o ?key ?o1"
    by (simp add: keyMade_def noOptions_def toyKeys_def)
  have k: "KeyTypeMapping (keyType toyKeys ?key) = Some ''rsa''"
    by (simp add: toyKeys_simps toyType_def KeyTypeMapping_def)
  have f: "saveKey_filename posixEnv ?o1 ''rsa'' ?w = (Inr ''/k'', ?w)"
    by (simp add: saveKey_filename_def truthy_def noOptions_def)
  have e: "exists ''/k'' ?w" by (simp add: exists_def console_def)
  have a: "stdin ?w (stdinPos ?w) = Some (CHR ''Y'' # ''es'')" by (simp add: console_def feed_def)
  have p: "saveKey_pass ?o1 ?w2 = Some (Return (?o1\<lparr>pass := Some []\<rparr>), ?w2)"
    by (simp add: saveKey_pass_def)
  have t: "toString toyKeys ?key
             (Some (specSubtype (private_key_subtype ?o) (keyType toyKeys ?key)))
             (pass (?o1\<lparr>pass := Some []\<rparr>)) None = Inr ''RP''"
    by (simp add: toyKeys_simps toyType_def specSubtype_def noOptions_def)
  show "\<exists>r w'. generateRSAkey toyKeys posixEnv ?o ?w = Some (r, w') \<and>
       files w' ''/k'' = Some \<lparr>content = ''RP'', mode = 384\<rparr>"
    by (rule generate_overwrites_only_after_leading_y [OF s m k f e, where c = "CHR ''Y''"
      and cs = "''es''" and ?o3.0 = "?o1\<lparr>pass := Some []\<rparr>" and ?w3.0 = ?w2
      and priv = "''RP''", THEN conjunct2, THEN conjunct2, THEN conjunct2, THEN mp])
       (intro conjI disjI2 refl a p t)
qed

text \<open>
  Claim C3 as stated fails on the answer \<open>yikes\<close>, which is no explicit yes: line 366
  looks at its first character only, and the run overwrites the private key file and
  writes the public one.
\<close>

theorem answer_yikes_overwrites_counterexample:
  "\<exists>o' w'. saveKey toyKeys posixEnv (ToyKey (CHR ''R'') True)
          (noOptions\<lparr>filename := Some ''/k'', no_passphrase := True\<rparr>)
          (console [''/k'' \<mapsto> \<lparr>content = ''old'', mode = 384\<rparr>] [''yikes''] []) =
        Some (Return o', w') \<and>
      files w' ''/k'' = Some \<lparr>content = ''RP'', mode = 384\<rparr> \<and>
      files w' ''/k.pub'' = Some \<lparr>content = ''Ru alice@wonderland'', mode = 493\<rparr>"
proof -
  let ?key = "ToyKey (CHR ''R'') True"
  let ?o = "noOptions\<lparr>filename := Some ''/k'', no_passphrase := True\<rparr>"
  let ?w = "console [''/k'' \<mapsto> \<lparr>content = ''old'', mode = 384\<rparr>] [''yikes''] []"
  let ?w2 = "asked ''Overwrite (y/n)? '' (print ''/k already exists.'' ?w)"
  have k: "KeyTypeMapping (keyType toyKeys ?key) = Some ''rsa''"
    by (simp add: toyKeys_simps toyType_def KeyTypeMapping_def)
  have f: "saveKey_filename posixEnv ?o ''rsa'' ?w = (Inr ''/k'', ?w)"
    by (simp add: saveKey_filename_def truthy_def noOptions_def)
  have "lower (CHR ''y'') = CHR ''y''" by (simp add: lower_y)
  then have ov: "saveKey_overwrite ''/k'' ?w = (Return (), ?w2)"
    by (simp add: saveKey_overwrite_def exists_def console_def feed_def input_def print_def
          asked_def)
  have p: "saveKey_pass ?o ?w2 = Some (Return (?o\<lparr>pass := Some []\<rparr>), ?w2)"
    by (simp add: saveKey_pass_def)
  have "saveKey toyKeys posixEnv ?key ?o ?w =
        Some (saveKey_write toyKeys posixEnv ?key ''/k'' (?o\<lparr>pass := Some []\<rparr>) ?w2)"
    using k f ov p by (rule saveKey_stages)
  also have "saveKey_write toyKeys posixEnv ?key ''/k'' (?o\<lparr>pass := Some []\<rparr>) ?w2 =
      (Return (?o\<lparr>pass := Some [], private_key_subtype := Some ''PEM'',
                   format := FEnum SHA256_BASE64\<rparr>),
       print ''SHA256:toy''
         (print ''The key fingerprint in <FingerprintFormats=SHA256_BASE64> is:''
            (print ''Your public key has been saved in /k.pub''
               (print ''Your identification has been saved in /k''
                  (bothWritten posixEnv ''/k'' ''RP'' ''Ru alice@wonderland'' ?w2)))))"
    by (simp add: saveKey_write_unfold toyKeys_simps toyType_def specSubtype_def noOptions_def
          posixEnv_simps enumrepresentation_def keyFingerprint_def)
  finally have run: "saveKey toyKeys posixEnv ?key ?o ?w =
      Some (Return (?o\<lparr>pass := Some [], private_key_subtype := Some ''PEM'',
                         format := FEnum SHA256_BASE64\<rparr>),
            print ''SHA256:toy''
              (print ''The key fingerprint in <FingerprintFormats=SHA256_BASE64> is:''
                 (print ''Your public key has been saved in /k.pub''
                    (print ''Your identification has been saved in /k''
                       (bothWritten posixEnv ''/k'' ''RP'' ''Ru alice@wonderland'' ?w2)))))" .
  show ?thesis
    unfolding run by (simp add: print_def bothWritten_def posixEnv_simps)
qed


section \<open>generate: the modes of the files, the subtype, the fingerprint format\<close>

lemma generated_Return:
  assumes "generated L E opts w (Return o') w'"
  shows "\<exists>key fn priv pub.
           private_key_subtype o' = Some (specSubtype (private_key_subtype opts) (keyType L key)) \<and>
           toString L key (private_key_subtype o') (pass o') None = Inr priv \<and>
           (format opts = FStr ''md5-hex'' \<or> format opts = FStr ''sha256-base64'') \<and>
           files w' = (files w)(fn \<mapsto> \<lparr>content = priv, mode = 384\<rparr>,
                                fn @ ''.pub'' \<mapsto> \<lparr>content = pub, mode = tempMode E\<rparr>) \<and>
           past w' = (files w)(fn \<mapsto> \<lparr>content = priv, mode = 384\<rparr>)
                     # (files w)(fn \<mapsto> \<lparr>content = priv, mode = tempMode E\<rparr>)
                     # files w # past w"
proof -
  from generated_saveKey [OF assms] obtain key opts1 where
    s: "saveKey L E key opts1 w = Some (Return o', w')"
    and o: "private_key_subtype opts1 = private_key_subtype opts" "format opts1 = format opts"
    by auto
  from saveKey_Return [OF s] obtain fn priv pub where
    "private_key_subtype o' = Some (specSubtype (private_key_subtype opts1) (keyType L key))"
    "toString L key (private_key_subtype o') (pass o') None = Inr priv"
    "format opts1 = FStr ''md5-hex'' \<or> format opts1 = FStr ''sha256-base64''"
    "files w' = (files w)(fn \<mapsto> \<lparr>content = priv, mode = 384\<rparr>,
                          fn @ ''.pub'' \<mapsto> \<lparr>content = pub, mode = tempMode E\<rparr>)"
    "past w' = (files w)(fn \<mapsto> \<lparr>content = priv, mode = 384\<rparr>)
               # (files w)(fn \<mapsto> \<lparr>content = priv, mode = tempMode E\<rparr>)
               # files w # past w" by blast
  with o have
    "private_key_subtype o' = Some (specSubtype (private_key_subtype opts) (keyType L key)) \<and>
     toString L key (private_key_subtype o') (pass o') None = Inr priv \<and>
     (format opts = FStr ''md5-hex'' \<or> format opts = FStr ''sha256-base64'') \<and>
     files w' = (files w)(fn \<mapsto> \<lparr>content = priv, mode = 384\<rparr>,
                          fn @ ''.pub'' \<mapsto> \<lparr>content = pub, mode = tempMode E\<rparr>) \<and>
     past w' = (files w)(fn \<mapsto> \<lparr>content = priv, mode = 384\<rparr>)
               # (files w)(fn \<mapsto> \<lparr>content = priv, mode = tempMode E\<rparr>)
               # files w # past w" by simp
  then show ?thesis by (intro exI)
qed

text \<open>
  Claim C2, as amended. Every generator that returns has taken the filesystem through
  exactly these states: the private file written with the default permission bits of a
  new file (\<open>tempMode\<close>), then the same file with the bits \<^verbatim>\<open>0o600\<close> (384, which grant
  nothing to the group or to others) set by the \<^verbatim>\<open>chmod\<close> of line 393, then the public
  file added with the default permission bits, which is the state at the return. The
  private file has owner-only access from the \<^verbatim>\<open>chmod\<close> on; the public file is never
  restricted.
\<close>

theorem generate_restricts_private_file_after_write:
  assumes "generated L E opts w (Return o') w'"
  shows "\<exists>fn priv pub.
           files w' = (files w)(fn \<mapsto> \<lparr>content = priv, mode = 384\<rparr>,
                                fn @ ''.pub'' \<mapsto> \<lparr>content = pub, mode = tempMode E\<rparr>) \<and>
           past w' = (files w)(fn \<mapsto> \<lparr>content = priv, mode = 384\<rparr>)
                     # (files w)(fn \<mapsto> \<lparr>content = priv, mode = tempMode E\<rparr>)
                     # files w # past w \<and>
           ownerOnly 384"
proof -
  from generated_Return [OF assms] obtain fn priv pub where
    "files w' = (files w)(fn \<mapsto> \<lparr>content = priv, mode = 384\<rparr>,
                          fn @ ''.pub'' \<mapsto> \<lparr>content = pub, mode = tempMode E\<rparr>)"
    "past w' = (files w)(fn \<mapsto> \<lparr>content = priv, mode = 384\<rparr>)
               # (files w)(fn \<mapsto> \<lparr>content = priv, mode = tempMode E\<rparr>)
               # files w # past w" by blast
  then have
    "files w' = (files w)(fn \<mapsto> \<lparr>content = priv, mode = 384\<rparr>,
                          fn @ ''.pub'' \<mapsto> \<lparr>content = pub, mode = tempMode E\<rparr>) \<and>
     past w' = (files w)(fn \<mapsto> \<lparr>content = priv, mode = 384\<rparr>)
               # (files w)(fn \<mapsto> \<lparr>content = priv, mode = tempMode E\<rparr>)
               # files w # past w \<and>
     ownerOnly 384" by (simp add: ownerOnly_def)
  then show ?thesis by (intro exI)
qed

lemma toy_rsa_run:
  "generateRSAkey toyKeys posixEnv (noOptions\<lparr>filename := Some ''/k'', no_passphrase := True\<rparr>)
     (console Map.empty [] []) =
   Some (Return (noOptions\<lparr>filename := Some ''/k'', no_passphrase := True, bits := BInt 2048,
                          pass := Some [], private_key_subtype := Some ''PEM'',
                          format := FEnum SHA256_BASE64\<rparr>),
         print ''SHA256:toy''
           (print ''The key fingerprint in <FingerprintFormats=SHA256_BASE64> is:''
              (print ''Your public key has been saved in /k.pub''
                 (print ''Your identification has been saved in /k''
                    (bothWritten posixEnv ''/k'' ''RP'' ''Ru alice@wonderland''
                       (console Map.empty [] []))))))"
proof -
  let ?key = "ToyKey (CHR ''R'') True"
  let ?o = "noOptions\<lparr>filename := Some ''/k'', no_passphrase := True, bits := BInt 2048\<rparr>"
  let ?w = "console Map.empty [] []"
  have g: "generateRSAkey toyKeys posixEnv
             (noOptions\<lparr>filename := Some ''/k'', no_passphrase := True\<rparr>) ?w =
           saveKey toyKeys posixEnv ?key ?o ?w"
    by (simp add: generateRSAkey_def noOptions_def toyKeys_def)
  have k: "KeyTypeMapping (keyType toyKeys ?key) = Some ''rsa''"
    by (simp add: toyKeys_simps toyType_def KeyTypeMapping_def)
  have f: "saveKey_filename posixEnv ?o ''rsa'' ?w = (Inr ''/k'', ?w)"
    by (simp add: saveKey_filename_def truthy_def noOptions_def)
  have ov: "saveKey_overwrite ''/k'' ?w = (Return (), ?w)"
    by (simp add: saveKey_overwrite_def exists_def console_def)
  have p: "saveKey_pass ?o ?w = Some (Return (?o\<lparr>pass := Some []\<rparr>), ?w)"
    by (simp add: saveKey_pass_def)
  have "saveKey toyKeys posixEnv ?key ?o ?w =
        Some (saveKey_write toyKeys posixEnv ?key ''/k'' (?o\<lparr>pass := Some []\<rparr>) ?w)"
    using k f ov p by (rule saveKey_stages)
  also have "saveKey_write toyKeys posixEnv ?key ''/k'' (?o\<lparr>pass := Some []\<rparr>) ?w =
      (Return (?o\<lparr>pass := Some [], private_key_subtype := Some ''PEM'',
                   format := FEnum SHA256_BASE64\<rparr>),
       print ''SHA256:toy''
         (print ''The key fingerprint in <FingerprintFormats=SHA256_BASE64> is:''
            (print ''Your public key has been saved in /k.pub''
               (print ''Your identification has been saved in /k''
                  (bothWritten posixEnv ''/k'' ''RP'' ''Ru alice@wonderland'' ?w)))))"
    by (simp add: saveKey_write_unfold toyKeys_simps toyType_def specSubtype_def noOptions_def
          posixEnv_simps enumrepresentation_def keyFingerprint_def)
  finally show ?thesis unfolding g by simp
qed

text \<open>
  A run of the RSA generator with the umask \<open>022\<close>: the private file ends with the mode
  \<^verbatim>\<open>0o600\<close>, the public file with \<^verbatim>\<open>0o755\<close>, after three changes of the filesystem.
\<close>

theorem generate_restricts_private_file_after_write_witness:
  "\<exists>o' w'. generateRSAkey toyKeys posixEnv
              (noOptions\<lparr>filename := Some ''/k'', no_passphrase := True\<rparr>)
              (console Map.empty [] []) = Some (Return o', w') \<and>
     files w' ''/k'' = Some \<lparr>content = ''RP'', mode = 384\<rparr> \<and>
     files w' ''/k.pub'' = Some \<lparr>content = ''Ru alice@wonderland'', mode = 493\<rparr> \<and>
     length (past w') = 3"
proof -
  let ?o = "noOptions\<lparr>filename := Some ''/k'', no_passphrase := True\<rparr>"
  let ?w = "console Map.empty [] []"
  obtain o' w' where run: "generateRSAkey toyKeys posixEnv ?o ?w = Some (Return o', w')"
    and fs: "files w' ''/k'' = Some \<lparr>content = ''RP'', mode = 384\<rparr>"
      "files w' ''/k.pub'' = Some \<lparr>content = ''Ru alice@wonderland'', mode = 493\<rparr>"
    by (simp add: toy_rsa_run print_def bothWritten_def posixEnv_simps)
  then have "generated toyKeys posixEnv ?o ?w (Return o') w'" by (simp add: generated_def)
  from generate_restricts_private_file_after_write [OF this]
  have "length (past w') = 3" by (auto simp: console_def)
  with run fs show ?thesis by blast
qed

text \<open>
  Claim C2 as stated fails in that run: between the write and the \<^verbatim>\<open>chmod\<close> the private
  file has the mode \<^verbatim>\<open>0o755\<close> (493), which lets the group and others read it.
\<close>

theorem private_file_open_before_chmod_counterexample:
  "\<exists>o' w'. generateRSAkey toyKeys posixEnv
              (noOptions\<lparr>filename := Some ''/k'', no_passphrase := True\<rparr>)
              (console Map.empty [] []) = Some (Return o', w') \<and>
     (past w' ! 1) ''/k'' = Some \<lparr>content = ''RP'', mode = 493\<rparr> \<and> \<not> ownerOnly 493"
  by (simp add: toy_rsa_run print_def bothWritten_def posixEnv_simps ownerOnly_def)


section \<open>The private key subtype\<close>

lemma specSubtype_cases:
  "specSubtype (Some s) kt = s \<and> specSubtype None ''Ed25519'' = ''v1'' \<and>
   (kt \<noteq> ''Ed25519'' \<longrightarrow> specSubtype None kt = ''PEM'') \<and>
   specSubtype None kt = defaultPrivateKeySubtype kt"
  by (simp add: specSubtype_def defaultPrivateKeySubtype_def)

lemma supported_generated:
  "supportedKeyTypes t = Some gen \<Longrightarrow> gen L E opts w = Some (r, w') \<Longrightarrow>
     generated L E opts w r w'"
  by (auto simp: supportedKeyTypes_def generated_def split: if_splits)

lemma generator_reaches_write:
  assumes "supportedKeyTypes t = Some gen"
    and "keyMade L E t opts key opts1"
    and "KeyTypeMapping (keyType L key) = Some ktn"
    and "saveKey_filename E opts1 ktn w = (Inr fn, w1)"
    and "saveKey_overwrite fn w1 = (Return (), w2)"
    and "saveKey_pass opts1 w2 = Some (Return o3, w3)"
  shows "gen L E opts w = Some (saveKey_write L E key fn o3 w3) \<and>
         private_key_subtype o3 = private_key_subtype opts \<and> format o3 = format opts \<and>
         files w3 = files w \<and> past w3 = past w"
proof -
  have "gen L E opts w = Some (saveKey_write L E key fn o3 w3)"
    unfolding generator_saveKey [OF assms(1,2)] using assms(3-6) by (rule saveKey_stages)
  moreover from saveKey_pass_Return [OF assms(6)] keyMade_options [OF assms(2)]
  have "private_key_subtype o3 = private_key_subtype opts \<and> format o3 = format opts" by simp
  moreover from saveKey_filename_frame [OF assms(4)] saveKey_overwrite_frame [OF assms(5)]
    saveKey_pass_frame [OF assms(6)]
  have "files w3 = files w \<and> past w3 = past w" by simp
  ultimately show ?thesis by simp
qed

lemma generator_subtype:
  assumes "supportedKeyTypes t = Some gen"
    and "keyMade L E t opts key opts1"
    and "KeyTypeMapping (keyType L key) = Some ktn"
    and "saveKey_filename E opts1 ktn w = (Inr fn, w1)"
    and "saveKey_overwrite fn w1 = (Return (), w2)"
    and "saveKey_pass opts1 w2 = Some (Return o3, w3)"
  shows "(toString L key (Some (specSubtype (private_key_subtype opts) (keyType L key)))
            (pass o3) None = Inl e \<longrightarrow>
          gen L E opts w = Some (Raise e, w3)) \<and>
         (toString L key (Some (specSubtype (private_key_subtype opts) (keyType L key)))
            (pass o3) None = Inr priv \<longrightarrow>
          (\<exists>r w'. gen L E opts w = Some (r, w') \<and>
             files w' fn = Some \<lparr>content = priv, mode = 384\<rparr> \<and>
             (\<forall>o'. r = Return o' \<longrightarrow>
                private_key_subtype o' =
                  Some (specSubtype (private_key_subtype opts) (keyType L key)))))"
proof (intro conjI impI)
  note r = generator_reaches_write [OF assms]
  then have g: "gen L E opts w = Some (saveKey_write L E key fn o3 w3)"
    and s: "private_key_subtype o3 = private_key_subtype opts" by simp_all
  {
    assume "toString L key (Some (specSubtype (private_key_subtype opts) (keyType L key)))
            (pass o3) None = Inl e"
    then show "gen L E opts w = Some (Raise e, w3)"
      unfolding g by (simp add: saveKey_write_unfold s)
  next
    assume "toString L key (Some (specSubtype (private_key_subtype opts) (keyType L key)))
            (pass o3) None = Inr priv"
    then have "toString L key (Some (specSubtype (private_key_subtype o3) (keyType L key)))
            (pass o3) None = Inr priv" by (simp add: s)
    from saveKey_write_private [OF this, of E fn w3] obtain r w' where
      w: "saveKey_write L E key fn o3 w3 = (r, w')"
      and f: "files w' fn = Some \<lparr>content = priv, mode = 384\<rparr>" by blast
    have "\<forall>o'. r = Return o' \<longrightarrow>
            private_key_subtype o' = Some (specSubtype (private_key_subtype opts) (keyType L key))"
    proof (intro allI impI)
      fix o' assume "r = Return o'"
      with w have "saveKey_write L E key fn o3 w3 = (Return o', w')" by simp
      from saveKey_write_Return [OF this] s
      show "private_key_subtype o' =
              Some (specSubtype (private_key_subtype opts) (keyType L key))" by auto
    qed
    with w f g have "gen L E opts w = Some (r, w') \<and>
             files w' fn = Some \<lparr>content = priv, mode = 384\<rparr> \<and>
             (\<forall>o'. r = Return o' \<longrightarrow>
                private_key_subtype o' =
                  Some (specSubtype (private_key_subtype opts) (keyType L key)))" by simp
    then show "\<exists>r w'. gen L E opts w = Some (r, w') \<and>
             files w' fn = Some \<lparr>content = priv, mode = 384\<rparr> \<and>
             (\<forall>o'. r = Return o' \<longrightarrow>
                private_key_subtype o' =
                  Some (specSubtype (private_key_subtype opts) (keyType L key)))"
      by (intro exI)
  }
qed

lemma changePassPhrase_subtype:
  assumes "getKeyOrDefault E opts ''rsa'' w = (Inr fn, w0)"
    and "changePassPhrase_load L fn opts w0 = (Return (key, o2), w2)"
    and "changePassPhrase_newpass o2 w2 = Some (Return o3, w3)"
  shows "(toString L key (Some (specSubtype (private_key_subtype opts) (keyType L key)))
            (newpass o3) None = Inl e \<longrightarrow>
          changePassPhrase L E opts w =
            Some (Exit (Some (''Could not change passphrase: '' @ excStr e)), w3)) \<and>
         (toString L key (Some (specSubtype (private_key_subtype opts) (keyType L key)))
            (newpass o3) None = Inr data \<longrightarrow>
          changePassPhrase L E opts w =
            Some (case fromString L data (newpass o3) of
                    Inl x \<Rightarrow>
                      (case x of
                         EncryptedKeyError m \<Rightarrow>
                           (Exit (Some (''Could not change passphrase: '' @ m)), w3)
                       | BadKeyError m \<Rightarrow>
                           (Exit (Some (''Could not change passphrase: '' @ m)), w3)
                       | _ \<Rightarrow> (Raise x, w3))
                  | Inr k' \<Rightarrow>
                      (Return (o3\<lparr>private_key_subtype :=
                                   Some (specSubtype (private_key_subtype opts) (keyType L key))\<rparr>),
                       print ''Your identification has been saved with the new passphrase.''
                         (fdWrite fn data (openWb E fn w3)))))"
proof -
  have run: "changePassPhrase L E opts w = Some (changePassPhrase_write L E fn key o3 w3)"
    using assms by (simp add: changePassPhrase_def changePassPhrase_file_def)
  from changePassPhrase_load_Return [OF assms(2)] changePassPhrase_newpass_Return [OF assms(3)]
  have s: "private_key_subtype o3 = private_key_subtype opts" by simp
  show ?thesis unfolding run changePassPhrase_write_unfold s by simp
qed

text \<open>
  Claim C4. The subtype of the spec is \<open>specSubtype\<close>: the one that the caller gives,
  whatever the key type, else \<open>v1\<close> for an Ed25519 key and \<open>PEM\<close> for every other key.
  Every run of a generator of \<^verbatim>\<open>supportedKeyTypes\<close> that comes to the serialization of the
  private key (the key is made, the path and the passphrase are there) serializes with
  that subtype: when the library rejects it, the run ends with the error of the library
  and nothing written; when the library gives the bytes \<open>priv\<close>, the run ends with these
  bytes in the private key file, and a run that returns has that subtype in its
  options. Every run of a generator that returns is such a run. Every run of
  \<^verbatim>\<open>changePassPhrase\<close> that comes to the serialization (the key is loaded, the new
  passphrase is there) serializes with that subtype: when the library rejects it, the
  run exits with the message of the error; when the library gives the bytes \<open>data\<close>,
  their verification decides, and the run that returns has written these bytes and has
  that subtype in its options. Every run of \<^verbatim>\<open>changePassPhrase\<close> that returns is such a
  run.
\<close>

theorem private_key_subtype_resolved_for_serialization:
  "(supportedKeyTypes t = Some gen \<and> keyMade L E t opts key opts1 \<and>
    KeyTypeMapping (keyType L key) = Some ktn \<and>
    saveKey_filename E opts1 ktn w = (Inr fn, w1) \<and>
    saveKey_overwrite fn w1 = (Return (), w2) \<and>
    saveKey_pass opts1 w2 = Some (Return o3, w3) \<longrightarrow>
      (toString L key (Some (specSubtype (private_key_subtype opts) (keyType L key)))
         (pass o3) None = Inl e \<longrightarrow>
       gen L E opts w = Some (Raise e, w3)) \<and>
      (toString L key (Some (specSubtype (private_key_subtype opts) (keyType L key)))
         (pass o3) None = Inr priv \<longrightarrow>
       (\<exists>r w'. gen L E opts w = Some (r, w') \<and>
          files w' fn = Some \<lparr>content = priv, mode = 384\<rparr> \<and>
          (\<forall>o'. r = Return o' \<longrightarrow>
             private_key_subtype o' =
               Some (specSubtype (private_key_subtype opts) (keyType L key)))))) \<and>
   (supportedKeyTypes t = Some gen \<and> gen L E opts w = Some (Return og, wg) \<longrightarrow>
      (\<exists>key fn priv.
         private_key_subtype og = Some (specSubtype (private_key_subtype opts) (keyType L key)) \<and>
         toString L key (Some (specSubtype (private_key_subtype opts) (keyType L key)))
           (pass og) None = Inr priv \<and>
         files wg fn = Some \<lparr>content = priv, mode = 384\<rparr>)) \<and>
   (getKeyOrDefault E opts ''rsa'' w = (Inr fn, w0) \<and>
    changePassPhrase_load L fn opts w0 = (Return (key, o2), w2) \<and>
    changePassPhrase_newpass o2 w2 = Some (Return o3, w3) \<longrightarrow>
      (toString L key (Some (specSubtype (private_key_subtype opts) (keyType L key)))
         (newpass o3) None = Inl e \<longrightarrow>
       changePassPhrase L E opts w =
         Some (Exit (Some (''Could not change passphrase: '' @ excStr e)), w3)) \<and>
      (toString L key (Some (specSubtype (private_key_subtype opts) (keyType L key)))
         (newpass o3) None = Inr data \<longrightarrow>
       changePassPhrase L E opts w =
         Some (case fromString L data (newpass o3) of
                 Inl x \<Rightarrow>
                   (case x of
                      EncryptedKeyError m \<Rightarrow>
                        (Exit (Some (''Could not change passphrase: '' @ m)), w3)
                    | BadKeyError m \<Rightarrow>
                        (Exit (Some (''Could not change passphrase: '' @ m)), w3)
                    | _ \<Rightarrow> (Raise x, w3))
               | Inr k' \<Rightarrow>
                   (Return (o3\<lparr>private_key_subtype :=
                                Some (specSubtype (private_key_subtype opts) (keyType L key))\<rparr>),
                    print ''Your identification has been saved with the new passphrase.''
                      (fdWrite fn data (openWb E fn w3)))))) \<and>
   (changePassPhrase L E opts w = Some (Return oc, wc) \<longrightarrow>
      (\<exists>fn pw key f data.
         fromFile L fn pw w = Inr key \<and> files w fn = Some f \<and>
         private_key_subtype oc = Some (specSubtype (private_key_subtype opts) (keyType L key)) \<and>
         toString L key (Some (specSubtype (private_key_subtype opts) (keyType L key)))
           (newpass oc) None = Inr data \<and>
         files wc fn = Some (f\<lparr>content := data\<rparr>))) \<and>
   specSubtype (Some s) kt = s \<and> specSubtype None ''Ed25519'' = ''v1'' \<and>
   (kt \<noteq> ''Ed25519'' \<longrightarrow> specSubtype None kt = ''PEM'')"
proof (intro conjI)
  show "supportedKeyTypes t = Some gen \<and> keyMade L E t opts key opts1 \<and>
    KeyTypeMapping (keyType L key) = Some ktn \<and>
    saveKey_filename E opts1 ktn w = (Inr fn, w1) \<and>
    saveKey_overwrite fn w1 = (Return (), w2) \<and>
    saveKey_pass opts1 w2 = Some (Return o3, w3) \<longrightarrow>
      (toString L key (Some (specSubtype (private_key_subtype opts) (keyType L key)))
         (pass o3) None = Inl e \<longrightarrow>
       gen L E opts w = Some (Raise e, w3)) \<and>
      (toString L key (Some (specSubtype (private_key_subtype opts) (keyType L key)))
         (pass o3) None = Inr priv \<longrightarrow>
       (\<exists>r w'. gen L E opts w = Some (r, w') \<and>
          files w' fn = Some \<lparr>content = priv, mode = 384\<rparr> \<and>
          (\<forall>o'. r = Return o' \<longrightarrow>
             private_key_subtype o' =
               Some (specSubtype (private_key_subtype opts) (keyType L key)))))"
  proof
    assume a: "supportedKeyTypes t = Some gen \<and> keyMade L E t opts key opts1 \<and>
      KeyTypeMapping (keyType L key) = Some ktn \<and>
      saveKey_filename E opts1 ktn w = (Inr fn, w1) \<and>
      saveKey_overwrite fn w1 = (Return (), w2) \<and>
      saveKey_pass opts1 w2 = Some (Return o3, w3)"
    then have "supportedKeyTypes t = Some gen" "keyMade L E t opts key opts1"
      "KeyTypeMapping (keyType L key) = Some ktn"
      "saveKey_filename E opts1 ktn w = (Inr fn, w1)"
      "saveKey_overwrite fn w1 = (Return (), w2)"
      "saveKey_pass opts1 w2 = Some (Return o3, w3)" by simp_all
    then show "(toString L key (Some (specSubtype (private_key_subtype opts) (keyType L key)))
         (pass o3) None = Inl e \<longrightarrow>
       gen L E opts w = Some (Raise e, w3)) \<and>
      (toString L key (Some (specSubtype (private_key_subtype opts) (keyType L key)))
         (pass o3) None = Inr priv \<longrightarrow>
       (\<exists>r w'. gen L E opts w = Some (r, w') \<and>
          files w' fn = Some \<lparr>content = priv, mode = 384\<rparr> \<and>
          (\<forall>o'. r = Return o' \<longrightarrow>
             private_key_subtype o' =
               Some (specSubtype (private_key_subtype opts) (keyType L key)))))"
      by (rule generator_subtype)
  qed
next
  show "supportedKeyTypes t = Some gen \<and> gen L E opts w = Some (Return og, wg) \<longrightarrow>
      (\<exists>key fn priv.
         private_key_subtype og = Some (specSubtype (private_key_subtype opts) (keyType L key)) \<and>
         toString L key (Some (specSubtype (private_key_subtype opts) (keyType L key)))
           (pass og) None = Inr priv \<and>
         files wg fn = Some \<lparr>content = priv, mode = 384\<rparr>)"
  proof
    assume "supportedKeyTypes t = Some gen \<and> gen L E opts w = Some (Return og, wg)"
    then have "generated L E opts w (Return og) wg" by (auto intro: supported_generated)
    from generated_Return [OF this] obtain key fn priv pub where *:
      "private_key_subtype og = Some (specSubtype (private_key_subtype opts) (keyType L key))"
      "toString L key (private_key_subtype og) (pass og) None = Inr priv"
      "files wg = (files w)(fn \<mapsto> \<lparr>content = priv, mode = 384\<rparr>,
                            fn @ ''.pub'' \<mapsto> \<lparr>content = pub, mode = tempMode E\<rparr>)" by blast
    then have
      "private_key_subtype og = Some (specSubtype (private_key_subtype opts) (keyType L key)) \<and>
       toString L key (Some (specSubtype (private_key_subtype opts) (keyType L key)))
         (pass og) None = Inr priv \<and>
       files wg fn = Some \<lparr>content = priv, mode = 384\<rparr>" by simp
    then show "\<exists>key fn priv.
         private_key_subtype og = Some (specSubtype (private_key_subtype opts) (keyType L key)) \<and>
         toString L key (Some (specSubtype (private_key_subtype opts) (keyType L key)))
           (pass og) None = Inr priv \<and>
         files wg fn = Some \<lparr>content = priv, mode = 384\<rparr>" by (intro exI)
  qed
next
  show "getKeyOrDefault E opts ''rsa'' w = (Inr fn, w0) \<and>
    changePassPhrase_load L fn opts w0 = (Return (key, o2), w2) \<and>
    changePassPhrase_newpass o2 w2 = Some (Return o3, w3) \<longrightarrow>
      (toString L key (Some (specSubtype (private_key_subtype opts) (keyType L key)))
         (newpass o3) None = Inl e \<longrightarrow>
       changePassPhrase L E opts w =
         Some (Exit (Some (''Could not change passphrase: '' @ excStr e)), w3)) \<and>
      (toString L key (Some (specSubtype (private_key_subtype opts) (keyType L key)))
         (newpass o3) None = Inr data \<longrightarrow>
       changePassPhrase L E opts w =
         Some (case fromString L data (newpass o3) of
                 Inl x \<Rightarrow>
                   (case x of
                      EncryptedKeyError m \<Rightarrow>
                        (Exit (Some (''Could not change passphrase: '' @ m)), w3)
                    | BadKeyError m \<Rightarrow>
                        (Exit (Some (''Could not change passphrase: '' @ m)), w3)
                    | _ \<Rightarrow> (Raise x, w3))
               | Inr k' \<Rightarrow>
                   (Return (o3\<lparr>private_key_subtype :=
                                Some (specSubtype (private_key_subtype opts) (keyType L key))\<rparr>),
                    print ''Your identification has been saved with the new passphrase.''
                      (fdWrite fn data (openWb E fn w3)))))"
  proof
    assume "getKeyOrDefault E opts ''rsa'' w = (Inr fn, w0) \<and>
      changePassPhrase_load L fn opts w0 = (Return (key, o2), w2) \<and>
      changePassPhrase_newpass o2 w2 = Some (Return o3, w3)"
    then have "getKeyOrDefault E opts ''rsa'' w = (Inr fn, w0)"
      "changePassPhrase_load L fn opts w0 = (Return (key, o2), w2)"
      "changePassPhrase_newpass o2 w2 = Some (Return o3, w3)" by simp_all
    then show "(toString L key (Some (specSubtype (private_key_subtype opts) (keyType L key)))
         (newpass o3) None = Inl e \<longrightarrow>
       changePassPhrase L E opts w =
         Some (Exit (Some (''Could not change passphrase: '' @ excStr e)), w3)) \<and>
      (toString L key (Some (specSubtype (private_key_subtype opts) (keyType L key)))
         (newpass o3) None = Inr data \<longrightarrow>
       changePassPhrase L E opts w =
         Some (case fromString L data (newpass o3) of
                 Inl x \<Rightarrow>
                   (case x of
                      EncryptedKeyError m \<Rightarrow>
                        (Exit (Some (''Could not change passphrase: '' @ m)), w3)
                    | BadKeyError m \<Rightarrow>
                        (Exit (Some (''Could not change passphrase: '' @ m)), w3)
                    | _ \<Rightarrow> (Raise x, w3))
               | Inr k' \<Rightarrow>
                   (Return (o3\<lparr>private_key_subtype :=
                                Some (specSubtype (private_key_subtype opts) (keyType L key))\<rparr>),
                    print ''Your identification has been saved with the new passphrase.''
                      (fdWrite fn data (openWb E fn w3)))))"
      by (rule changePassPhrase_subtype)
  qed
next
  show "changePassPhrase L E opts w = Some (Return oc, wc) \<longrightarrow>
      (\<exists>fn pw key f data.
         fromFile L fn pw w = Inr key \<and> files w fn = Some f \<and>
         private_key_subtype oc = Some (specSubtype (private_key_subtype opts) (keyType L key)) \<and>
         toString L key (Some (specSubtype (private_key_subtype opts) (keyType L key)))
           (newpass oc) None = Inr data \<and>
         files wc fn = Some (f\<lparr>content := data\<rparr>))"
  proof
    assume "changePassPhrase L E opts w = Some (Return oc, wc)"
    from changePassPhrase_run [OF this] obtain fn pw key f data where *:
      "fromFile L fn pw w = Inr key" "files w fn = Some f"
      "private_key_subtype oc = Some (specSubtype (private_key_subtype opts) (keyType L key))"
      "toString L key (private_key_subtype oc) (newpass oc) None = Inr data"
      "files wc = (files w)(fn \<mapsto> f\<lparr>content := data\<rparr>)" by auto
    then have
      "fromFile L fn pw w = Inr key \<and> files w fn = Some f \<and>
       private_key_subtype oc = Some (specSubtype (private_key_subtype opts) (keyType L key)) \<and>
       toString L key (Some (specSubtype (private_key_subtype opts) (keyType L key)))
         (newpass oc) None = Inr data \<and>
       files wc fn = Some (f\<lparr>content := data\<rparr>)" by simp
    then show "\<exists>fn pw key f data.
         fromFile L fn pw w = Inr key \<and> files w fn = Some f \<and>
         private_key_subtype oc = Some (specSubtype (private_key_subtype opts) (keyType L key)) \<and>
         toString L key (Some (specSubtype (private_key_subtype opts) (keyType L key)))
           (newpass oc) None = Inr data \<and>
         files wc fn = Some (f\<lparr>content := data\<rparr>)" by (intro exI)
  qed
qed (simp_all add: specSubtype_def)


text \<open>
  An Ed25519 key with the subtype \<open>PEM\<close> given: the library is called with \<open>PEM\<close>, and
  rejects it. An Ed25519 key with no subtype given is written with \<open>v1\<close>. The passphrase
  of an RSA key is changed with the subtype \<open>v1\<close> given: the file is written with \<open>v1\<close>.
\<close>

theorem private_key_subtype_resolved_for_serialization_witness:
  "generateEd25519key toyKeys posixEnv
     (noOptions\<lparr>filename := Some ''/k'', no_passphrase := True,
                private_key_subtype := Some ''PEM''\<rparr>)
     (console Map.empty [] []) =
   Some (Raise (ValueError ''unsupported subtype''), console Map.empty [] []) \<and>
   (\<exists>r w'. generateEd25519key toyKeys posixEnv
             (noOptions\<lparr>filename := Some ''/k'', no_passphrase := True\<rparr>)
             (console Map.empty [] []) = Some (r, w') \<and>
           files w' ''/k'' = Some \<lparr>content = ''Xv'', mode = 384\<rparr>) \<and>
   (\<exists>o' w'. changePassPhrase toyKeys posixEnv
             (noOptions\<lparr>filename := Some ''/k'', newpass := Some ''new'',
                        private_key_subtype := Some ''v1''\<rparr>)
             (console [''/k'' \<mapsto> \<lparr>content = ''RP'', mode = 384\<rparr>] [] []) =
           Some (Return o', w') \<and>
           files w' ''/k'' = Some \<lparr>content = ''Rvnew'', mode = 384\<rparr>)"
proof (intro conjI)
  let ?key = "ToyKey (CHR ''X'') True"
  let ?o = "noOptions\<lparr>filename := Some ''/k'', no_passphrase := True,
                       private_key_subtype := Some ''PEM''\<rparr>"
  let ?w = "console Map.empty [] []"
  have s: "supportedKeyTypes ''ed25519'' = Some generateEd25519key"
    by (simp add: supportedKeyTypes_simps)
  have m: "keyMade toyKeys posixEnv ''ed25519'' ?o ?key ?o"
    by (simp add: keyMade_def toyKeys_def)
  have k: "KeyTypeMapping (keyType toyKeys ?key) = Some ''ed25519''"
    by (simp add: toyKeys_simps toyType_def KeyTypeMapping_def)
  have f: "saveKey_filename posixEnv ?o ''ed25519'' ?w = (Inr ''/k'', ?w)"
    by (simp add: saveKey_filename_def truthy_def noOptions_def)
  have ov: "saveKey_overwrite ''/k'' ?w = (Return (), ?w)"
    by (simp add: saveKey_overwrite_def exists_def console_simps)
  have p: "saveKey_pass ?o ?w = Some (Return (?o\<lparr>pass := Some []\<rparr>), ?w)"
    by (simp add: saveKey_pass_def)
  have t: "toString toyKeys ?key
             (Some (specSubtype (private_key_subtype ?o) (keyType toyKeys ?key)))
             (pass (?o\<lparr>pass := Some []\<rparr>)) None = Inl (ValueError ''unsupported subtype'')"
    by (simp add: toyKeys_simps toyType_def specSubtype_def noOptions_def)
  have stage: "supportedKeyTypes ''ed25519'' = Some generateEd25519key \<and>
    keyMade toyKeys posixEnv ''ed25519'' ?o ?key ?o \<and>
    KeyTypeMapping (keyType toyKeys ?key) = Some ''ed25519'' \<and>
    saveKey_filename posixEnv ?o ''ed25519'' ?w = (Inr ''/k'', ?w) \<and>
    saveKey_overwrite ''/k'' ?w = (Return (), ?w) \<and>
    saveKey_pass ?o ?w = Some (Return (?o\<lparr>pass := Some []\<rparr>), ?w)"
    by (intro conjI s m k f ov p)
  from private_key_subtype_resolved_for_serialization
         [THEN conjunct1, THEN mp, OF stage, THEN conjunct1, THEN mp, OF t]
  show "generateEd25519key toyKeys posixEnv ?o ?w =
          Some (Raise (ValueError ''unsupported subtype''), ?w)" .
next
  let ?key = "ToyKey (CHR ''X'') True"
  let ?o = "noOptions\<lparr>filename := Some ''/k'', no_passphrase := True\<rparr>"
  let ?w = "console Map.empty [] []"
  have s: "supportedKeyTypes ''ed25519'' = Some generateEd25519key"
    by (simp add: supportedKeyTypes_simps)
  have m: "keyMade toyKeys posixEnv ''ed25519'' ?o ?key ?o"
    by (simp add: keyMade_def toyKeys_def)
  have k: "KeyTypeMapping (keyType toyKeys ?key) = Some ''ed25519''"
    by (simp add: toyKeys_simps toyType_def KeyTypeMapping_def)
  have f: "saveKey_filename posixEnv ?o ''ed25519'' ?w = (Inr ''/k'', ?w)"
    by (simp add: saveKey_filename_def truthy_def noOptions_def)
  have ov: "saveKey_overwrite ''/k'' ?w = (Return (), ?w)"
    by (simp add: saveKey_overwrite_def exists_def console_simps)
  have p: "saveKey_pass ?o ?w = Some (Return (?o\<lparr>pass := Some []\<rparr>), ?w)"
    by (simp add: saveKey_pass_def)
  have t: "toString toyKeys ?key
             (Some (specSubtype (private_key_subtype ?o) (keyType toyKeys ?key)))
             (pass (?o\<lparr>pass := Some []\<rparr>)) None = Inr ''Xv''"
    by (simp add: toyKeys_simps toyType_def specSubtype_def noOptions_def)
  have stage: "supportedKeyTypes ''ed25519'' = Some generateEd25519key \<and>
    keyMade toyKeys posixEnv ''ed25519'' ?o ?key ?o \<and>
    KeyTypeMapping (keyType toyKeys ?key) = Some ''ed25519'' \<and>
    saveKey_filename posixEnv ?o ''ed25519'' ?w = (Inr ''/k'', ?w) \<and>
    saveKey_overwrite ''/k'' ?w = (Return (), ?w) \<and>
    saveKey_pass ?o ?w = Some (Return (?o\<lparr>pass := Some []\<rparr>), ?w)"
    by (intro conjI s m k f ov p)
  from private_key_subtype_resolved_for_serialization
         [THEN conjunct1, THEN mp, OF stage, THEN conjunct2, THEN mp, OF t]
  obtain r w' where "generateEd25519key toyKeys posixEnv ?o ?w = Some (r, w')"
    "files w' ''/k'' = Some \<lparr>content = ''Xv'', mode = 384\<rparr>" by blast
  then have "generateEd25519key toyKeys posixEnv ?o ?w = Some (r, w') \<and>
    files w' ''/k'' = Some \<lparr>content = ''Xv'', mode = 384\<rparr>" by simp
  then show "\<exists>r w'. generateEd25519key toyKeys posixEnv ?o ?w = Some (r, w') \<and>
           files w' ''/k'' = Some \<lparr>content = ''Xv'', mode = 384\<rparr>" by (intro exI)
next
  let ?key = "ToyKey (CHR ''R'') True"
  let ?o = "noOptions\<lparr>filename := Some ''/k'', newpass := Some ''new'',
                       private_key_subtype := Some ''v1''\<rparr>"
  let ?w = "console [''/k'' \<mapsto> \<lparr>content = ''RP'', mode = 384\<rparr>] [] []"
  let ?w' = "print ''Your identification has been saved with the new passphrase.''
               (fdWrite ''/k'' ''Rvnew'' (openWb posixEnv ''/k'' ?w))"
  have g: "getKeyOrDefault posixEnv ?o ''rsa'' ?w = (Inr ''/k'', ?w)"
    by (simp add: getKeyOrDefault_def truthy_def noOptions_def)
  have l: "changePassPhrase_load toyKeys ''/k'' ?o ?w = (Return (?key, ?o), ?w)"
    by (simp add: changePassPhrase_load_def fromFile_def console_simps toyKeys_simps)
  have n: "changePassPhrase_newpass ?o ?w = Some (Return ?o, ?w)"
    by (simp add: changePassPhrase_newpass_def truthy_def noOptions_def)
  have t: "toString toyKeys ?key
             (Some (specSubtype (private_key_subtype ?o) (keyType toyKeys ?key)))
             (newpass ?o) None = Inr ''Rvnew''"
    by (simp add: toyKeys_simps toyType_def specSubtype_def noOptions_def)
  have stage: "getKeyOrDefault posixEnv ?o ''rsa'' ?w = (Inr ''/k'', ?w) \<and>
    changePassPhrase_load toyKeys ''/k'' ?o ?w = (Return (?key, ?o), ?w) \<and>
    changePassPhrase_newpass ?o ?w = Some (Return ?o, ?w)"
    by (intro conjI g l n)
  note run = private_key_subtype_resolved_for_serialization
         [THEN conjunct2, THEN conjunct2, THEN conjunct1, THEN mp, OF stage,
          THEN conjunct2, THEN mp, OF t]
  have "changePassPhrase toyKeys posixEnv ?o ?w =
          Some (Return (?o\<lparr>private_key_subtype := Some ''v1''\<rparr>), ?w')"
    unfolding run by (simp add: toyKeys_simps toyType_def specSubtype_def noOptions_def)
  moreover have "files ?w' ''/k'' = Some \<lparr>content = ''Rvnew'', mode = 384\<rparr>"
    by (simp add: print_def fdWrite_def openWb_def commit_def console_simps)
  ultimately have "changePassPhrase toyKeys posixEnv ?o ?w =
          Some (Return (?o\<lparr>private_key_subtype := Some ''v1''\<rparr>), ?w') \<and>
      files ?w' ''/k'' = Some \<lparr>content = ''Rvnew'', mode = 384\<rparr>" by simp
  then show "\<exists>o' w'. changePassPhrase toyKeys posixEnv ?o ?w = Some (Return o', w') \<and>
           files w' ''/k'' = Some \<lparr>content = ''Rvnew'', mode = 384\<rparr>" by (intro exI)
qed

lemma toy_ed25519_run:
  "generateEd25519key toyKeys posixEnv
     (noOptions\<lparr>filename := Some ''/k'', no_passphrase := True\<rparr>) (console Map.empty [] []) =
   Some (Return (noOptions\<lparr>filename := Some ''/k'', no_passphrase := True,
                          pass := Some [], private_key_subtype := Some ''v1'',
                          format := FEnum SHA256_BASE64\<rparr>),
         print ''SHA256:toy''
           (print ''The key fingerprint in <FingerprintFormats=SHA256_BASE64> is:''
              (print ''Your public key has been saved in /k.pub''
                 (print ''Your identification has been saved in /k''
                    (bothWritten posixEnv ''/k'' ''Xv'' ''Xu alice@wonderland''
                       (console Map.empty [] []))))))"
proof -
  let ?key = "ToyKey (CHR ''X'') True"
  let ?o = "noOptions\<lparr>filename := Some ''/k'', no_passphrase := True\<rparr>"
  let ?w = "console Map.empty [] []"
  have g: "generateEd25519key toyKeys posixEnv ?o ?w = saveKey toyKeys posixEnv ?key ?o ?w"
    by (simp add: generateEd25519key_def toyKeys_def)
  have k: "KeyTypeMapping (keyType toyKeys ?key) = Some ''ed25519''"
    by (simp add: toyKeys_simps toyType_def KeyTypeMapping_def)
  have f: "saveKey_filename posixEnv ?o ''ed25519'' ?w = (Inr ''/k'', ?w)"
    by (simp add: saveKey_filename_def truthy_def noOptions_def)
  have ov: "saveKey_overwrite ''/k'' ?w = (Return (), ?w)"
    by (simp add: saveKey_overwrite_def exists_def console_def)
  have p: "saveKey_pass ?o ?w = Some (Return (?o\<lparr>pass := Some []\<rparr>), ?w)"
    by (simp add: saveKey_pass_def)
  have "saveKey toyKeys posixEnv ?key ?o ?w =
        Some (saveKey_write toyKeys posixEnv ?key ''/k'' (?o\<lparr>pass := Some []\<rparr>) ?w)"
    using k f ov p by (rule saveKey_stages)
  also have "saveKey_write toyKeys posixEnv ?key ''/k'' (?o\<lparr>pass := Some []\<rparr>) ?w =
      (Return (?o\<lparr>pass := Some [], private_key_subtype := Some ''v1'',
                   format := FEnum SHA256_BASE64\<rparr>),
       print ''SHA256:toy''
         (print ''The key fingerprint in <FingerprintFormats=SHA256_BASE64> is:''
            (print ''Your public key has been saved in /k.pub''
               (print ''Your identification has been saved in /k''
                  (bothWritten posixEnv ''/k'' ''Xv'' ''Xu alice@wonderland'' ?w)))))"
    by (simp add: saveKey_write_unfold toyKeys_simps toyType_def specSubtype_def noOptions_def
          posixEnv_simps enumrepresentation_def keyFingerprint_def)
  finally show ?thesis unfolding g by simp
qed

lemma toy_changePassPhrase_run:
  "changePassPhrase toyKeys posixEnv (noOptions\<lparr>filename := Some ''/k'', newpass := Some ''new''\<rparr>)
     (console [''/k'' \<mapsto> \<lparr>content = ''RP'', mode = 384\<rparr>] [] []) =
   Some (Return (noOptions\<lparr>filename := Some ''/k'', newpass := Some ''new'',
                          private_key_subtype := Some ''PEM''\<rparr>),
         print ''Your identification has been saved with the new passphrase.''
           (fdWrite ''/k'' ''RPnew''
              (openWb posixEnv ''/k''
                 (console [''/k'' \<mapsto> \<lparr>content = ''RP'', mode = 384\<rparr>] [] []))))"
  by (simp add: changePassPhrase_def changePassPhrase_file_def getKeyOrDefault_def
        changePassPhrase_load_def changePassPhrase_newpass_def changePassPhrase_write_unfold
        specSubtype_def fromFile_def truthy_def noOptions_def console_def toyKeys_simps
        toyType_def)

section \<open>The fingerprint format of generate\<close>

lemma bothWritten_simps:
  "files (bothWritten E fn priv pub w) =
     (files w)(fn \<mapsto> \<lparr>content = priv, mode = 384\<rparr>,
               fn @ ''.pub'' \<mapsto> \<lparr>content = pub, mode = tempMode E\<rparr>)"
  "log (bothWritten E fn priv pub w) = log w"
  by (simp_all add: bothWritten_def)

lemma bothWritten_past:
  "past (bothWritten E fn priv pub w) =
     (files w)(fn \<mapsto> \<lparr>content = priv, mode = 384\<rparr>)
     # (files w)(fn \<mapsto> \<lparr>content = priv, mode = tempMode E\<rparr>) # files w # past w"
  by (simp add: bothWritten_def)

text \<open>
  Claim C9. Let the fingerprint format of the options be neither \<open>md5-hex\<close> nor
  \<open>sha256-base64\<close>. Then no generator of \<^verbatim>\<open>supportedKeyTypes\<close> returns. And every run of a
  generator that comes to the two serializations (the key is made, the path and the
  passphrase are there) with both succeeding ends with \<^verbatim>\<open>BadFingerPrintFormat\<close>, raised by
  the check of line 398, in the world where the private file has been written and
  restricted to the mode \<^verbatim>\<open>0o600\<close>, the public file has been written after it, both are
  on disk, and nothing has been printed since the passphrase step.
\<close>

theorem generators_check_format_after_writing:
  assumes "format opts \<noteq> FStr ''md5-hex''" and "format opts \<noteq> FStr ''sha256-base64''"
  shows "(supportedKeyTypes t = Some gen \<longrightarrow>
            (\<forall>o' w'. gen L E opts w \<noteq> Some (Return o', w'))) \<and>
         (supportedKeyTypes t = Some gen \<and> keyMade L E t opts key opts1 \<and>
          KeyTypeMapping (keyType L key) = Some ktn \<and>
          saveKey_filename E opts1 ktn w = (Inr fn, w1) \<and>
          saveKey_overwrite fn w1 = (Return (), w2) \<and>
          saveKey_pass opts1 w2 = Some (Return o3, w3) \<and>
          toString L key (Some (specSubtype (private_key_subtype opts) (keyType L key)))
            (pass o3) None = Inr priv \<and>
          toString L (public L key) None None (Some (getuser E @ ''@'' @ gethostname E)) = Inr pub
          \<longrightarrow>
            gen L E opts w =
              Some (Raise (BadFingerPrintFormat
                             (''Unsupported fingerprint format: '' @ fmtStr (format opts))),
                    bothWritten E fn priv pub w3) \<and>
            files (bothWritten E fn priv pub w3) =
              (files w)(fn \<mapsto> \<lparr>content = priv, mode = 384\<rparr>,
                        fn @ ''.pub'' \<mapsto> \<lparr>content = pub, mode = tempMode E\<rparr>) \<and>
            past (bothWritten E fn priv pub w3) =
              (files w)(fn \<mapsto> \<lparr>content = priv, mode = 384\<rparr>)
              # (files w)(fn \<mapsto> \<lparr>content = priv, mode = tempMode E\<rparr>) # files w # past w \<and>
            log (bothWritten E fn priv pub w3) = log w3)"
proof (intro conjI allI impI)
  fix o' w'
  assume s: "supportedKeyTypes t = Some gen"
  show "gen L E opts w \<noteq> Some (Return o', w')"
  proof
    assume "gen L E opts w = Some (Return o', w')"
    with s have "generated L E opts w (Return o') w'" by (rule supported_generated)
    from generated_Return [OF this] assms show False by blast
  qed
next
  assume a: "supportedKeyTypes t = Some gen \<and> keyMade L E t opts key opts1 \<and>
          KeyTypeMapping (keyType L key) = Some ktn \<and>
          saveKey_filename E opts1 ktn w = (Inr fn, w1) \<and>
          saveKey_overwrite fn w1 = (Return (), w2) \<and>
          saveKey_pass opts1 w2 = Some (Return o3, w3) \<and>
          toString L key (Some (specSubtype (private_key_subtype opts) (keyType L key)))
            (pass o3) None = Inr priv \<and>
          toString L (public L key) None None (Some (getuser E @ ''@'' @ gethostname E)) = Inr pub"
  then have "supportedKeyTypes t = Some gen" "keyMade L E t opts key opts1"
    "KeyTypeMapping (keyType L key) = Some ktn"
    "saveKey_filename E opts1 ktn w = (Inr fn, w1)"
    "saveKey_overwrite fn w1 = (Return (), w2)"
    "saveKey_pass opts1 w2 = Some (Return o3, w3)" by simp_all
  then have r: "gen L E opts w = Some (saveKey_write L E key fn o3 w3) \<and>
         private_key_subtype o3 = private_key_subtype opts \<and> format o3 = format opts \<and>
         files w3 = files w \<and> past w3 = past w"
    by (rule generator_reaches_write)
  then have o3: "private_key_subtype o3 = private_key_subtype opts" "format o3 = format opts"
    and f3: "files w3 = files w" "past w3 = past w" by simp_all
  from a have a5: "toString L key (Some (specSubtype (private_key_subtype opts) (keyType L key)))
            (pass o3) None = Inr priv"
    and a6: "toString L (public L key) None None (Some (getuser E @ ''@'' @ gethostname E)) = Inr pub"
    by simp_all
  have en: "enumrepresentation (o3\<lparr>private_key_subtype := x\<rparr>) =
            Inl (BadFingerPrintFormat (''Unsupported fingerprint format: '' @ fmtStr (format opts)))"
    for x
    using enumrepresentation_Inl [of "o3\<lparr>private_key_subtype := x\<rparr>"] assms o3 by simp
  from a5 a6 o3 have "saveKey_write L E key fn o3 w3 =
      (Raise (BadFingerPrintFormat (''Unsupported fingerprint format: '' @ fmtStr (format opts))),
       bothWritten E fn priv pub w3)"
    by (simp add: saveKey_write_unfold en)
  with r show "gen L E opts w =
              Some (Raise (BadFingerPrintFormat
                             (''Unsupported fingerprint format: '' @ fmtStr (format opts))),
                    bothWritten E fn priv pub w3)" by simp
  show "files (bothWritten E fn priv pub w3) =
              (files w)(fn \<mapsto> \<lparr>content = priv, mode = 384\<rparr>,
                        fn @ ''.pub'' \<mapsto> \<lparr>content = pub, mode = tempMode E\<rparr>)"
    by (simp add: bothWritten_simps f3)
  show "past (bothWritten E fn priv pub w3) =
              (files w)(fn \<mapsto> \<lparr>content = priv, mode = 384\<rparr>)
              # (files w)(fn \<mapsto> \<lparr>content = priv, mode = tempMode E\<rparr>) # files w # past w"
    by (simp add: bothWritten_past f3)
  show "log (bothWritten E fn priv pub w3) = log w3"
    by (simp add: bothWritten_simps)
qed

text \<open>
  The DSA generator with the format \<open>sha1\<close>: both files are written, then the error.
\<close>

theorem generators_check_format_after_writing_witness:
  "\<exists>w'. generateDSAkey toyKeys posixEnv
          (noOptions\<lparr>filename := Some ''/k'', no_passphrase := True, format := FStr ''sha1''\<rparr>)
          (console Map.empty [] []) =
        Some (Raise (BadFingerPrintFormat ''Unsupported fingerprint format: sha1''), w') \<and>
      files w' = [''/k'' \<mapsto> \<lparr>content = ''DP'', mode = 384\<rparr>,
                  ''/k.pub'' \<mapsto> \<lparr>content = ''Du alice@wonderland'', mode = 493\<rparr>] \<and>
      log w' = []"
proof -
  let ?key = "ToyKey (CHR ''D'') True"
  let ?given = "noOptions\<lparr>filename := Some ''/k'', no_passphrase := True, format := FStr ''sha1''\<rparr>"
  let ?o = "?given\<lparr>bits := BInt 1024\<rparr>"
  let ?w = "console Map.empty [] []"
  have fm: "format ?given \<noteq> FStr ''md5-hex''" "format ?given \<noteq> FStr ''sha256-base64''"
    by simp_all
  have s: "supportedKeyTypes ''dsa'' = Some generateDSAkey" by (simp add: supportedKeyTypes_simps)
  have m: "keyMade toyKeys posixEnv ''dsa'' ?given ?key ?o"
    by (simp add: keyMade_def noOptions_def toyKeys_def)
  have k: "KeyTypeMapping (keyType toyKeys ?key) = Some ''dsa''"
    by (simp add: toyKeys_simps toyType_def KeyTypeMapping_def)
  have f: "saveKey_filename posixEnv ?o ''dsa'' ?w = (Inr ''/k'', ?w)"
    by (simp add: saveKey_filename_def truthy_def noOptions_def)
  have ov: "saveKey_overwrite ''/k'' ?w = (Return (), ?w)"
    by (simp add: saveKey_overwrite_def exists_def console_def)
  have p: "saveKey_pass ?o ?w = Some (Return (?o\<lparr>pass := Some []\<rparr>), ?w)"
    by (simp add: saveKey_pass_def)
  have t1: "toString toyKeys ?key
              (Some (specSubtype (private_key_subtype ?given) (keyType toyKeys ?key)))
              (pass (?o\<lparr>pass := Some []\<rparr>)) None = Inr ''DP''"
    by (simp add: toyKeys_simps toyType_def specSubtype_def noOptions_def)
  have t2: "toString toyKeys (public toyKeys ?key) None None
              (Some (getuser posixEnv @ ''@'' @ gethostname posixEnv)) = Inr ''Du alice@wonderland''"
    by (simp add: toyKeys_simps posixEnv_simps)
  have stage: "supportedKeyTypes ''dsa'' = Some generateDSAkey \<and>
      keyMade toyKeys posixEnv ''dsa'' ?given ?key ?o \<and>
      KeyTypeMapping (keyType toyKeys ?key) = Some ''dsa'' \<and>
      saveKey_filename posixEnv ?o ''dsa'' ?w = (Inr ''/k'', ?w) \<and>
      saveKey_overwrite ''/k'' ?w = (Return (), ?w) \<and>
      saveKey_pass ?o ?w = Some (Return (?o\<lparr>pass := Some []\<rparr>), ?w) \<and>
      toString toyKeys ?key
        (Some (specSubtype (private_key_subtype ?given) (keyType toyKeys ?key)))
        (pass (?o\<lparr>pass := Some []\<rparr>)) None = Inr ''DP'' \<and>
      toString toyKeys (public toyKeys ?key) None None
        (Some (getuser posixEnv @ ''@'' @ gethostname posixEnv)) = Inr ''Du alice@wonderland''"
    by (intro conjI s m k f ov p t1 t2)
  note run = generators_check_format_after_writing [OF fm, THEN conjunct2, THEN mp, OF stage]
  let ?w' = "bothWritten posixEnv ''/k'' ''DP'' ''Du alice@wonderland'' ?w"
  from run have "generateDSAkey toyKeys posixEnv ?given ?w =
        Some (Raise (BadFingerPrintFormat ''Unsupported fingerprint format: sha1''), ?w')"
    by simp
  moreover from run have "files ?w' =
      [''/k'' \<mapsto> \<lparr>content = ''DP'', mode = 384\<rparr>,
       ''/k.pub'' \<mapsto> \<lparr>content = ''Du alice@wonderland'', mode = 493\<rparr>]"
    by (simp add: console_simps posixEnv_simps)
  moreover from run have "log ?w' = []" by (simp add: console_simps)
  ultimately have "generateDSAkey toyKeys posixEnv ?given ?w =
        Some (Raise (BadFingerPrintFormat ''Unsupported fingerprint format: sha1''), ?w') \<and>
      files ?w' = [''/k'' \<mapsto> \<lparr>content = ''DP'', mode = 384\<rparr>,
                  ''/k.pub'' \<mapsto> \<lparr>content = ''Du alice@wonderland'', mode = 493\<rparr>] \<and>
      log ?w' = []" by simp
  then show ?thesis by (intro exI)
qed

section \<open>printFingerprint\<close>





end
